theory Spec2Isabelle
  imports Main "HOL-Library.Sublist" "HOL-Library.AList"
begin

section \<open>Python strings\<close>

text \<open>
  A Python \<open>str\<close> is a sequence of Unicode code points. The model keeps a text as a
  \<open>string\<close>, the bytes of its UTF-8 encoding, and goes to the code points where the program
  uses an operation that depends on them: \<open>lower\<close>, \<open>upper\<close>, \<open>strip\<close> and \<open>split\<close>.
  A byte that is not part of an encoded code point is kept as a value above the code
  points, so that decoding loses nothing.
\<close>

definition continuation :: "int \<Rightarrow> bool" where
  "continuation b \<longleftrightarrow> 128 \<le> b \<and> b < 192"

text \<open>
  The code point that starts with the byte \<open>n\<close> and continues with the first bytes of
  \<open>bs\<close>, with the number of bytes it takes from \<open>bs\<close>.
\<close>

definition utf8_head :: "int \<Rightarrow> int list \<Rightarrow> (int \<times> nat) option" where
  "utf8_head n bs =
     (if 194 \<le> n \<and> n \<le> 223 then
        (case bs of
           b # _ \<Rightarrow> if continuation b then Some ((n - 192) * 64 + (b - 128), 1) else None
         | [] \<Rightarrow> None)
      else if 224 \<le> n \<and> n \<le> 239 then
        (case bs of
           b # c # _ \<Rightarrow>
             (let cp = (n - 224) * 4096 + (b - 128) * 64 + (c - 128)
              in if continuation b \<and> continuation c \<and> 2048 \<le> cp then Some (cp, 2) else None)
         | _ \<Rightarrow> None)
      else if 240 \<le> n \<and> n \<le> 244 then
        (case bs of
           b # c # d # _ \<Rightarrow>
             (let cp = (n - 240) * 262144 + (b - 128) * 4096 + (c - 128) * 64 + (d - 128)
              in if continuation b \<and> continuation c \<and> continuation d
                    \<and> 65536 \<le> cp \<and> cp < 1114112
                 then Some (cp, 3) else None)
         | _ \<Rightarrow> None)
      else None)"

function decode :: "string \<Rightarrow> int list" where
  "decode [] = []"
| "decode (a # s) =
     (if (of_char a :: int) < 128 then of_char a # decode s
      else (case utf8_head (of_char a) (map of_char (take 3 s)) of
              Some (cp, k) \<Rightarrow> cp # decode (drop k s)
            | None \<Rightarrow> (1114112 + of_char a) # decode s))"
  by pat_completeness auto
termination
  by (relation "measure length") auto

definition encode_cp :: "int \<Rightarrow> string" where
  "encode_cp c =
     (if c < 128 then [char_of c]
      else if c < 2048 then [char_of (192 + c div 64), char_of (128 + c mod 64)]
      else if c < 65536 then
        [char_of (224 + c div 4096), char_of (128 + c div 64 mod 64), char_of (128 + c mod 64)]
      else if c < 1114112 then
        [char_of (240 + c div 262144), char_of (128 + c div 4096 mod 64),
         char_of (128 + c div 64 mod 64), char_of (128 + c mod 64)]
      else [char_of (c - 1114112)])"

definition encode :: "int list \<Rightarrow> string" where
  "encode cps = concat (map encode_cp cps)"

text \<open>
  The code points for which \<open>str.isspace\<close> holds; \<open>strip\<close> and \<open>split\<close> take the same ones
  for whitespace.
\<close>

definition whitespace :: "int list" where
  "whitespace =
    [9, 10, 11, 12, 13, 28, 29, 30, 31, 32, 133, 160, 5760, 8192, 8193, 8194, 8195, 8196, 8197,
     8198, 8199, 8200, 8201, 8202, 8232, 8233, 8239, 8287, 12288]"

definition is_space :: "int \<Rightarrow> bool" where
  "is_space c \<longleftrightarrow> c \<in> set whitespace"

text \<open>\<open>s.strip()\<close>, on code points.\<close>

definition strip :: "int list \<Rightarrow> int list" where
  "strip s = rev (dropWhile is_space (rev (dropWhile is_space s)))"

text \<open>\<open>s.split()\<close>: the maximal runs of non-whitespace code points; \<open>w\<close> is the run being read.\<close>

fun split_ws :: "int list \<Rightarrow> int list \<Rightarrow> int list list" where
  "split_ws w [] = (if w = [] then [] else [w])"
| "split_ws w (c # cs) =
     (if is_space c then (if w = [] then split_ws [] cs else w # split_ws [] cs)
      else split_ws (w @ [c]) cs)"

definition split :: "int list \<Rightarrow> int list list" where
  "split s = split_ws [] s"

text \<open>
  The case mappings of the interpreter (CPython 3.11, Unicode 14.0.0), read off
  \<open>str.lower\<close> and \<open>str.upper\<close> code point by code point. An entry \<open>(lo, hi, step,
  delta)\<close> maps the code points \<open>lo\<close>, \<open>lo + step\<close>, ... up to \<open>hi\<close> by adding
  \<open>delta\<close>; the entries are in ascending order of \<open>lo\<close>.
\<close>

definition lower_table :: "(int \<times> int \<times> int \<times> int) list" where
  "lower_table =
    [(65, 90, 1, 32), (192, 214, 1, 32), (216, 222, 1, 32), (256, 302, 2, 1), (306, 310, 2, 1),
     (313, 327, 2, 1), (330, 374, 2, 1), (376, 376, 1, - 121), (377, 381, 2, 1),
     (385, 385, 1, 210), (386, 388, 2, 1), (390, 390, 1, 206), (391, 391, 1, 1),
     (393, 394, 1, 205), (395, 395, 1, 1), (398, 398, 1, 79), (399, 399, 1, 202),
     (400, 400, 1, 203), (401, 401, 1, 1), (403, 403, 1, 205), (404, 404, 1, 207),
     (406, 406, 1, 211), (407, 407, 1, 209), (408, 408, 1, 1), (412, 412, 1, 211),
     (413, 413, 1, 213), (415, 415, 1, 214), (416, 420, 2, 1), (422, 422, 1, 218),
     (423, 423, 1, 1), (425, 425, 1, 218), (428, 428, 1, 1), (430, 430, 1, 218),
     (431, 431, 1, 1), (433, 434, 1, 217), (435, 437, 2, 1), (439, 439, 1, 219),
     (440, 440, 1, 1), (444, 444, 1, 1), (452, 452, 1, 2), (453, 453, 1, 1), (455, 455, 1, 2),
     (456, 456, 1, 1), (458, 458, 1, 2), (459, 475, 2, 1), (478, 494, 2, 1), (497, 497, 1, 2),
     (498, 500, 2, 1), (502, 502, 1, - 97), (503, 503, 1, - 56), (504, 542, 2, 1),
     (544, 544, 1, - 130), (546, 562, 2, 1), (570, 570, 1, 10795), (571, 571, 1, 1),
     (573, 573, 1, - 163), (574, 574, 1, 10792), (577, 577, 1, 1), (579, 579, 1, - 195),
     (580, 580, 1, 69), (581, 581, 1, 71), (582, 590, 2, 1), (880, 882, 2, 1), (886, 886, 1, 1),
     (895, 895, 1, 116), (902, 902, 1, 38), (904, 906, 1, 37), (908, 908, 1, 64),
     (910, 911, 1, 63), (913, 929, 1, 32), (931, 939, 1, 32), (975, 975, 1, 8),
     (984, 1006, 2, 1), (1012, 1012, 1, - 60), (1015, 1015, 1, 1), (1017, 1017, 1, - 7),
     (1018, 1018, 1, 1), (1021, 1023, 1, - 130), (1024, 1039, 1, 80), (1040, 1071, 1, 32),
     (1120, 1152, 2, 1), (1162, 1214, 2, 1), (1216, 1216, 1, 15), (1217, 1229, 2, 1),
     (1232, 1326, 2, 1), (1329, 1366, 1, 48), (4256, 4293, 1, 7264), (4295, 4295, 1, 7264),
     (4301, 4301, 1, 7264), (5024, 5103, 1, 38864), (5104, 5109, 1, 8), (7312, 7354, 1, - 3008),
     (7357, 7359, 1, - 3008), (7680, 7828, 2, 1), (7838, 7838, 1, - 7615), (7840, 7934, 2, 1),
     (7944, 7951, 1, - 8), (7960, 7965, 1, - 8), (7976, 7983, 1, - 8), (7992, 7999, 1, - 8),
     (8008, 8013, 1, - 8), (8025, 8031, 2, - 8), (8040, 8047, 1, - 8), (8072, 8079, 1, - 8),
     (8088, 8095, 1, - 8), (8104, 8111, 1, - 8), (8120, 8121, 1, - 8), (8122, 8123, 1, - 74),
     (8124, 8124, 1, - 9), (8136, 8139, 1, - 86), (8140, 8140, 1, - 9), (8152, 8153, 1, - 8),
     (8154, 8155, 1, - 100), (8168, 8169, 1, - 8), (8170, 8171, 1, - 112), (8172, 8172, 1, - 7),
     (8184, 8185, 1, - 128), (8186, 8187, 1, - 126), (8188, 8188, 1, - 9),
     (8486, 8486, 1, - 7517), (8490, 8490, 1, - 8383), (8491, 8491, 1, - 8262),
     (8498, 8498, 1, 28), (8544, 8559, 1, 16), (8579, 8579, 1, 1), (9398, 9423, 1, 26),
     (11264, 11311, 1, 48), (11360, 11360, 1, 1), (11362, 11362, 1, - 10743),
     (11363, 11363, 1, - 3814), (11364, 11364, 1, - 10727), (11367, 11371, 2, 1),
     (11373, 11373, 1, - 10780), (11374, 11374, 1, - 10749), (11375, 11375, 1, - 10783),
     (11376, 11376, 1, - 10782), (11378, 11378, 1, 1), (11381, 11381, 1, 1),
     (11390, 11391, 1, - 10815), (11392, 11490, 2, 1), (11499, 11501, 2, 1),
     (11506, 11506, 1, 1), (42560, 42604, 2, 1), (42624, 42650, 2, 1), (42786, 42798, 2, 1),
     (42802, 42862, 2, 1), (42873, 42875, 2, 1), (42877, 42877, 1, - 35332),
     (42878, 42886, 2, 1), (42891, 42891, 1, 1), (42893, 42893, 1, - 42280),
     (42896, 42898, 2, 1), (42902, 42920, 2, 1), (42922, 42922, 1, - 42308),
     (42923, 42923, 1, - 42319), (42924, 42924, 1, - 42315), (42925, 42925, 1, - 42305),
     (42926, 42926, 1, - 42308), (42928, 42928, 1, - 42258), (42929, 42929, 1, - 42282),
     (42930, 42930, 1, - 42261), (42931, 42931, 1, 928), (42932, 42946, 2, 1),
     (42948, 42948, 1, - 48), (42949, 42949, 1, - 42307), (42950, 42950, 1, - 35384),
     (42951, 42953, 2, 1), (42960, 42960, 1, 1), (42966, 42968, 2, 1), (42997, 42997, 1, 1),
     (65313, 65338, 1, 32), (66560, 66599, 1, 40), (66736, 66771, 1, 40), (66928, 66938, 1, 39),
     (66940, 66954, 1, 39), (66956, 66962, 1, 39), (66964, 66965, 1, 39), (68736, 68786, 1, 64),
     (71840, 71871, 1, 32), (93760, 93791, 1, 32), (125184, 125217, 1, 34)]"

definition upper_table :: "(int \<times> int \<times> int \<times> int) list" where
  "upper_table =
    [(97, 122, 1, - 32), (181, 181, 1, 743), (224, 246, 1, - 32), (248, 254, 1, - 32),
     (255, 255, 1, 121), (257, 303, 2, - 1), (305, 305, 1, - 232), (307, 311, 2, - 1),
     (314, 328, 2, - 1), (331, 375, 2, - 1), (378, 382, 2, - 1), (383, 383, 1, - 300),
     (384, 384, 1, 195), (387, 389, 2, - 1), (392, 392, 1, - 1), (396, 396, 1, - 1),
     (402, 402, 1, - 1), (405, 405, 1, 97), (409, 409, 1, - 1), (410, 410, 1, 163),
     (414, 414, 1, 130), (417, 421, 2, - 1), (424, 424, 1, - 1), (429, 429, 1, - 1),
     (432, 432, 1, - 1), (436, 438, 2, - 1), (441, 441, 1, - 1), (445, 445, 1, - 1),
     (447, 447, 1, 56), (453, 453, 1, - 1), (454, 454, 1, - 2), (456, 456, 1, - 1),
     (457, 457, 1, - 2), (459, 459, 1, - 1), (460, 460, 1, - 2), (462, 476, 2, - 1),
     (477, 477, 1, - 79), (479, 495, 2, - 1), (498, 498, 1, - 1), (499, 499, 1, - 2),
     (501, 501, 1, - 1), (505, 543, 2, - 1), (547, 563, 2, - 1), (572, 572, 1, - 1),
     (575, 576, 1, 10815), (578, 578, 1, - 1), (583, 591, 2, - 1), (592, 592, 1, 10783),
     (593, 593, 1, 10780), (594, 594, 1, 10782), (595, 595, 1, - 210), (596, 596, 1, - 206),
     (598, 599, 1, - 205), (601, 601, 1, - 202), (603, 603, 1, - 203), (604, 604, 1, 42319),
     (608, 608, 1, - 205), (609, 609, 1, 42315), (611, 611, 1, - 207), (613, 613, 1, 42280),
     (614, 614, 1, 42308), (616, 616, 1, - 209), (617, 617, 1, - 211), (618, 618, 1, 42308),
     (619, 619, 1, 10743), (620, 620, 1, 42305), (623, 623, 1, - 211), (625, 625, 1, 10749),
     (626, 626, 1, - 213), (629, 629, 1, - 214), (637, 637, 1, 10727), (640, 640, 1, - 218),
     (642, 642, 1, 42307), (643, 643, 1, - 218), (647, 647, 1, 42282), (648, 648, 1, - 218),
     (649, 649, 1, - 69), (650, 651, 1, - 217), (652, 652, 1, - 71), (658, 658, 1, - 219),
     (669, 669, 1, 42261), (670, 670, 1, 42258), (837, 837, 1, 84), (881, 883, 2, - 1),
     (887, 887, 1, - 1), (891, 893, 1, 130), (940, 940, 1, - 38), (941, 943, 1, - 37),
     (945, 961, 1, - 32), (962, 962, 1, - 31), (963, 971, 1, - 32), (972, 972, 1, - 64),
     (973, 974, 1, - 63), (976, 976, 1, - 62), (977, 977, 1, - 57), (981, 981, 1, - 47),
     (982, 982, 1, - 54), (983, 983, 1, - 8), (985, 1007, 2, - 1), (1008, 1008, 1, - 86),
     (1009, 1009, 1, - 80), (1010, 1010, 1, 7), (1011, 1011, 1, - 116), (1013, 1013, 1, - 96),
     (1016, 1016, 1, - 1), (1019, 1019, 1, - 1), (1072, 1103, 1, - 32), (1104, 1119, 1, - 80),
     (1121, 1153, 2, - 1), (1163, 1215, 2, - 1), (1218, 1230, 2, - 1), (1231, 1231, 1, - 15),
     (1233, 1327, 2, - 1), (1377, 1414, 1, - 48), (4304, 4346, 1, 3008), (4349, 4351, 1, 3008),
     (5112, 5117, 1, - 8), (7296, 7296, 1, - 6254), (7297, 7297, 1, - 6253),
     (7298, 7298, 1, - 6244), (7299, 7300, 1, - 6242), (7301, 7301, 1, - 6243),
     (7302, 7302, 1, - 6236), (7303, 7303, 1, - 6181), (7304, 7304, 1, 35266),
     (7545, 7545, 1, 35332), (7549, 7549, 1, 3814), (7566, 7566, 1, 35384), (7681, 7829, 2, - 1),
     (7835, 7835, 1, - 59), (7841, 7935, 2, - 1), (7936, 7943, 1, 8), (7952, 7957, 1, 8),
     (7968, 7975, 1, 8), (7984, 7991, 1, 8), (8000, 8005, 1, 8), (8017, 8023, 2, 8),
     (8032, 8039, 1, 8), (8048, 8049, 1, 74), (8050, 8053, 1, 86), (8054, 8055, 1, 100),
     (8056, 8057, 1, 128), (8058, 8059, 1, 112), (8060, 8061, 1, 126), (8112, 8113, 1, 8),
     (8126, 8126, 1, - 7205), (8144, 8145, 1, 8), (8160, 8161, 1, 8), (8165, 8165, 1, 7),
     (8526, 8526, 1, - 28), (8560, 8575, 1, - 16), (8580, 8580, 1, - 1), (9424, 9449, 1, - 26),
     (11312, 11359, 1, - 48), (11361, 11361, 1, - 1), (11365, 11365, 1, - 10795),
     (11366, 11366, 1, - 10792), (11368, 11372, 2, - 1), (11379, 11379, 1, - 1),
     (11382, 11382, 1, - 1), (11393, 11491, 2, - 1), (11500, 11502, 2, - 1),
     (11507, 11507, 1, - 1), (11520, 11557, 1, - 7264), (11559, 11559, 1, - 7264),
     (11565, 11565, 1, - 7264), (42561, 42605, 2, - 1), (42625, 42651, 2, - 1),
     (42787, 42799, 2, - 1), (42803, 42863, 2, - 1), (42874, 42876, 2, - 1),
     (42879, 42887, 2, - 1), (42892, 42892, 1, - 1), (42897, 42899, 2, - 1),
     (42900, 42900, 1, 48), (42903, 42921, 2, - 1), (42933, 42947, 2, - 1),
     (42952, 42954, 2, - 1), (42961, 42961, 1, - 1), (42967, 42969, 2, - 1),
     (42998, 42998, 1, - 1), (43859, 43859, 1, - 928), (43888, 43967, 1, - 38864),
     (65345, 65370, 1, - 32), (66600, 66639, 1, - 40), (66776, 66811, 1, - 40),
     (66967, 66977, 1, - 39), (66979, 66993, 1, - 39), (66995, 67001, 1, - 39),
     (67003, 67004, 1, - 39), (68800, 68850, 1, - 64), (71872, 71903, 1, - 32),
     (93792, 93823, 1, - 32), (125218, 125251, 1, - 34)]"

text \<open>The code points that \<open>str.upper\<close> maps to more than one.\<close>

definition upper_special :: "(int \<times> int list) list" where
  "upper_special =
    [(223, [83, 83]), (329, [700, 78]), (496, [74, 780]), (912, [921, 776, 769]),
     (944, [933, 776, 769]), (1415, [1333, 1362]), (7830, [72, 817]), (7831, [84, 776]),
     (7832, [87, 778]), (7833, [89, 778]), (7834, [65, 702]), (8016, [933, 787]),
     (8018, [933, 787, 768]), (8020, [933, 787, 769]), (8022, [933, 787, 834]),
     (8064, [7944, 921]), (8065, [7945, 921]), (8066, [7946, 921]), (8067, [7947, 921]),
     (8068, [7948, 921]), (8069, [7949, 921]), (8070, [7950, 921]), (8071, [7951, 921]),
     (8072, [7944, 921]), (8073, [7945, 921]), (8074, [7946, 921]), (8075, [7947, 921]),
     (8076, [7948, 921]), (8077, [7949, 921]), (8078, [7950, 921]), (8079, [7951, 921]),
     (8080, [7976, 921]), (8081, [7977, 921]), (8082, [7978, 921]), (8083, [7979, 921]),
     (8084, [7980, 921]), (8085, [7981, 921]), (8086, [7982, 921]), (8087, [7983, 921]),
     (8088, [7976, 921]), (8089, [7977, 921]), (8090, [7978, 921]), (8091, [7979, 921]),
     (8092, [7980, 921]), (8093, [7981, 921]), (8094, [7982, 921]), (8095, [7983, 921]),
     (8096, [8040, 921]), (8097, [8041, 921]), (8098, [8042, 921]), (8099, [8043, 921]),
     (8100, [8044, 921]), (8101, [8045, 921]), (8102, [8046, 921]), (8103, [8047, 921]),
     (8104, [8040, 921]), (8105, [8041, 921]), (8106, [8042, 921]), (8107, [8043, 921]),
     (8108, [8044, 921]), (8109, [8045, 921]), (8110, [8046, 921]), (8111, [8047, 921]),
     (8114, [8122, 921]), (8115, [913, 921]), (8116, [902, 921]), (8118, [913, 834]),
     (8119, [913, 834, 921]), (8124, [913, 921]), (8130, [8138, 921]), (8131, [919, 921]),
     (8132, [905, 921]), (8134, [919, 834]), (8135, [919, 834, 921]), (8140, [919, 921]),
     (8146, [921, 776, 768]), (8147, [921, 776, 769]), (8150, [921, 834]),
     (8151, [921, 776, 834]), (8162, [933, 776, 768]), (8163, [933, 776, 769]),
     (8164, [929, 787]), (8166, [933, 834]), (8167, [933, 776, 834]), (8178, [8186, 921]),
     (8179, [937, 921]), (8180, [911, 921]), (8182, [937, 834]), (8183, [937, 834, 921]),
     (8188, [937, 921]), (64256, [70, 70]), (64257, [70, 73]), (64258, [70, 76]),
     (64259, [70, 70, 73]), (64260, [70, 70, 76]), (64261, [83, 84]), (64262, [83, 84]),
     (64275, [1348, 1350]), (64276, [1348, 1333]), (64277, [1348, 1339]), (64278, [1358, 1350]),
     (64279, [1348, 1341])]"

text \<open>
  The context of a capital sigma (\<open>U+03A3\<close>): the code points that are skipped on either
  side of it (case-ignorable), and those that count as cased letters when met after the
  skipping. Each entry is a range \<open>(lo, hi)\<close>, in ascending order.
\<close>

definition case_ignorable_table :: "(int \<times> int) list" where
  "case_ignorable_table =
    [(39, 39), (46, 46), (58, 58), (94, 94), (96, 96), (168, 168), (173, 173), (175, 175),
     (180, 180), (183, 184), (688, 879), (884, 885), (890, 890), (900, 901), (903, 903),
     (1155, 1161), (1369, 1369), (1375, 1375), (1425, 1469), (1471, 1471), (1473, 1474),
     (1476, 1477), (1479, 1479), (1524, 1524), (1536, 1541), (1552, 1562), (1564, 1564),
     (1600, 1600), (1611, 1631), (1648, 1648), (1750, 1757), (1759, 1768), (1770, 1773),
     (1807, 1807), (1809, 1809), (1840, 1866), (1958, 1968), (2027, 2037), (2042, 2042),
     (2045, 2045), (2070, 2093), (2137, 2139), (2184, 2184), (2192, 2193), (2200, 2207),
     (2249, 2306), (2362, 2362), (2364, 2364), (2369, 2376), (2381, 2381), (2385, 2391),
     (2402, 2403), (2417, 2417), (2433, 2433), (2492, 2492), (2497, 2500), (2509, 2509),
     (2530, 2531), (2558, 2558), (2561, 2562), (2620, 2620), (2625, 2626), (2631, 2632),
     (2635, 2637), (2641, 2641), (2672, 2673), (2677, 2677), (2689, 2690), (2748, 2748),
     (2753, 2757), (2759, 2760), (2765, 2765), (2786, 2787), (2810, 2815), (2817, 2817),
     (2876, 2876), (2879, 2879), (2881, 2884), (2893, 2893), (2901, 2902), (2914, 2915),
     (2946, 2946), (3008, 3008), (3021, 3021), (3072, 3072), (3076, 3076), (3132, 3132),
     (3134, 3136), (3142, 3144), (3146, 3149), (3157, 3158), (3170, 3171), (3201, 3201),
     (3260, 3260), (3263, 3263), (3270, 3270), (3276, 3277), (3298, 3299), (3328, 3329),
     (3387, 3388), (3393, 3396), (3405, 3405), (3426, 3427), (3457, 3457), (3530, 3530),
     (3538, 3540), (3542, 3542), (3633, 3633), (3636, 3642), (3654, 3662), (3761, 3761),
     (3764, 3772), (3782, 3782), (3784, 3789), (3864, 3865), (3893, 3893), (3895, 3895),
     (3897, 3897), (3953, 3966), (3968, 3972), (3974, 3975), (3981, 3991), (3993, 4028),
     (4038, 4038), (4141, 4144), (4146, 4151), (4153, 4154), (4157, 4158), (4184, 4185),
     (4190, 4192), (4209, 4212), (4226, 4226), (4229, 4230), (4237, 4237), (4253, 4253),
     (4348, 4348), (4957, 4959), (5906, 5908), (5938, 5939), (5970, 5971), (6002, 6003),
     (6068, 6069), (6071, 6077), (6086, 6086), (6089, 6099), (6103, 6103), (6109, 6109),
     (6155, 6159), (6211, 6211), (6277, 6278), (6313, 6313), (6432, 6434), (6439, 6440),
     (6450, 6450), (6457, 6459), (6679, 6680), (6683, 6683), (6742, 6742), (6744, 6750),
     (6752, 6752), (6754, 6754), (6757, 6764), (6771, 6780), (6783, 6783), (6823, 6823),
     (6832, 6862), (6912, 6915), (6964, 6964), (6966, 6970), (6972, 6972), (6978, 6978),
     (7019, 7027), (7040, 7041), (7074, 7077), (7080, 7081), (7083, 7085), (7142, 7142),
     (7144, 7145), (7149, 7149), (7151, 7153), (7212, 7219), (7222, 7223), (7288, 7293),
     (7376, 7378), (7380, 7392), (7394, 7400), (7405, 7405), (7412, 7412), (7416, 7417),
     (7468, 7530), (7544, 7544), (7579, 7679), (8125, 8125), (8127, 8129), (8141, 8143),
     (8157, 8159), (8173, 8175), (8189, 8190), (8203, 8207), (8216, 8217), (8228, 8228),
     (8231, 8231), (8234, 8238), (8288, 8292), (8294, 8303), (8305, 8305), (8319, 8319),
     (8336, 8348), (8400, 8432), (11388, 11389), (11503, 11505), (11631, 11631), (11647, 11647),
     (11744, 11775), (11823, 11823), (12293, 12293), (12330, 12333), (12337, 12341),
     (12347, 12347), (12441, 12446), (12540, 12542), (40981, 40981), (42232, 42237),
     (42508, 42508), (42607, 42610), (42612, 42621), (42623, 42623), (42652, 42655),
     (42736, 42737), (42752, 42785), (42864, 42864), (42888, 42890), (42994, 42996),
     (43000, 43001), (43010, 43010), (43014, 43014), (43019, 43019), (43045, 43046),
     (43052, 43052), (43204, 43205), (43232, 43249), (43263, 43263), (43302, 43309),
     (43335, 43345), (43392, 43394), (43443, 43443), (43446, 43449), (43452, 43453),
     (43471, 43471), (43493, 43494), (43561, 43566), (43569, 43570), (43573, 43574),
     (43587, 43587), (43596, 43596), (43632, 43632), (43644, 43644), (43696, 43696),
     (43698, 43700), (43703, 43704), (43710, 43711), (43713, 43713), (43741, 43741),
     (43756, 43757), (43763, 43764), (43766, 43766), (43867, 43871), (43881, 43883),
     (44005, 44005), (44008, 44008), (44013, 44013), (64286, 64286), (64434, 64450),
     (65024, 65039), (65043, 65043), (65056, 65071), (65106, 65106), (65109, 65109),
     (65279, 65279), (65287, 65287), (65294, 65294), (65306, 65306), (65342, 65342),
     (65344, 65344), (65392, 65392), (65438, 65439), (65507, 65507), (65529, 65531),
     (66045, 66045), (66272, 66272), (66422, 66426), (67456, 67461), (67463, 67504),
     (67506, 67514), (68097, 68099), (68101, 68102), (68108, 68111), (68152, 68154),
     (68159, 68159), (68325, 68326), (68900, 68903), (69291, 69292), (69446, 69456),
     (69506, 69509), (69633, 69633), (69688, 69702), (69744, 69744), (69747, 69748),
     (69759, 69761), (69811, 69814), (69817, 69818), (69821, 69821), (69826, 69826),
     (69837, 69837), (69888, 69890), (69927, 69931), (69933, 69940), (70003, 70003),
     (70016, 70017), (70070, 70078), (70089, 70092), (70095, 70095), (70191, 70193),
     (70196, 70196), (70198, 70199), (70206, 70206), (70367, 70367), (70371, 70378),
     (70400, 70401), (70459, 70460), (70464, 70464), (70502, 70508), (70512, 70516),
     (70712, 70719), (70722, 70724), (70726, 70726), (70750, 70750), (70835, 70840),
     (70842, 70842), (70847, 70848), (70850, 70851), (71090, 71093), (71100, 71101),
     (71103, 71104), (71132, 71133), (71219, 71226), (71229, 71229), (71231, 71232),
     (71339, 71339), (71341, 71341), (71344, 71349), (71351, 71351), (71453, 71455),
     (71458, 71461), (71463, 71467), (71727, 71735), (71737, 71738), (71995, 71996),
     (71998, 71998), (72003, 72003), (72148, 72151), (72154, 72155), (72160, 72160),
     (72193, 72202), (72243, 72248), (72251, 72254), (72263, 72263), (72273, 72278),
     (72281, 72283), (72330, 72342), (72344, 72345), (72752, 72758), (72760, 72765),
     (72767, 72767), (72850, 72871), (72874, 72880), (72882, 72883), (72885, 72886),
     (73009, 73014), (73018, 73018), (73020, 73021), (73023, 73029), (73031, 73031),
     (73104, 73105), (73109, 73109), (73111, 73111), (73459, 73460), (78896, 78904),
     (92912, 92916), (92976, 92982), (92992, 92995), (94031, 94031), (94095, 94111),
     (94176, 94177), (94179, 94180), (110576, 110579), (110581, 110587), (110589, 110590),
     (113821, 113822), (113824, 113827), (118528, 118573), (118576, 118598), (119143, 119145),
     (119155, 119170), (119173, 119179), (119210, 119213), (119362, 119364), (121344, 121398),
     (121403, 121452), (121461, 121461), (121476, 121476), (121499, 121503), (121505, 121519),
     (122880, 122886), (122888, 122904), (122907, 122913), (122915, 122916), (122918, 122922),
     (123184, 123197), (123566, 123566), (123628, 123631), (125136, 125142), (125252, 125259),
     (127995, 127999), (917505, 917505), (917536, 917631), (917760, 917999)]"

definition cased_table :: "(int \<times> int) list" where
  "cased_table =
    [(65, 90), (97, 122), (170, 170), (181, 181), (186, 186), (192, 214), (216, 246), (248, 442),
     (444, 447), (452, 659), (661, 687), (880, 883), (886, 887), (891, 893), (895, 895),
     (902, 902), (904, 906), (908, 908), (910, 929), (931, 1013), (1015, 1153), (1162, 1327),
     (1329, 1366), (1376, 1416), (4256, 4293), (4295, 4295), (4301, 4301), (4304, 4346),
     (4349, 4351), (5024, 5109), (5112, 5117), (7296, 7304), (7312, 7354), (7357, 7359),
     (7424, 7467), (7531, 7543), (7545, 7578), (7680, 7957), (7960, 7965), (7968, 8005),
     (8008, 8013), (8016, 8023), (8025, 8025), (8027, 8027), (8029, 8029), (8031, 8061),
     (8064, 8116), (8118, 8124), (8126, 8126), (8130, 8132), (8134, 8140), (8144, 8147),
     (8150, 8155), (8160, 8172), (8178, 8180), (8182, 8188), (8450, 8450), (8455, 8455),
     (8458, 8467), (8469, 8469), (8473, 8477), (8484, 8484), (8486, 8486), (8488, 8488),
     (8490, 8493), (8495, 8500), (8505, 8505), (8508, 8511), (8517, 8521), (8526, 8526),
     (8544, 8575), (8579, 8580), (9398, 9449), (11264, 11387), (11390, 11492), (11499, 11502),
     (11506, 11507), (11520, 11557), (11559, 11559), (11565, 11565), (42560, 42605),
     (42624, 42651), (42786, 42863), (42865, 42887), (42891, 42894), (42896, 42954),
     (42960, 42961), (42963, 42963), (42965, 42969), (42997, 42998), (43002, 43002),
     (43824, 43866), (43872, 43880), (43888, 43967), (64256, 64262), (64275, 64279),
     (65313, 65338), (65345, 65370), (66560, 66639), (66736, 66771), (66776, 66811),
     (66928, 66938), (66940, 66954), (66956, 66962), (66964, 66965), (66967, 66977),
     (66979, 66993), (66995, 67001), (67003, 67004), (68736, 68786), (68800, 68850),
     (71840, 71903), (93760, 93823), (119808, 119892), (119894, 119964), (119966, 119967),
     (119970, 119970), (119973, 119974), (119977, 119980), (119982, 119993), (119995, 119995),
     (119997, 120003), (120005, 120069), (120071, 120074), (120077, 120084), (120086, 120092),
     (120094, 120121), (120123, 120126), (120128, 120132), (120134, 120134), (120138, 120144),
     (120146, 120485), (120488, 120512), (120514, 120538), (120540, 120570), (120572, 120596),
     (120598, 120628), (120630, 120654), (120656, 120686), (120688, 120712), (120714, 120744),
     (120746, 120770), (120772, 120779), (122624, 122633), (122635, 122654), (125184, 125251),
     (127280, 127305), (127312, 127337), (127344, 127369)]"

fun shift_of :: "(int \<times> int \<times> int \<times> int) list \<Rightarrow> int \<Rightarrow> int option" where
  "shift_of [] c = None"
| "shift_of ((lo, hi, step, delta) # rest) c =
     (if c < lo then None
      else if c \<le> hi \<and> (c - lo) mod step = 0 then Some delta
      else shift_of rest c)"

fun in_ranges :: "(int \<times> int) list \<Rightarrow> int \<Rightarrow> bool" where
  "in_ranges [] c = False"
| "in_ranges ((lo, hi) # rest) c =
     (if c < lo then False else if c \<le> hi then True else in_ranges rest c)"

definition case_ignorable :: "int \<Rightarrow> bool" where
  "case_ignorable c = in_ranges case_ignorable_table c"

definition cased :: "int \<Rightarrow> bool" where
  "cased c = in_ranges cased_table c"

text \<open>
  A capital sigma becomes the final small sigma when a cased letter stands before it and
  none after it, case-ignorable code points skipped; \<open>seen\<close> holds the code points before
  it, the nearest first.
\<close>

definition final_sigma :: "int list \<Rightarrow> int list \<Rightarrow> bool" where
  "final_sigma seen rest \<longleftrightarrow>
     (case dropWhile case_ignorable seen of [] \<Rightarrow> False | c # _ \<Rightarrow> cased c)
     \<and> (case dropWhile case_ignorable rest of [] \<Rightarrow> True | c # _ \<Rightarrow> \<not> cased c)"

definition to_lower :: "int \<Rightarrow> int list" where
  "to_lower c =
     (if c = 304 then [105, 775]
      else case shift_of lower_table c of None \<Rightarrow> [c] | Some delta \<Rightarrow> [c + delta])"

fun lower_from :: "int list \<Rightarrow> int list \<Rightarrow> int list" where
  "lower_from seen [] = []"
| "lower_from seen (c # rest) =
     (if c = 931 then [if final_sigma seen rest then 962 else 963] else to_lower c)
       @ lower_from (c # seen) rest"

text \<open>\<open>s.lower()\<close> and \<open>s.upper()\<close>, on code points.\<close>

definition lower :: "int list \<Rightarrow> int list" where
  "lower s = lower_from [] s"

definition to_upper :: "int \<Rightarrow> int list" where
  "to_upper c =
     (case map_of upper_special c of
        Some cs \<Rightarrow> cs
      | None \<Rightarrow> (case shift_of upper_table c of None \<Rightarrow> [c] | Some delta \<Rightarrow> [c + delta]))"

definition upper :: "int list \<Rightarrow> int list" where
  "upper s = concat (map to_upper s)"

text \<open>The same on the encoded texts.\<close>

definition str_lower :: "string \<Rightarrow> string" where
  "str_lower s = encode (lower (decode s))"

definition str_upper :: "string \<Rightarrow> string" where
  "str_upper s = encode (upper (decode s))"

text \<open>\<open>s.startswith(w)\<close> and \<open>w in s\<close>.\<close>

fun startswith :: "'a list \<Rightarrow> 'a list \<Rightarrow> bool" where
  "startswith s [] = True"
| "startswith [] (w # ws) = False"
| "startswith (c # cs) (w # ws) = (c = w \<and> startswith cs ws)"

fun str_in :: "'a list \<Rightarrow> 'a list \<Rightarrow> bool" where
  "str_in w [] = (w = [])"
| "str_in w (c # cs) = (startswith (c # cs) w \<or> str_in w cs)"

text \<open>\<open>sep.join(xs)\<close>.\<close>

fun join :: "string \<Rightarrow> string list \<Rightarrow> string" where
  "join sep [] = []"
| "join sep [x] = x"
| "join sep (x # y # ys) = x @ sep @ join sep (y # ys)"

section \<open>Greeting short-circuit\<close>

definition greeting_words :: "string list" where
  "greeting_words =
     [''hello'', ''hi'', ''hey'', ''good morning'', ''good afternoon'', ''good evening'']"

definition is_greeting_message :: "string \<Rightarrow> bool" where
  "is_greeting_message prompt =
     (let prompt_lower = strip (lower (decode prompt)) in
        list_ex (\<lambda>word. startswith prompt_lower (decode word)) greeting_words
        \<or> list_ex (\<lambda>word. decode word = prompt_lower) greeting_words
        \<or> (length (split (decode prompt)) \<le> 3
            \<and> list_ex (\<lambda>word. str_in (decode word) prompt_lower) greeting_words))"

text \<open>\<open>str(n)\<close> for an integer.\<close>

definition digit_char :: "nat \<Rightarrow> char" where
  "digit_char d = char_of (48 + d)"

function show_digits :: "int \<Rightarrow> string" where
  "show_digits n =
     (if n < 10 then [digit_char (nat n)]
      else show_digits (n div 10) @ [digit_char (nat (n mod 10))])"
  by pat_completeness auto
termination
  by (relation "measure nat") auto

declare show_digits.simps [simp del]

definition show_int :: "int \<Rightarrow> string" where
  "show_int i = (if i < 0 then ''-'' @ show_digits (- i) else show_digits i)"

definition show_nat :: "nat \<Rightarrow> string" where
  "show_nat n = show_digits (int n)"

section \<open>Data model\<close>

text \<open>An exception, carrying the text \<open>str(e)\<close>.\<close>

datatype exn = Exception string

text \<open>
  Rows of the relational store, with the columns the agent reads. A foreign key to a
  financial institution is represented by the institution's name, the only field the
  agent follows it for. A \<open>DecimalField\<close> with two decimal places is an integer number of
  hundredths; the conversion value, with six decimal places, an integer number of millionths.
\<close>

record user =
  user_pk :: int
  first_name :: string
  last_name :: string
  username :: string

record account =
  acc_user_id :: int
  financial_institution_name :: string
  acc_account_id :: string
  account_status :: string
  account_currency :: string
  available_balance :: "int option"

record fxrate =
  fx_institution_name :: string
  fx_source_currency :: string
  fx_target_currency :: string
  conversion_value :: int
  effective_date :: int
  effective_date_text :: string

text \<open>A row of \<open>ChatMemory\<close>.\<close>

record chat_row =
  cm_user_id :: int
  message_type :: string
  content :: string
  row_session_id :: string
  timestamp :: nat

datatype message = HumanMessage string | AIMessage string

text \<open>
  What a call observes of its surroundings and does not change: the financial tables, the
  process environment, the wall clock's hour, the value \<open>uuid.uuid4()\<close> gives, the hosted
  model behind \<open>AgentExecutor.invoke\<close> (given the recap text, the user-identity marker and
  the input, it returns the output text or raises), the exception's text when the
  queries on the users and the financial tables raise, and which operations on the
  \<open>ChatMemory\<close> table raise.
\<close>

record env =
  users :: "user list"
  accounts :: "account list"
  fx_rates :: "fxrate list"
  GOOGLE_API_KEY :: "string option"
  current_hour :: nat
  uuid4 :: string
  agent_invoke :: "string \<Rightarrow> string \<Rightarrow> string \<Rightarrow> exn + string"
  db_fault :: "string option"
  create_fault :: "chat_row \<Rightarrow> string option"
  filter_fault :: "string option"

text \<open>
  What a call changes: the \<open>ChatMemory\<close> table (in insertion order), the clock that stamps
  new rows, and the lines printed. The trace records each operation issued to the
  conversation memory and each invocation of the model.
\<close>

datatype event = MemoryRead | MemoryWrite | ModelInvoked

record world =
  chat_memory :: "chat_row list"
  clock :: nat
  printed :: "string list"
  trace :: "event list"

definition print :: "string \<Rightarrow> world \<Rightarrow> world" where
  "print line w = w\<lparr>printed := printed w @ [line]\<rparr>"

definition emit :: "event \<Rightarrow> world \<Rightarrow> world" where
  "emit ev w = w\<lparr>trace := trace w @ [ev]\<rparr>"

section \<open>Conversation memory\<close>

text \<open>\<open>DjangoChatMemory\<close>: the user and the session of the conversation.\<close>

record memory =
  mem_user_id :: int
  mem_session_id :: string

text \<open>\<open>__init__\<close>: a missing or empty session id is replaced by a fresh one.\<close>

definition DjangoChatMemory :: "env \<Rightarrow> int \<Rightarrow> string option \<Rightarrow> memory" where
  "DjangoChatMemory e uid sid =
     \<lparr>mem_user_id = uid,
      mem_session_id = (case sid of None \<Rightarrow> uuid4 e | Some s \<Rightarrow> if s = [] then uuid4 e else s)\<rparr>"

text \<open>
  \<open>ChatMemory.objects.create\<close>: the row is stamped with the clock (\<open>auto_now_add\<close>) and
  appended, or the operation raises and the table is unchanged.
\<close>

definition objects_create ::
  "env \<Rightarrow> int \<Rightarrow> string \<Rightarrow> string \<Rightarrow> string \<Rightarrow> world \<Rightarrow> (exn + unit) \<times> world" where
  "objects_create e uid mtype text sid w =
     (let row = \<lparr>cm_user_id = uid, message_type = mtype, content = text, row_session_id = sid,
                 timestamp = clock w\<rparr>;
          w1 = emit MemoryWrite w
      in case create_fault e row of
           Some msg \<Rightarrow> (Inl (Exception msg), w1)
         | None \<Rightarrow> (Inr (), w1\<lparr>chat_memory := chat_memory w1 @ [row], clock := Suc (clock w1)\<rparr>))"

definition save_context :: "env \<Rightarrow> memory \<Rightarrow> string \<Rightarrow> string \<Rightarrow> world \<Rightarrow> world" where
  "save_context e m input output w =
     (case objects_create e (mem_user_id m) ''user'' input (mem_session_id m) w of
        (Inl (Exception msg), w1) \<Rightarrow> print (''Error saving chat memory: '' @ msg) w1
      | (Inr _, w1) \<Rightarrow>
          (case objects_create e (mem_user_id m) ''assistant'' output (mem_session_id m) w1 of
             (Inl (Exception msg), w2) \<Rightarrow> print (''Error saving chat memory: '' @ msg) w2
           | (Inr _, w2) \<Rightarrow> w2))"

text \<open>
  \<open>order_by("-timestamp")\<close>: descending by timestamp; rows with equal timestamps are kept
  in table order.
\<close>

definition order_by_desc :: "('a \<Rightarrow> int) \<Rightarrow> 'a list \<Rightarrow> 'a list" where
  "order_by_desc key rows = sort_key (\<lambda>r. - key r) rows"

definition session_rows :: "memory \<Rightarrow> world \<Rightarrow> chat_row list" where
  "session_rows m w =
     filter (\<lambda>r. cm_user_id r = mem_user_id m \<and> row_session_id r = mem_session_id m) (chat_memory w)"

text \<open>The variable \<open>messages\<close> after the slice \<open>[:5]\<close> and the reversal.\<close>

definition recent_rows :: "memory \<Rightarrow> world \<Rightarrow> chat_row list" where
  "recent_rows m w = rev (take 5 (order_by_desc (\<lambda>r. int (timestamp r)) (session_rows m w)))"

definition append_message :: "message list \<Rightarrow> chat_row \<Rightarrow> message list" where
  "append_message chat_history msg =
     (if message_type msg = ''user'' then chat_history @ [HumanMessage (content msg)]
      else if message_type msg = ''assistant'' then chat_history @ [AIMessage (content msg)]
      else chat_history)"

definition load_memory_variables :: "env \<Rightarrow> memory \<Rightarrow> world \<Rightarrow> message list \<times> world" where
  "load_memory_variables e m w =
     (let w1 = emit MemoryRead w
      in case filter_fault e of
           Some msg \<Rightarrow> ([], print (''Error loading chat memory: '' @ msg) w1)
         | None \<Rightarrow> (foldl append_message [] (recent_rows m w1), w1))"

section \<open>Agent orchestrator\<close>

text \<open>Characters outside ASCII that the texts use, as UTF-8.\<close>

definition waving_hand :: string where
  "waving_hand = [CHR 0xF0, CHR 0x9F, CHR 0x91, CHR 0x8B]"

definition cross_mark :: string where
  "cross_mark = [CHR 0xE2, CHR 0x9D, CHR 0x8C]"

definition warning_sign :: string where
  "warning_sign = [CHR 0xE2, CHR 0x9A, CHR 0xA0, CHR 0xEF, CHR 0xB8, CHR 0x8F]"

text \<open>
  \<open>get_fintech_agent\<close>: raises when the credential is unset or empty; otherwise it gives
  the model client, which only the invocation uses.
\<close>

definition get_fintech_agent :: "env \<Rightarrow> exn + unit" where
  "get_fintech_agent e =
     (case GOOGLE_API_KEY e of
        None \<Rightarrow> Inl (Exception ''GOOGLE_API_KEY environment variable is not set'')
      | Some api_key \<Rightarrow>
          if api_key = [] then Inl (Exception ''GOOGLE_API_KEY environment variable is not set'')
          else Inr ())"

definition fallback_greeting :: string where
  "fallback_greeting = ''Hello! I'm your AI financial assistant. How can I help you today?''"

definition time_greeting :: "nat \<Rightarrow> string" where
  "time_greeting hour =
     (if hour < 12 then ''Good morning''
      else if hour < 17 then ''Good afternoon''
      else ''Good evening'')"

text \<open>
  \<open>get_personalized_greeting\<close>. Any exception inside (an unknown user, a query that
  raises, \<open>first()\<close> giving no account) ends in the fixed fallback text.
\<close>

definition get_personalized_greeting :: "env \<Rightarrow> int \<Rightarrow> string" where
  "get_personalized_greeting e user_id =
     (case (if db_fault e = None then find (\<lambda>u. user_pk u = user_id) (users e) else None) of
        None \<Rightarrow> fallback_greeting
      | Some usr \<Rightarrow>
          (let accs = filter (\<lambda>a. acc_user_id a = user_pk usr) (accounts e);
               name = (if first_name usr \<noteq> [] then first_name usr else username usr);
               greeting = time_greeting (current_hour e) @ '', '' @ name @ ''! '' @ waving_hand
                            @ ''\<newline>\<newline>'';
               account_count = length accs
           in if account_count = 0 then
                greeting
                  @ ''Welcome to MCS! I'm here to help you get started with connecting your bank accounts and managing your finances.\<newline>\<newline>''
                  @ ''What would you like to know about your finances today?''
              else if account_count = 1 then
                (case accs of
                   [] \<Rightarrow> fallback_greeting
                 | a # _ \<Rightarrow>
                     greeting @ ''I see you have an account with '' @ financial_institution_name a
                       @ ''. I can help you check balances, compare rates, and more!\<newline>\<newline>''
                       @ ''What would you like to know about your finances today?'')
              else
                greeting @ ''Great to see you managing accounts across ''
                  @ show_nat (length (remdups (map financial_institution_name accs)))
                  @ '' banks! I can help you with balances, conversions, and comparisons.\<newline>\<newline>''
                  @ ''What would you like to know about your finances today?''))"

text \<open>Python's truth value of an \<open>Optional[int]\<close>: \<open>None\<close> and \<open>0\<close> are false.\<close>

definition truthy :: "int option \<Rightarrow> int option" where
  "truthy user_id = (case user_id of None \<Rightarrow> None | Some u \<Rightarrow> if u = 0 then None else Some u)"

text \<open>The recap of the last four messages of the loaded history.\<close>

definition recap_line :: "string \<Rightarrow> message \<Rightarrow> string" where
  "recap_line conversation_context msg =
     (case msg of
        HumanMessage text \<Rightarrow> conversation_context @ ''User: '' @ text @ ''\<newline>''
      | AIMessage text \<Rightarrow> conversation_context @ ''Assistant: '' @ text @ ''\<newline>'')"

definition conversation_context :: "message list \<Rightarrow> string" where
  "conversation_context chat_history =
     (if chat_history = [] then []
      else foldl recap_line ''Recent conversation:\<newline>''
             (drop (length chat_history - 4) chat_history) @ ''\<newline>'')"

definition user_context :: "int option \<Rightarrow> string" where
  "user_context user_id =
     (case truthy user_id of None \<Rightarrow> [] | Some u \<Rightarrow> ''User ID: '' @ show_int u @ ''\<newline>'')"

text \<open>
  The body of \<open>run_fintech_agent\<close> after the greeting test: the model client, the memory,
  the prompt, the invocation and the persistence. \<open>Inl\<close> is an exception leaving the body.
\<close>

definition model_path ::
  "env \<Rightarrow> string \<Rightarrow> int option \<Rightarrow> string option \<Rightarrow> world \<Rightarrow> (exn + string) \<times> world" where
  "model_path e prompt user_id session_id w =
     (case get_fintech_agent e of
        Inl ex \<Rightarrow> (Inl ex, w)
      | Inr llm \<Rightarrow>
          (let (mem, chat_history, w1) =
                 (case truthy user_id of
                    None \<Rightarrow> (None, [], w)
                  | Some u \<Rightarrow>
                      (let m = DjangoChatMemory e u session_id;
                           (h, w') = load_memory_variables e m w
                       in (Some m, h, w')));
               w2 = emit ModelInvoked w1
           in case agent_invoke e (conversation_context chat_history) (user_context user_id) prompt of
                Inl ex \<Rightarrow> (Inl ex, w2)
              | Inr response_content \<Rightarrow>
                  (case mem of
                     None \<Rightarrow> (Inr response_content, w2)
                   | Some m \<Rightarrow> (Inr response_content, save_context e m prompt response_content w2))))"

definition run_body ::
  "env \<Rightarrow> string \<Rightarrow> int option \<Rightarrow> string option \<Rightarrow> world \<Rightarrow> (exn + string) \<times> world" where
  "run_body e prompt user_id session_id w =
     (case truthy user_id of
        None \<Rightarrow> model_path e prompt user_id session_id w
      | Some u \<Rightarrow>
          if is_greeting_message prompt then (Inr (get_personalized_greeting e u), w)
          else model_path e prompt user_id session_id w)"

text \<open>The handler of \<open>run_fintech_agent\<close>: the text for an exception that left the body.\<close>

definition error_text :: "string \<Rightarrow> string" where
  "error_text error_msg =
     (if str_in ''GOOGLE_API_KEY'' error_msg then
        cross_mark @ '' API key error. Please check configuration.''
      else if str_in ''rate limit'' (str_lower error_msg) then
        warning_sign @ '' Rate limit exceeded. Please try again shortly.''
      else cross_mark @ '' Error: '' @ error_msg)"

definition run_fintech_agent ::
  "env \<Rightarrow> string \<Rightarrow> int option \<Rightarrow> string option \<Rightarrow> world \<Rightarrow> string \<times> world" where
  "run_fintech_agent e prompt user_id session_id w =
     (case run_body e prompt user_id session_id w of
        (Inr text, w') \<Rightarrow> (text, w')
      | (Inl (Exception error_msg), w') \<Rightarrow> (error_text error_msg, w'))"


text \<open>
  The account-count-based part of the greeting, as the specification words it: a welcome
  for no account, the bank's name for one, the number of distinct banks otherwise.
\<close>

definition greeting_summary :: "account list \<Rightarrow> string" where
  "greeting_summary accs =
     (case accs of
        [] \<Rightarrow> ''Welcome to MCS! I'm here to help you get started with connecting your bank accounts and managing your finances.\<newline>\<newline>''
      | [a] \<Rightarrow> ''I see you have an account with '' @ financial_institution_name a
                @ ''. I can help you check balances, compare rates, and more!\<newline>\<newline>''
      | a # b # rest \<Rightarrow> ''Great to see you managing accounts across ''
                @ show_nat (card (financial_institution_name ` set accs))
                @ '' banks! I can help you with balances, conversions, and comparisons.\<newline>\<newline>'')"

text \<open>The events a call added to the trace.\<close>

definition new_events :: "world \<Rightarrow> world \<Rightarrow> event list" where
  "new_events w w' = drop (length (trace w)) (trace w')"

text \<open>The history a call loads before it invokes the model: none without a user id.\<close>

definition loaded_history :: "env \<Rightarrow> int option \<Rightarrow> string option \<Rightarrow> world \<Rightarrow> message list" where
  "loaded_history e user_id session_id w =
     (case truthy user_id of
        None \<Rightarrow> []
      | Some u \<Rightarrow> fst (load_memory_variables e (DjangoChatMemory e u session_id) w))"

text \<open>The three texts of the handler, by the tests the specification names.\<close>

definition mapped_error :: "string \<Rightarrow> string" where
  "mapped_error msg =
     (if sublist ''GOOGLE_API_KEY'' msg then
        cross_mark @ '' API key error. Please check configuration.''
      else if sublist ''rate limit'' (str_lower msg) then
        warning_sign @ '' Rate limit exceeded. Please try again shortly.''
      else cross_mark @ '' Error: '' @ msg)"

section \<open>Decimal numbers as text\<close>

text \<open>
  \<open>str(d)\<close> for a \<open>Decimal\<close> with a fixed number of decimal places: the sign, the
  integer digits, the point and the fraction digits.
\<close>

definition pad_left :: "nat \<Rightarrow> string \<Rightarrow> string" where
  "pad_left n s = replicate (n - length s) (CHR ''0'') @ s"

definition show_fixed :: "nat \<Rightarrow> bool \<Rightarrow> int \<Rightarrow> string" where
  "show_fixed places negative c =
     (if negative then ''-'' else []) @ show_digits (c div 10 ^ places) @ ''.''
       @ pad_left places (show_digits (c mod 10 ^ places))"

definition str_decimal :: "nat \<Rightarrow> int \<Rightarrow> string" where
  "str_decimal places v = show_fixed places (v < 0) \<bar>v\<bar>"

text \<open>
  \<open>a / b\<close> for \<open>a \<ge> 0\<close> and \<open>b > 0\<close>, rounded to an integer, ties to the even neighbour
  (\<open>ROUND_HALF_EVEN\<close>).
\<close>

definition round_half_even :: "int \<Rightarrow> int \<Rightarrow> int" where
  "round_half_even a b =
     (let q = a div b; r = a mod b
      in if 2 * r < b then q else if b < 2 * r then q + 1 else if even q then q else q + 1)"

text \<open>
  \<open>f"{x:.4f}"\<close> for the quotient \<open>x\<close> of a sum \<open>s\<close> of conversion values (in millionths)
  by a count \<open>n\<close>. The quotient is taken exactly; Python rounds it to 28 significant
  digits first, which gives the same four decimals for fewer than \<open>10^8\<close> summands.
\<close>

definition format_4f :: "int \<Rightarrow> nat \<Rightarrow> string" where
  "format_4f s n = show_fixed 4 (s < 0) (round_half_even \<bar>s\<bar> (int n * 100))"

section \<open>Tool catalog: totals and rates\<close>

text \<open>
  A Python \<open>dict\<close> is an association list in insertion order: \<open>AList.update\<close> replaces the
  value of a key in place and appends a new key at the end.
\<close>

definition dict_get :: "(string \<times> int) list \<Rightarrow> string \<Rightarrow> int" where
  "dict_get d k = (case map_of d k of None \<Rightarrow> 0 | Some v \<Rightarrow> v)"

text \<open>
  The body of the loop of \<open>get_total_balance\<close>. The query keeps the accounts with a
  balance only, so the balance added is never \<open>None\<close>.
\<close>

definition add_to_totals :: "(string \<times> int) list \<Rightarrow> account \<Rightarrow> (string \<times> int) list" where
  "add_to_totals currency_totals a =
     (case available_balance a of
        None \<Rightarrow> currency_totals
      | Some balance \<Rightarrow>
          (let currency = account_currency a;
               d = (if map_of currency_totals currency = None
                    then AList.update currency 0 currency_totals else currency_totals)
           in AList.update currency (dict_get d currency + balance) d))"

definition accounts_with_balance :: "env \<Rightarrow> int \<Rightarrow> account list" where
  "accounts_with_balance e user_id =
     filter (\<lambda>a. acc_user_id a = user_id \<and> available_balance a \<noteq> None) (accounts e)"

definition currency_totals :: "env \<Rightarrow> int \<Rightarrow> (string \<times> int) list" where
  "currency_totals e user_id = foldl add_to_totals [] (accounts_with_balance e user_id)"

definition get_total_balance :: "env \<Rightarrow> int \<Rightarrow> string" where
  "get_total_balance e user_id =
     (case db_fault e of
        Some msg \<Rightarrow> ''Error: '' @ msg
      | None \<Rightarrow>
          if accounts_with_balance e user_id = [] then ''No accounts with balance data found''
          else ''Total balances by currency: ''
                 @ join '', '' (map (\<lambda>(currency, total). currency @ '': '' @ str_decimal 2 total)
                                 (currency_totals e user_id)))"

text \<open>The rates of a currency pair, \<open>order_by("-effective_date")\<close>.\<close>

definition pair_rates :: "env \<Rightarrow> string \<Rightarrow> string \<Rightarrow> fxrate list" where
  "pair_rates e source_currency target_currency =
     order_by_desc effective_date
       (filter (\<lambda>r. fx_source_currency r = str_upper source_currency
                    \<and> fx_target_currency r = str_upper target_currency) (fx_rates e))"

text \<open>The loop of \<open>compare_fx_rates\<close> that keeps the first rate met of each institution name.\<close>

definition keep_first :: "(string \<times> fxrate) list \<Rightarrow> fxrate \<Rightarrow> (string \<times> fxrate) list" where
  "keep_first latest_rates rate =
     (if map_of latest_rates (fx_institution_name rate) = None
      then latest_rates @ [(fx_institution_name rate, rate)] else latest_rates)"

definition latest_rates :: "env \<Rightarrow> string \<Rightarrow> string \<Rightarrow> (string \<times> fxrate) list" where
  "latest_rates e source_currency target_currency =
     foldl keep_first [] (pair_rates e source_currency target_currency)"

text \<open>\<open>sorted(..., key=conversion_value, reverse=True)\<close>: stable, descending.\<close>

definition sorted_rates :: "env \<Rightarrow> string \<Rightarrow> string \<Rightarrow> (string \<times> fxrate) list" where
  "sorted_rates e source_currency target_currency =
     order_by_desc (\<lambda>x. conversion_value (snd x)) (latest_rates e source_currency target_currency)"

definition rates_values :: "env \<Rightarrow> string \<Rightarrow> string \<Rightarrow> int list" where
  "rates_values e source_currency target_currency =
     map (\<lambda>x. conversion_value (snd x)) (sorted_rates e source_currency target_currency)"

text \<open>The numbered lines of the first five institutions.\<close>

fun rate_lines :: "nat \<Rightarrow> (string \<times> fxrate) list \<Rightarrow> string" where
  "rate_lines i [] = []"
| "rate_lines i ((name, rate) # rest) =
     show_nat i @ ''. '' @ name @ '': '' @ str_decimal 6 (conversion_value rate) @ ''\<newline>''
       @ rate_lines (Suc i) rest"

text \<open>\<open>max\<close> and \<open>min\<close> of a list that is not empty.\<close>

fun list_max :: "int list \<Rightarrow> int" where
  "list_max [] = 0"
| "list_max (x # xs) = foldl max x xs"

fun list_min :: "int list \<Rightarrow> int" where
  "list_min [] = 0"
| "list_min (x # xs) = foldl min x xs"

definition compare_fx_rates :: "env \<Rightarrow> string \<Rightarrow> string \<Rightarrow> string" where
  "compare_fx_rates e source_currency target_currency =
     (case db_fault e of
        Some msg \<Rightarrow> ''Error comparing rates: '' @ msg
      | None \<Rightarrow>
          if pair_rates e source_currency target_currency = [] then
            ''No rates available for '' @ source_currency @ ''/'' @ target_currency
          else
            (let result = ''Best '' @ source_currency @ ''/'' @ target_currency @ '' rates:\<newline>''
                   @ rate_lines 1 (take 5 (sorted_rates e source_currency target_currency));
                 values = rates_values e source_currency target_currency
             in if values \<noteq> [] then
                  result
                    @ ''\<newline>Average rate: '' @ format_4f (sum_list values) (length values)
                    @ ''\<newline>Best rate: '' @ format_4f (list_max values) 1
                    @ ''\<newline>Worst rate: '' @ format_4f (list_min values) 1
                else result))"

text \<open>The balance of an account, with nothing for a missing one.\<close>

definition balance_of :: "account \<Rightarrow> int" where
  "balance_of a = (case available_balance a of None \<Rightarrow> 0 | Some b \<Rightarrow> b)"

text \<open>A stored rate is of the requested pair: its currencies are the upper-cased arguments.\<close>

definition matching :: "string \<Rightarrow> string \<Rightarrow> fxrate \<Rightarrow> bool" where
  "matching source_currency target_currency r \<longleftrightarrow>
     fx_source_currency r = str_upper source_currency
     \<and> fx_target_currency r = str_upper target_currency"

section \<open>Tool catalog: currency conversion\<close>

text \<open>
  A \<open>Decimal\<close>: sign, coefficient (not negative) and exponent; its value is the
  coefficient times ten to the exponent. Arithmetic is that of Python's default context:
  28 significant digits, results rounded half-even.
\<close>

record decimal =
  dec_negative :: bool
  dec_coefficient :: int
  dec_exponent :: int

text \<open>The number of decimal digits of a coefficient, \<open>len(str(c))\<close>.\<close>

function ndigits :: "int \<Rightarrow> nat" where
  "ndigits c = (if c < 10 then 1 else Suc (ndigits (c div 10)))"
  by pat_completeness auto
termination
  by (relation "measure nat") auto

declare ndigits.simps [simp del]

definition prec :: nat where
  "prec = 28"

text \<open>The product, rounded to the precision when it has more digits.\<close>

definition decimal_mul :: "decimal \<Rightarrow> decimal \<Rightarrow> decimal" where
  "decimal_mul a b =
     (let c = dec_coefficient a * dec_coefficient b;
          e = dec_exponent a + dec_exponent b;
          negative = (dec_negative a \<noteq> dec_negative b)
      in if ndigits c \<le> prec then
           \<lparr>dec_negative = negative, dec_coefficient = c, dec_exponent = e\<rparr>
         else
           (let shift = ndigits c - prec;
                c' = round_half_even c (10 ^ shift)
            in if c' < 10 ^ prec then
                 \<lparr>dec_negative = negative, dec_coefficient = c', dec_exponent = e + int shift\<rparr>
               else
                 \<lparr>dec_negative = negative, dec_coefficient = c' div 10,
                  dec_exponent = e + int shift + 1\<rparr>))"

text \<open>
  \<open>d.quantize(Decimal("0.01"), rounding=ROUND_HALF_UP)\<close>: the value with two decimal
  places, a tie rounded away from zero. It raises \<open>InvalidOperation\<close> when the result
  would have more digits than the precision.
\<close>

definition invalid_operation :: exn where
  "invalid_operation = Exception ''[<class 'decimal.InvalidOperation'>]''"

definition quantize_cents :: "decimal \<Rightarrow> exn + decimal" where
  "quantize_cents d =
     (let c = dec_coefficient d; e = dec_exponent d
      in if c = 0 then Inr \<lparr>dec_negative = dec_negative d, dec_coefficient = 0, dec_exponent = - 2\<rparr>
         else if int (ndigits c) + e + 2 > int prec then Inl invalid_operation
         else
           (let q = (if - 2 \<le> e then c * 10 ^ nat (e + 2)
                     else (let p = 10 ^ nat (- 2 - e)
                           in if p \<le> 2 * (c mod p) then c div p + 1 else c div p))
            in if 10 ^ prec \<le> q then Inl invalid_operation
               else Inr \<lparr>dec_negative = dec_negative d, dec_coefficient = q, dec_exponent = - 2\<rparr>))"

text \<open>
  The argument \<open>amount\<close>: a finite Python \<open>float\<close>, given by its text \<open>str(amount)\<close> and
  by the sign, coefficient and exponent of the decimal number that text denotes, which is
  what \<open>Decimal(str(amount))\<close> is. Not-a-number and the infinities are not modelled.
\<close>

record pyfloat =
  float_str :: string
  float_negative :: bool
  float_coefficient :: int
  float_exponent :: int

definition decimal_of_float :: "pyfloat \<Rightarrow> decimal" where
  "decimal_of_float x =
     \<lparr>dec_negative = float_negative x, dec_coefficient = float_coefficient x,
      dec_exponent = float_exponent x\<rparr>"

text \<open>A conversion value of the store, in millionths, as a \<open>Decimal\<close>.\<close>

definition decimal_of_rate :: "int \<Rightarrow> decimal" where
  "decimal_of_rate v = \<lparr>dec_negative = (v < 0), dec_coefficient = \<bar>v\<bar>, dec_exponent = - 6\<rparr>"

text \<open>
  \<open>name__icontains\<close>: the database's substring test that ignores case, taken as the
  substring test on the lower-cased texts.
\<close>

definition icontains :: "string \<Rightarrow> string \<Rightarrow> bool" where
  "icontains name part = str_in (str_lower part) (str_lower name)"

text \<open>
  The rate \<open>convert_currency\<close> uses: the first, by descending date, of the rates of the
  pair, among those of the institutions whose name contains \<open>bank_name\<close> when one is given.
\<close>

definition conversion_rate :: "env \<Rightarrow> string \<Rightarrow> string \<Rightarrow> string option \<Rightarrow> fxrate option" where
  "conversion_rate e source_currency target_currency bank_name =
     (let query = filter (\<lambda>r. fx_source_currency r = str_upper source_currency
                             \<and> fx_target_currency r = str_upper target_currency) (fx_rates e);
          query = (case bank_name of
                     None \<Rightarrow> query
                   | Some name \<Rightarrow>
                       if name = [] then query
                       else filter (\<lambda>r. icontains (fx_institution_name r) name) query)
      in case order_by_desc effective_date query of [] \<Rightarrow> None | rate # _ \<Rightarrow> Some rate)"

definition convert_currency ::
  "env \<Rightarrow> pyfloat \<Rightarrow> string \<Rightarrow> string \<Rightarrow> string option \<Rightarrow> string" where
  "convert_currency e amount source_currency target_currency bank_name =
     (if float_negative amount \<or> float_coefficient amount = 0 then
        ''Please provide a positive amount to convert''
      else
        (case db_fault e of
           Some msg \<Rightarrow> ''Error converting currency: '' @ msg
         | None \<Rightarrow>
            (case conversion_rate e source_currency target_currency bank_name of
               None \<Rightarrow> ''No exchange rate found for '' @ source_currency @ ''/'' @ target_currency
             | Some rate \<Rightarrow>
                (case quantize_cents
                        (decimal_mul (decimal_of_float amount)
                           (decimal_of_rate (conversion_value rate))) of
                   Inl (Exception msg) \<Rightarrow> ''Error converting currency: '' @ msg
                 | Inr converted_amount \<Rightarrow>
                     ''Conversion Result:\<newline>''
                       @ float_str amount @ '' '' @ source_currency @ '' = ''
                       @ show_fixed 2 (dec_negative converted_amount)
                           (dec_coefficient converted_amount)
                       @ '' '' @ target_currency @ ''\<newline>''
                       @ ''Rate: '' @ str_decimal 6 (conversion_value rate)
                       @ '' ('' @ fx_institution_name rate @ '')\<newline>''
                       @ ''Last updated: '' @ effective_date_text rate))))"

text \<open>\<open>a / b\<close> rounded to the nearest integer, a tie upwards, for \<open>a \<ge> 0\<close> and \<open>b > 0\<close>.\<close>

definition round_half_up :: "int \<Rightarrow> int \<Rightarrow> int" where
  "round_half_up a b = (2 * a + b) div (2 * b)"

text \<open>
  The hundredths of \<open>amount \<times> rate\<close> rounded half-up, for an amount with coefficient
  \<open>c\<close> and exponent \<open>x\<close> and a rate of \<open>v\<close> millionths.
\<close>

definition converted_cents :: "int \<Rightarrow> int \<Rightarrow> int \<Rightarrow> int" where
  "converted_cents c x v =
     (if 4 \<le> x then c * \<bar>v\<bar> * 10 ^ nat (x - 4)
      else round_half_up (c * \<bar>v\<bar>) (10 ^ nat (4 - x)))"

text \<open>
  A stored rate is eligible for a conversion: its currencies are the upper-cased pair and,
  when an institution name is given (and is not empty), the lower-cased name of its
  institution has the lower-cased given name as a contiguous part.
\<close>

definition eligible :: "string \<Rightarrow> string \<Rightarrow> string option \<Rightarrow> fxrate \<Rightarrow> bool" where
  "eligible source_currency target_currency bank_name r \<longleftrightarrow>
     fx_source_currency r = str_upper source_currency
     \<and> fx_target_currency r = str_upper target_currency
     \<and> (case bank_name of
          None \<Rightarrow> True
        | Some name \<Rightarrow>
            name = [] \<or> sublist (str_lower name) (str_lower (fx_institution_name r)))"

section \<open>Tool catalog: balances\<close>

definition bar_chart :: string where
  "bar_chart = [CHR 0xF0, CHR 0x9F, CHR 0x93, CHR 0x8A]"

definition currency_exchange :: string where
  "currency_exchange = [CHR 0xF0, CHR 0x9F, CHR 0x92, CHR 0xB1]"

definition clipboard :: string where
  "clipboard = [CHR 0xF0, CHR 0x9F, CHR 0x93, CHR 0x8B]"

definition money_bag :: string where
  "money_bag = [CHR 0xF0, CHR 0x9F, CHR 0x92, CHR 0xB0]"

definition mobile_phone :: string where
  "mobile_phone = [CHR 0xF0, CHR 0x9F, CHR 0x93, CHR 0xB1]"

definition bullet :: string where
  "bullet = [CHR 0xE2, CHR 0x80, CHR 0xA2]"

text \<open>
  The test \<open>if account.available_balance\<close>: a missing balance and a balance of zero are
  both false.
\<close>

definition truthy_balance :: "account \<Rightarrow> int option" where
  "truthy_balance a =
     (case available_balance a of None \<Rightarrow> None | Some b \<Rightarrow> if b = 0 then None else Some b)"

definition user_accounts :: "env \<Rightarrow> int \<Rightarrow> account list" where
  "user_accounts e user_id = filter (\<lambda>a. acc_user_id a = user_id) (accounts e)"

text \<open>\<open>get_user_accounts\<close>: the body of the loop, then the tool.\<close>

definition account_block :: "string \<Rightarrow> account \<Rightarrow> string" where
  "account_block result a =
     result @ ''\<newline>--- '' @ financial_institution_name a @ '' ---\<newline>''
       @ ''Account ID: '' @ acc_account_id a @ ''\<newline>''
       @ ''Currency: '' @ account_currency a @ ''\<newline>''
       @ (case truthy_balance a of
            Some b \<Rightarrow> ''Balance: '' @ str_decimal 2 b @ '' '' @ account_currency a @ ''\<newline>''
          | None \<Rightarrow> [])
       @ ''Status: '' @ account_status a @ ''\<newline>''"

definition get_user_accounts :: "env \<Rightarrow> int \<Rightarrow> string" where
  "get_user_accounts e user_id =
     (case db_fault e of
        Some msg \<Rightarrow> ''Error retrieving user accounts: '' @ msg
      | None \<Rightarrow>
          if user_accounts e user_id = [] then ''No accounts found for this user''
          else foldl account_block
                 (''User Accounts ('' @ show_nat (length (user_accounts e user_id)) @ ''):\<newline>'')
                 (user_accounts e user_id))"

text \<open>\<open>get_user_balance\<close>: the entry of an account, then the tool.\<close>

definition balance_line :: "account \<Rightarrow> string" where
  "balance_line a =
     ''Bank: '' @ financial_institution_name a @ '', Account: '' @ acc_account_id a
       @ '', Balance: ''
       @ (case truthy_balance a of Some b \<Rightarrow> str_decimal 2 b | None \<Rightarrow> ''Not available'')
       @ '' '' @ account_currency a @ '', Status: '' @ account_status a"

definition get_user_balance :: "env \<Rightarrow> int \<Rightarrow> string option \<Rightarrow> string" where
  "get_user_balance e user_id account_id =
     (case db_fault e of
        Some msg \<Rightarrow> ''Error: '' @ msg
      | None \<Rightarrow>
          (let query = user_accounts e user_id;
               query = (case account_id of
                          None \<Rightarrow> query
                        | Some i \<Rightarrow> if i = [] then query
                                    else filter (\<lambda>a. acc_account_id a = i) query)
           in if query = [] then ''No accounts found''
              else ''User account balances: '' @ join ''; '' (map balance_line query)))"

text \<open>
  \<open>get_balance_summary\<close>. The entry of a currency holds the total, the number of accounts
  and the institutions' names; the names are a Python \<open>set\<close>, whose order of iteration the
  program does not fix: the model keeps them in order of insertion.
\<close>

type_synonym currency_entry = "int \<times> nat \<times> string list"

definition add_to_currency_data ::
  "(string \<times> currency_entry) list \<Rightarrow> account \<Rightarrow> (string \<times> currency_entry) list" where
  "add_to_currency_data currency_data a =
     (case truthy_balance a of
        None \<Rightarrow> currency_data
      | Some balance \<Rightarrow>
          (let currency = account_currency a;
               d = (if map_of currency_data currency = None
                    then AList.update currency (0, 0, []) currency_data else currency_data);
               (tot, cnt, banks) = (case map_of d currency of Some x \<Rightarrow> x | None \<Rightarrow> (0, 0, []))
           in AList.update currency
                (tot + balance, Suc cnt, List.insert (financial_institution_name a) banks) d))"

definition currency_line :: "string \<Rightarrow> string \<times> currency_entry \<Rightarrow> string" where
  "currency_line result x =
     (case x of (currency, tot, cnt, banks) \<Rightarrow>
        result @ bullet @ '' '' @ currency @ '': '' @ str_decimal 2 tot @ '' across ''
          @ show_nat cnt @ '' account(s)\<newline>''
          @ ''  Banks: '' @ join '', '' (rev banks) @ ''\<newline>'')"

definition count_status :: "(string \<times> nat) list \<Rightarrow> account \<Rightarrow> (string \<times> nat) list" where
  "count_status status_counts a =
     (let status = (if account_status a = [] then ''Unknown'' else account_status a)
      in AList.update status
           (Suc (case map_of status_counts status of None \<Rightarrow> 0 | Some n \<Rightarrow> n)) status_counts)"

definition status_line :: "string \<Rightarrow> string \<times> nat \<Rightarrow> string" where
  "status_line result x =
     (case x of (status, cnt) \<Rightarrow>
        result @ bullet @ '' '' @ status @ '': '' @ show_nat cnt @ '' account(s)\<newline>'')"

definition currency_data :: "env \<Rightarrow> int \<Rightarrow> (string \<times> currency_entry) list" where
  "currency_data e user_id = foldl add_to_currency_data [] (user_accounts e user_id)"

text \<open>The count \<open>accounts.filter(available_balance__isnull=False).count()\<close>.\<close>

definition accounts_with_balance_count :: "env \<Rightarrow> int \<Rightarrow> nat" where
  "accounts_with_balance_count e user_id =
     length (filter (\<lambda>a. available_balance a \<noteq> None) (user_accounts e user_id))"

definition get_balance_summary :: "env \<Rightarrow> int \<Rightarrow> string" where
  "get_balance_summary e user_id =
     (case db_fault e of
        Some msg \<Rightarrow> ''Error generating balance summary: '' @ msg
      | None \<Rightarrow>
          (let accs = user_accounts e user_id
           in if accs = [] then ''No accounts found for this user''
              else
                (let total_accounts = length accs;
                     active_accounts = length (filter (\<lambda>a. account_status a = ''ACTIVE'') accs);
                     with_balance = accounts_with_balance_count e user_id;
                     result = bar_chart @ '' Balance Summary Report:\<newline>''
                       @ ''Total Accounts: '' @ show_nat total_accounts @ ''\<newline>''
                       @ ''Active Accounts: '' @ show_nat active_accounts @ ''\<newline>''
                       @ ''Accounts with Balance Data: '' @ show_nat with_balance
                       @ ''\<newline>\<newline>'';
                     result = (if currency_data e user_id \<noteq> [] then
                                 foldl currency_line
                                   (result @ currency_exchange @ '' Balance by Currency:\<newline>'')
                                   (currency_data e user_id)
                               else result);
                     result = result @ ''\<newline>'' @ clipboard @ '' Account Status:\<newline>''
                 in foldl status_line result (foldl count_status [] accs))))"

text \<open>\<open>check_account_balance\<close>: the loop carries the text and the totals.\<close>

definition check_step ::
  "string \<times> (string \<times> int) list \<Rightarrow> account \<Rightarrow> string \<times> (string \<times> int) list" where
  "check_step state a =
     (case state of (result, totals) \<Rightarrow>
        (let result = result @ ''\<newline>'' @ mobile_phone @ '' Account: '' @ acc_account_id a
                        @ ''\<newline>'' @ ''   Currency: '' @ account_currency a @ ''\<newline>''
         in case truthy_balance a of
              Some balance \<Rightarrow>
                (let result = result @ ''   Balance: '' @ str_decimal 2 balance @ '' ''
                                @ account_currency a @ ''\<newline>'';
                     currency = account_currency a;
                     d = (if map_of totals currency = None
                          then AList.update currency 0 totals else totals)
                 in (result @ ''   Status: '' @ account_status a @ ''\<newline>'',
                     AList.update currency (dict_get d currency + balance) d))
            | None \<Rightarrow>
                (result @ ''   Balance: Not available\<newline>''
                   @ ''   Status: '' @ account_status a @ ''\<newline>'', totals)))"

definition total_line :: "string \<Rightarrow> string \<times> int \<Rightarrow> string" where
  "total_line result x =
     (case x of (currency, tot) \<Rightarrow>
        result @ ''   '' @ currency @ '': '' @ str_decimal 2 tot @ ''\<newline>'')"

definition bank_accounts :: "env \<Rightarrow> int \<Rightarrow> string \<Rightarrow> account list" where
  "bank_accounts e user_id bank_name =
     filter (\<lambda>a. acc_user_id a = user_id \<and> icontains (financial_institution_name a) bank_name)
       (accounts e)"

definition check_loop :: "env \<Rightarrow> int \<Rightarrow> string \<Rightarrow> string \<times> (string \<times> int) list" where
  "check_loop e user_id bank_name =
     foldl check_step (money_bag @ '' Balance at '' @ bank_name @ '':\<newline>'', [])
       (bank_accounts e user_id bank_name)"

definition check_account_balance :: "env \<Rightarrow> int \<Rightarrow> string \<Rightarrow> string" where
  "check_account_balance e user_id bank_name =
     (case db_fault e of
        Some msg \<Rightarrow> ''Error checking account balance: '' @ msg
      | None \<Rightarrow>
          if bank_accounts e user_id bank_name = [] then ''No accounts found at '' @ bank_name
          else
            (case check_loop e user_id bank_name of
               (result, totals) \<Rightarrow>
                 if totals \<noteq> [] then
                   foldl total_line
                     (result @ ''\<newline>'' @ bar_chart @ '' Total at '' @ bank_name @ '':\<newline>'')
                     totals
                 else result))"

section \<open>Example data\<close>

definition demo_env :: env where
  "demo_env =
     \<lparr>users = [\<lparr>user_pk = 5, first_name = ''Lina'', last_name = ''Haddad'', username = ''lina''\<rparr>,
               \<lparr>user_pk = 6, first_name = [], last_name = [], username = ''omar''\<rparr>],
      accounts =
        [\<lparr>acc_user_id = 5, financial_institution_name = ''Bank A'', acc_account_id = ''A-1'', account_status = ''ACTIVE'',
          account_currency = ''JOD'', available_balance = Some 10000\<rparr>,
         \<lparr>acc_user_id = 5, financial_institution_name = ''Bank B'', acc_account_id = ''B-1'', account_status = ''ACTIVE'',
          account_currency = ''USD'', available_balance = Some 5000\<rparr>],
      fx_rates = [],
      GOOGLE_API_KEY = Some ''secret'',
      current_hour = 9,
      uuid4 = ''0b5e9c1e'',
      agent_invoke = (\<lambda>recap marker input. Inr ''Here is your answer.''),
      db_fault = None,
      create_fault = (\<lambda>row. None),
      filter_fault = None\<rparr>"

definition demo_env_locked :: env where
  "demo_env_locked =
     demo_env\<lparr>create_fault :=
       (\<lambda>row. if message_type row = ''assistant'' then Some ''database is locked'' else None)\<rparr>"

definition demo_row :: "int \<Rightarrow> string \<Rightarrow> string \<Rightarrow> string \<Rightarrow> nat \<Rightarrow> chat_row" where
  "demo_row uid mtype text sid t =
     \<lparr>cm_user_id = uid, message_type = mtype, content = text, row_session_id = sid, timestamp = t\<rparr>"

definition demo_world :: world where
  "demo_world =
     \<lparr>chat_memory =
        [demo_row 5 ''user'' ''q1'' ''s1'' 1, demo_row 5 ''assistant'' ''a1'' ''s1'' 2,
         demo_row 6 ''user'' ''other user'' ''s1'' 3, demo_row 5 ''user'' ''q2'' ''s1'' 4,
         demo_row 5 ''assistant'' ''a2'' ''s1'' 5, demo_row 5 ''user'' ''other session'' ''s2'' 6,
         demo_row 5 ''user'' ''q3'' ''s1'' 7, demo_row 5 ''assistant'' ''a3'' ''s1'' 8,
         demo_row 5 ''user'' ''q4'' ''s1'' 9],
      clock = 10, printed = [], trace = []\<rparr>"

definition demo_zero_accounts :: "account list" where
  "demo_zero_accounts =
     [\<lparr>acc_user_id = 7, financial_institution_name = ''Bank A'', acc_account_id = ''A-7'',
       account_status = ''ACTIVE'', account_currency = ''JOD'', available_balance = Some 0\<rparr>,
      \<lparr>acc_user_id = 7, financial_institution_name = ''Bank B'', acc_account_id = ''B-7'',
       account_status = ''ACTIVE'', account_currency = ''USD'', available_balance = Some 5000\<rparr>]"

definition demo_rate :: "string \<Rightarrow> string \<Rightarrow> string \<Rightarrow> int \<Rightarrow> int \<Rightarrow> string \<Rightarrow> fxrate" where
  "demo_rate name src tgt v d txt =
     \<lparr>fx_institution_name = name, fx_source_currency = src, fx_target_currency = tgt,
      conversion_value = v, effective_date = d, effective_date_text = txt\<rparr>"

definition demo_fx :: "fxrate list" where
  "demo_fx =
     [demo_rate ''Bank A'' ''USD'' ''JOD'' 700000 100 ''2024-01-01 09:00'',
      demo_rate ''Bank B'' ''USD'' ''JOD'' 711000 150 ''2024-02-01 09:00'',
      demo_rate ''Bank A'' ''USD'' ''JOD'' 709000 200 ''2024-03-01 09:00'',
      demo_rate ''Bank C'' ''EUR'' ''JOD'' 770000 300 ''2024-04-01 09:00'']"

definition demo_fx_six :: "fxrate list" where
  "demo_fx_six =
     [demo_rate ''Bank 1'' ''USD'' ''JOD'' 760000 100 ''2024-01-01 09:00'',
      demo_rate ''Bank 2'' ''USD'' ''JOD'' 750000 100 ''2024-01-01 09:00'',
      demo_rate ''Bank 3'' ''USD'' ''JOD'' 740000 100 ''2024-01-01 09:00'',
      demo_rate ''Bank 4'' ''USD'' ''JOD'' 730000 100 ''2024-01-01 09:00'',
      demo_rate ''Bank 5'' ''USD'' ''JOD'' 720000 100 ''2024-01-01 09:00'',
      demo_rate ''Bank 6'' ''USD'' ''JOD'' 100000 100 ''2024-01-01 09:00'']"

definition demo_fx_large :: "fxrate list" where
  "demo_fx_large =
     [demo_rate ''Bank A'' ''USD'' ''IRR'' 4285249991179340 100 ''2024-01-01 09:00'']"

definition demo_amount :: "string \<Rightarrow> int \<Rightarrow> int \<Rightarrow> pyfloat" where
  "demo_amount txt c x =
     \<lparr>float_str = txt, float_negative = False, float_coefficient = c, float_exponent = x\<rparr>"

text \<open>Accounts of one user with two in the same currency, and one without a balance.\<close>

definition demo_accounts_mixed :: "account list" where
  "demo_accounts_mixed =
     [\<lparr>acc_user_id = 5, financial_institution_name = ''Bank A'', acc_account_id = ''A-1'',
       account_status = ''ACTIVE'', account_currency = ''JOD'', available_balance = Some 10000\<rparr>,
      \<lparr>acc_user_id = 5, financial_institution_name = ''Bank B'', acc_account_id = ''B-1'',
       account_status = ''ACTIVE'', account_currency = ''USD'', available_balance = Some 5000\<rparr>,
      \<lparr>acc_user_id = 6, financial_institution_name = ''Bank A'', acc_account_id = ''A-2'',
       account_status = ''ACTIVE'', account_currency = ''JOD'', available_balance = Some 99900\<rparr>,
      \<lparr>acc_user_id = 5, financial_institution_name = ''Bank C'', acc_account_id = ''C-1'',
       account_status = ''ACTIVE'', account_currency = ''EUR'', available_balance = None\<rparr>,
      \<lparr>acc_user_id = 5, financial_institution_name = ''Bank C'', acc_account_id = ''C-2'',
       account_status = ''ACTIVE'', account_currency = ''JOD'', available_balance = Some 2550\<rparr>]"

text \<open>Prompts with characters outside ASCII use these, as UTF-8.\<close>

definition no_break_space :: string where
  "no_break_space = [CHR 0xC2, CHR 0xA0]"

definition capital_i_with_dot :: string where
  "capital_i_with_dot = [CHR 0xC4, CHR 0xB0]"

section \<open>Properties of the string operations\<close>

lemma startswith_prefix: "startswith s w = prefix w s"
  by (induction s w rule: startswith.induct) auto

lemma str_in_sublist: "str_in w s = sublist w s"
proof (induction s)
  case Nil
  show ?case by simp
next
  case (Cons c cs)
  then show ?case by (simp add: sublist_Cons_right startswith_prefix)
qed

lemma dropWhile_all: "\<forall>c \<in> set a. P c \<Longrightarrow> dropWhile P (a @ s) = dropWhile P s"
  by (induction a) auto

lemma dropWhile_all_Nil: "\<forall>c \<in> set a. P c \<Longrightarrow> dropWhile P a = []"
  by (induction a) auto

lemma strip_unique:
  assumes a: "\<forall>c \<in> set a. is_space c"
    and b: "\<forall>c \<in> set b. is_space c"
    and p: "p \<noteq> [] \<longrightarrow> \<not> is_space (hd p) \<and> \<not> is_space (last p)"
  shows "strip (a @ p @ b) = p"
proof (cases "p = []")
  case True
  have "dropWhile is_space (a @ b) = dropWhile is_space b" using a by (rule dropWhile_all)
  moreover have "dropWhile is_space b = []" using b by (rule dropWhile_all_Nil)
  ultimately have e: "dropWhile is_space (a @ [] @ b) = []" by simp
  show ?thesis unfolding True strip_def e by simp
next
  case False
  then obtain x xs where px: "p = x # xs" by (cases p) auto
  have x: "\<not> is_space x" using p px by simp
  have l: "\<not> is_space (last p)" using p False by simp
  have 1: "dropWhile is_space (a @ p @ b) = p @ b"
    using a x px by (simp add: dropWhile_all)
  have "rev (p @ b) = rev b @ rev p" by simp
  moreover have "\<forall>c \<in> set (rev b). is_space c" using b by simp
  ultimately have 2: "dropWhile is_space (rev (p @ b)) = dropWhile is_space (rev p)"
    by (simp only: dropWhile_all)
  obtain y ys where r: "rev p = y # ys" using False by (cases "rev p") auto
  have "hd (rev p) = last p" using False by (simp add: hd_rev)
  then have "\<not> is_space y" using l r by simp
  then have 3: "dropWhile is_space (rev p) = rev p" unfolding r by simp
  show ?thesis unfolding strip_def 1 2 3 by simp
qed

lemma strip_decomp:
  "\<exists>a b. s = a @ strip s @ b \<and> (\<forall>c \<in> set a. is_space c) \<and> (\<forall>c \<in> set b. is_space c)
         \<and> (strip s \<noteq> [] \<longrightarrow> \<not> is_space (hd (strip s)) \<and> \<not> is_space (last (strip s)))"
proof -
  define a where "a = takeWhile is_space s"
  define t where "t = dropWhile is_space s"
  define b where "b = rev (takeWhile is_space (rev t))"
  have s: "s = a @ t" by (simp add: a_def t_def)
  have "rev t = takeWhile is_space (rev t) @ dropWhile is_space (rev t)" by simp
  then have "rev (rev t) = rev (takeWhile is_space (rev t) @ dropWhile is_space (rev t))"
    by simp
  then have "t = rev (dropWhile is_space (rev t)) @ rev (takeWhile is_space (rev t))"
    by (simp only: rev_rev_ident rev_append)
  moreover have "strip s = rev (dropWhile is_space (rev t))" by (simp add: strip_def t_def)
  ultimately have t: "t = strip s @ b" by (simp only: b_def)
  have sa: "\<forall>c \<in> set a. is_space c" unfolding a_def by (auto dest: set_takeWhileD)
  have sb: "\<forall>c \<in> set b. is_space c" unfolding b_def by (auto dest: set_takeWhileD)
  have e: "\<not> is_space (hd (strip s)) \<and> \<not> is_space (last (strip s))" if ne: "strip s \<noteq> []"
  proof -
    have d: "dropWhile is_space (rev t) \<noteq> []" using ne by (simp add: strip_def t_def)
    have "last (strip s) = hd (dropWhile is_space (rev t))"
      using d by (simp add: strip_def t_def last_rev)
    then have l: "\<not> is_space (last (strip s))" using d hd_dropWhile by metis
    have "t \<noteq> []" using t ne by auto
    then have "\<not> is_space (hd t)" unfolding t_def using hd_dropWhile by metis
    moreover have "hd t = hd (strip s)" using t ne by (metis hd_append2)
    ultimately show ?thesis using l by simp
  qed
  show ?thesis using s t sa sb e by (intro exI [of _ a] exI [of _ b]) simp
qed

lemma filter_upt_Suc:
  "length (filter P [0..<Suc n]) = (if P 0 then 1 else 0) + length (filter (\<lambda>i. P (Suc i)) [0..<n])"
proof -
  have "[0..<Suc n] = 0 # map Suc [0..<n]" by (simp add: upt_conv_Cons map_Suc_upt del: upt_Suc)
  then show ?thesis by (simp add: filter_map comp_def del: upt_Suc)
qed

lemma length_split_ws:
  "length (split_ws w s) =
     (if w = [] then 0 else 1)
     + length (filter (\<lambda>i. \<not> is_space (s ! i) \<and> (if i = 0 then w = [] else is_space (s ! (i - 1))))
                [0..<length s])"
proof (induction s arbitrary: w)
  case Nil
  show ?case by simp
next
  case (Cons c cs)
  let ?Q = "\<lambda>i. \<not> is_space ((c # cs) ! i) \<and> (if i = 0 then w = [] else is_space ((c # cs) ! (i - 1)))"
  have step: "length (filter ?Q [0..<length (c # cs)]) =
                (if ?Q 0 then 1 else 0) + length (filter (\<lambda>i. ?Q (Suc i)) [0..<length cs])"
    by (simp only: length_Cons filter_upt_Suc)
  have shift: "?Q (Suc i) \<longleftrightarrow>
                 \<not> is_space (cs ! i) \<and> (if i = 0 then is_space c else is_space (cs ! (i - 1)))" for i
    by (cases i) simp_all
  show ?case
  proof (cases "is_space c")
    case True
    have "length (split_ws w (c # cs)) = (if w = [] then 0 else 1) + length (split_ws [] cs)"
      using True by simp
    moreover have "length (split_ws [] cs) =
       length (filter (\<lambda>i. \<not> is_space (cs ! i) \<and> (if i = 0 then True else is_space (cs ! (i - 1))))
                [0..<length cs])"
      by (simp add: Cons.IH [of "[]"])
    moreover have "length (filter ?Q [0..<length (c # cs)]) =
       length (filter (\<lambda>i. \<not> is_space (cs ! i) \<and> (if i = 0 then True else is_space (cs ! (i - 1))))
                [0..<length cs])"
      unfolding step shift using True by simp
    ultimately show ?thesis by simp
  next
    case False
    have "length (split_ws w (c # cs)) = length (split_ws (w @ [c]) cs)"
      using False by simp
    moreover have "length (split_ws (w @ [c]) cs) = 1 +
       length (filter (\<lambda>i. \<not> is_space (cs ! i) \<and> (if i = 0 then False else is_space (cs ! (i - 1))))
                [0..<length cs])"
      by (simp add: Cons.IH [of "w @ [c]"])
    moreover have "length (filter ?Q [0..<length (c # cs)]) = (if w = [] then 1 else 0) +
       length (filter (\<lambda>i. \<not> is_space (cs ! i) \<and> (if i = 0 then False else is_space (cs ! (i - 1))))
                [0..<length cs])"
      unfolding step shift using False by simp
    ultimately show ?thesis by simp
  qed
qed

lemma length_split:
  "length (split s) =
     length (filter (\<lambda>i. \<not> is_space (s ! i) \<and> (i = 0 \<or> is_space (s ! (i - 1)))) [0..<length s])"
proof -
  have "(\<lambda>i. \<not> is_space (s ! i) \<and> (if i = 0 then [] = ([] :: int list) else is_space (s ! (i - 1))))
        = (\<lambda>i. \<not> is_space (s ! i) \<and> (i = 0 \<or> is_space (s ! (i - 1))))"
    by auto
  then show ?thesis by (simp add: split_def length_split_ws)
qed

lemma decode_ascii:
  "\<forall>ch \<in> set s. (of_char ch :: int) < 128 \<Longrightarrow> decode s = map of_char s"
  by (induction s) auto

lemma shift_of_lower_ascii:
  assumes "c < 128"
  shows "shift_of lower_table c = (if 65 \<le> c \<and> c \<le> 90 then Some 32 else None)"
proof -
  obtain rest where t: "lower_table = (65, 90, 1, 32) # (192, 214, 1, 32) # rest"
    by (simp add: lower_table_def)
  show ?thesis using assms unfolding t by simp
qed

lemma lower_from_ascii:
  "\<forall>c \<in> set s. c < 128 \<Longrightarrow>
     lower_from seen s = map (\<lambda>c. if 65 \<le> c \<and> c \<le> 90 then c + 32 else c) s"
  by (induction s arbitrary: seen) (auto simp: to_lower_def shift_of_lower_ascii)

lemma is_space_iff:
  "is_space c \<longleftrightarrow>
     c \<in> {9..13} \<union> {28..32} \<union> {133, 160, 5760} \<union> {8192..8202} \<union> {8232, 8233, 8239, 8287, 12288}"
  unfolding is_space_def whitespace_def by simp presburger

lemma set_greeting_words:
  "{''hello'', ''hi'', ''hey'', ''good morning'', ''good afternoon'', ''good evening''}
   = set greeting_words"
  by (simp only: greeting_words_def list.set)

section \<open>The greeting classifier\<close>

text \<open>
  Claim C8. \<open>is_greeting_message prompt\<close> is true exactly when the lower-cased prompt, with
  the whitespace at its two ends taken off, equals one of the six greeting words, or
  starts with one of them, or the prompt has at most three words (maximal runs of code
  points that are not whitespace) and the lower-cased, trimmed prompt contains a greeting
  word as a substring. Whitespace is the set of code points given; on a prompt of ASCII
  characters the lower-casing adds 32 to the capital letters and leaves the rest.
\<close>

theorem is_greeting_message_iff:
  "(is_greeting_message prompt \<longleftrightarrow>
      (let W = {''hello'', ''hi'', ''hey'', ''good morning'', ''good afternoon'', ''good evening''};
           s = decode prompt
       in \<exists>a p b.
            lower s = a @ p @ b
            \<and> (\<forall>c \<in> set a. is_space c) \<and> (\<forall>c \<in> set b. is_space c)
            \<and> (p \<noteq> [] \<longrightarrow> \<not> is_space (hd p) \<and> \<not> is_space (last p))
            \<and> (p \<in> decode ` W
                \<or> (\<exists>w \<in> W. prefix (decode w) p)
                \<or> (length (filter (\<lambda>i. \<not> is_space (s ! i) \<and> (i = 0 \<or> is_space (s ! (i - 1))))
                             [0..<length s]) \<le> 3
                    \<and> (\<exists>w \<in> W. sublist (decode w) p)))))
   \<and> (is_space c \<longleftrightarrow>
        c \<in> {9..13} \<union> {28..32} \<union> {133, 160, 5760} \<union> {8192..8202}
              \<union> {8232, 8233, 8239, 8287, 12288})
   \<and> ((\<forall>ch \<in> set prompt. (of_char ch :: int) < 128) \<longrightarrow>
        decode prompt = map of_char prompt
        \<and> lower (decode prompt) =
            map (\<lambda>ch. if 65 \<le> (of_char ch :: int) \<and> (of_char ch :: int) \<le> 90
                      then of_char ch + 32 else of_char ch) prompt)"
proof -
  define W where "W = set greeting_words"
  define s where "s = decode prompt"
  define n where
    "n = length (filter (\<lambda>i. \<not> is_space (s ! i) \<and> (i = 0 \<or> is_space (s ! (i - 1)))) [0..<length s])"
  define core where
    "core p \<longleftrightarrow> p \<in> decode ` W \<or> (\<exists>w \<in> W. prefix (decode w) p)
                \<or> (n \<le> 3 \<and> (\<exists>w \<in> W. sublist (decode w) p))" for p
  have n: "length (split (decode prompt)) = n"
    unfolding n_def s_def by (rule length_split)
  have eq: "(\<exists>word \<in> set greeting_words. decode word = q) \<longleftrightarrow> q \<in> decode ` set greeting_words"
    for q
    by auto
  have g: "is_greeting_message prompt \<longleftrightarrow> core (strip (lower s))"
    unfolding is_greeting_message_def Let_def list_ex_iff startswith_prefix str_in_sublist n
      core_def W_def s_def eq
    by (rule disj_left_commute)
  have ex: "core (strip t) \<longleftrightarrow>
              (\<exists>a p b. t = a @ p @ b
                 \<and> (\<forall>c \<in> set a. is_space c) \<and> (\<forall>c \<in> set b. is_space c)
                 \<and> (p \<noteq> [] \<longrightarrow> \<not> is_space (hd p) \<and> \<not> is_space (last p))
                 \<and> core p)" for t
  proof
    assume c: "core (strip t)"
    obtain a b where "t = a @ strip t @ b" "\<forall>c \<in> set a. is_space c" "\<forall>c \<in> set b. is_space c"
      "strip t \<noteq> [] \<longrightarrow> \<not> is_space (hd (strip t)) \<and> \<not> is_space (last (strip t))"
      using strip_decomp [of t] by blast
    then show "\<exists>a p b. t = a @ p @ b
                 \<and> (\<forall>c \<in> set a. is_space c) \<and> (\<forall>c \<in> set b. is_space c)
                 \<and> (p \<noteq> [] \<longrightarrow> \<not> is_space (hd p) \<and> \<not> is_space (last p))
                 \<and> core p"
      using c by blast
  next
    assume "\<exists>a p b. t = a @ p @ b
                 \<and> (\<forall>c \<in> set a. is_space c) \<and> (\<forall>c \<in> set b. is_space c)
                 \<and> (p \<noteq> [] \<longrightarrow> \<not> is_space (hd p) \<and> \<not> is_space (last p))
                 \<and> core p"
    then obtain a p b where t: "t = a @ p @ b"
      and a: "\<forall>c \<in> set a. is_space c" and b: "\<forall>c \<in> set b. is_space c"
      and p: "p \<noteq> [] \<longrightarrow> \<not> is_space (hd p) \<and> \<not> is_space (last p)"
      and c: "core p"
      by blast
    have "strip t = p" unfolding t using a b p by (rule strip_unique)
    then show "core (strip t)" using c by simp
  qed
  have main: "is_greeting_message prompt \<longleftrightarrow>
      (\<exists>a p b.
            lower s = a @ p @ b
            \<and> (\<forall>c \<in> set a. is_space c) \<and> (\<forall>c \<in> set b. is_space c)
            \<and> (p \<noteq> [] \<longrightarrow> \<not> is_space (hd p) \<and> \<not> is_space (last p))
            \<and> (p \<in> decode ` W
                \<or> (\<exists>w \<in> W. prefix (decode w) p)
                \<or> (length (filter (\<lambda>i. \<not> is_space (s ! i) \<and> (i = 0 \<or> is_space (s ! (i - 1))))
                             [0..<length s]) \<le> 3
                    \<and> (\<exists>w \<in> W. sublist (decode w) p))))"
    using g ex [of "lower s"] unfolding core_def n_def by simp
  have ascii: "decode prompt = map of_char prompt
        \<and> lower (decode prompt) =
            map (\<lambda>ch. if 65 \<le> (of_char ch :: int) \<and> (of_char ch :: int) \<le> 90
                      then of_char ch + 32 else of_char ch) prompt"
    if h: "\<forall>ch \<in> set prompt. (of_char ch :: int) < 128"
  proof -
    have d: "decode prompt = map of_char prompt" using h by (rule decode_ascii)
    have "\<forall>c \<in> set (map of_char prompt). (c :: int) < 128" using h by simp
    then have "lower_from [] (map of_char prompt) =
                 map (\<lambda>c. if 65 \<le> c \<and> c \<le> 90 then c + 32 else c) (map of_char prompt)"
      by (rule lower_from_ascii)
    then show ?thesis unfolding lower_def d by (simp add: comp_def)
  qed
  have ascii_imp: "(\<forall>ch \<in> set prompt. (of_char ch :: int) < 128) \<longrightarrow>
        decode prompt = map of_char prompt
        \<and> lower (decode prompt) =
            map (\<lambda>ch. if 65 \<le> (of_char ch :: int) \<and> (of_char ch :: int) \<le> 90
                      then of_char ch + 32 else of_char ch) prompt"
    by (rule impI) (rule ascii)
  show ?thesis
    unfolding Let_def set_greeting_words
    by (rule conjI [OF main [unfolded W_def s_def] conjI [OF is_space_iff ascii_imp]])
qed

theorem is_greeting_message_iff_witness:
  "is_greeting_message ''  Hi there, how are you doing today?''
   \<and> is_greeting_message ''Good Morning''
   \<and> is_greeting_message ''so oh hey''
   \<and> \<not> is_greeting_message ''well so oh hey''
   \<and> is_greeting_message ''this is high''
   \<and> \<not> is_greeting_message ''what is my total balance?''
   \<and> is_greeting_message (no_break_space @ ''hi are you there now'')
   \<and> is_greeting_message (''H'' @ capital_i_with_dot @ '' a b c d'')
   \<and> \<not> is_greeting_message (''a'' @ no_break_space @ ''b'' @ no_break_space @ ''c hi'')
   \<and> lower (decode ''Good Morning'') = decode ''good morning''
   \<and> lower (decode (''H'' @ capital_i_with_dot)) = [104, 105, 775]
   \<and> lower [927, 916, 927, 931] = [959, 948, 959, 962]
   \<and> is_space 160 \<and> \<not> is_space 95"
proof -
  have a: "is_greeting_message ''  Hi there, how are you doing today?''"
    apply (rule iffD2 [OF is_greeting_message_iff [THEN conjunct1]])
    apply (simp only: Let_def)
    apply (rule exI [of _ "[32, 32]"])
    apply (rule exI [of _ "decode ''hi there, how are you doing today?''"])
    apply (rule exI [of _ "[]"])
    apply code_simp
    done
  have b: "is_greeting_message ''Good Morning''"
    apply (rule iffD2 [OF is_greeting_message_iff [THEN conjunct1]])
    apply (simp only: Let_def)
    apply (rule exI [of _ "[]"])
    apply (rule exI [of _ "decode ''good morning''"])
    apply (rule exI [of _ "[]"])
    apply code_simp
    done
  have c: "is_greeting_message ''so oh hey''"
    apply (rule iffD2 [OF is_greeting_message_iff [THEN conjunct1]])
    apply (simp only: Let_def)
    apply (rule exI [of _ "[]"])
    apply (rule exI [of _ "decode ''so oh hey''"])
    apply (rule exI [of _ "[]"])
    apply code_simp
    done
  have d: "\<not> is_greeting_message ''well so oh hey''" by code_simp
  have e: "is_greeting_message ''this is high''" by code_simp
  have f: "\<not> is_greeting_message ''what is my total balance?''" by code_simp
  have g: "is_greeting_message (no_break_space @ ''hi are you there now'')"
    apply (rule iffD2 [OF is_greeting_message_iff [THEN conjunct1]])
    apply (simp only: Let_def)
    apply (rule exI [of _ "[160]"])
    apply (rule exI [of _ "decode ''hi are you there now''"])
    apply (rule exI [of _ "[]"])
    apply code_simp
    done
  have h: "is_greeting_message (''H'' @ capital_i_with_dot @ '' a b c d'')" by code_simp
  have i: "\<not> is_greeting_message (''a'' @ no_break_space @ ''b'' @ no_break_space @ ''c hi'')"
    by code_simp
  have "\<forall>ch \<in> set ''Good Morning''. (of_char ch :: int) < 128" by code_simp
  then have "lower (decode ''Good Morning'') =
            map (\<lambda>ch. if 65 \<le> (of_char ch :: int) \<and> (of_char ch :: int) \<le> 90
                      then of_char ch + 32 else of_char ch) ''Good Morning''"
    by (rule is_greeting_message_iff [THEN conjunct2, THEN conjunct2, THEN mp, THEN conjunct2])
  moreover have "map (\<lambda>ch. if 65 \<le> (of_char ch :: int) \<and> (of_char ch :: int) \<le> 90
                      then of_char ch + 32 else of_char ch) ''Good Morning'' = decode ''good morning''"
    by code_simp
  ultimately have j: "lower (decode ''Good Morning'') = decode ''good morning''" by simp
  have k: "is_space 160" by (rule iffD2 [OF is_greeting_message_iff [THEN conjunct2, THEN conjunct1]]) simp
  have l: "\<not> is_space 95" by code_simp
  have dotted: "lower (decode (''H'' @ capital_i_with_dot)) = [104, 105, 775]" by code_simp
  have sigma: "lower [927, 916, 927, 931] = [959, 948, 959, 962]" by code_simp
  show ?thesis by (intro conjI) (rule a b c d e f g h i j dotted sigma k l)+
qed

section \<open>Loading the recent history\<close>

lemma set_order_by_desc: "set (order_by_desc key rows) = set rows"
  by (simp add: order_by_desc_def)

lemma length_order_by_desc: "length (order_by_desc key rows) = length rows"
  by (simp add: order_by_desc_def)

lemma sorted_order_by_desc: "sorted_wrt (\<lambda>x y. key y \<le> key x) (order_by_desc key rows)"
proof -
  have "sorted (map (\<lambda>r. - key r) (order_by_desc key rows))"
    by (simp add: order_by_desc_def)
  then show ?thesis by (simp add: sorted_wrt_map)
qed












lemma emit_session_rows [simp]: "session_rows m (emit ev w) = session_rows m w"
  by (simp add: session_rows_def emit_def)

lemma emit_recent_rows [simp]: "recent_rows m (emit ev w) = recent_rows m w"
  by (simp add: recent_rows_def)



section \<open>The orchestrator\<close>

lemma error_text_cases:
  "error_text msg =
     (if sublist ''GOOGLE_API_KEY'' msg then
        cross_mark @ '' API key error. Please check configuration.''
      else if sublist ''rate limit'' (str_lower msg) then
        warning_sign @ '' Rate limit exceeded. Please try again shortly.''
      else cross_mark @ '' Error: '' @ msg)"
  by (simp only: error_text_def str_in_sublist)

lemma save_context_cases:
  "save_context e m input output w =
     (let ru = \<lparr>cm_user_id = mem_user_id m, message_type = ''user'', content = input,
                 row_session_id = mem_session_id m, timestamp = clock w\<rparr>;
          ra = \<lparr>cm_user_id = mem_user_id m, message_type = ''assistant'', content = output,
                 row_session_id = mem_session_id m, timestamp = Suc (clock w)\<rparr>
      in case create_fault e ru of
           Some msg \<Rightarrow> w\<lparr>trace := trace w @ [MemoryWrite],
                          printed := printed w @ [''Error saving chat memory: '' @ msg]\<rparr>
         | None \<Rightarrow>
            (case create_fault e ra of
               Some msg \<Rightarrow> w\<lparr>trace := trace w @ [MemoryWrite, MemoryWrite],
                              chat_memory := chat_memory w @ [ru], clock := Suc (clock w),
                              printed := printed w @ [''Error saving chat memory: '' @ msg]\<rparr>
             | None \<Rightarrow> w\<lparr>trace := trace w @ [MemoryWrite, MemoryWrite],
                          chat_memory := chat_memory w @ [ru, ra], clock := Suc (Suc (clock w))\<rparr>))"
  by (simp add: save_context_def objects_create_def emit_def print_def Let_def split: option.splits)

lemma load_memory_variables_world:
  "snd (load_memory_variables e m w) =
     (case filter_fault e of
        None \<Rightarrow> w\<lparr>trace := trace w @ [MemoryRead]\<rparr>
      | Some msg \<Rightarrow> w\<lparr>trace := trace w @ [MemoryRead],
                       printed := printed w @ [''Error loading chat memory: '' @ msg]\<rparr>)"
  by (simp add: load_memory_variables_def emit_def print_def Let_def split: option.splits)

lemma find_user_pk: "find (\<lambda>x. user_pk x = u) us = Some usr \<Longrightarrow> user_pk usr = u"
  by (induction us) (auto split: if_splits)

lemma get_personalized_greeting_found:
  assumes "find (\<lambda>x. user_pk x = u) (users e) = Some usr" and "db_fault e = None"
  shows "get_personalized_greeting e u =
           time_greeting (current_hour e) @ '', ''
             @ (if first_name usr \<noteq> [] then first_name usr else username usr)
             @ ''! '' @ waving_hand @ ''\<newline>\<newline>''
             @ greeting_summary (filter (\<lambda>a. acc_user_id a = u) (accounts e))
             @ ''What would you like to know about your finances today?''"
proof -
  have pk: "user_pk usr = u" using assms(1) by (rule find_user_pk)
  show ?thesis
  proof (cases "filter (\<lambda>a. acc_user_id a = u) (accounts e)")
    case Nil
    then show ?thesis using assms pk
      by (simp add: get_personalized_greeting_def greeting_summary_def Let_def)
  next
    case (Cons a as)
    note c1 = Cons
    show ?thesis
    proof (cases as)
      case Nil
      then show ?thesis using assms pk c1
        by (simp add: get_personalized_greeting_def greeting_summary_def Let_def)
    next
      case (Cons b bs)
      have "length (remdups (map financial_institution_name (a # b # bs))) = card (financial_institution_name ` set (a # b # bs))"
        by (simp only: length_remdups_card_conv set_map)
      then show ?thesis using assms pk c1 Cons
        by (simp add: get_personalized_greeting_def greeting_summary_def Let_def)
    qed
  qed
qed

text \<open>
  Claim C1, as amended. When the user id is given and is not zero and the prompt is a
  greeting, the call returns the text of \<open>get_personalized_greeting\<close> and leaves the world
  as it was: the model is not invoked, no operation is issued to the conversation memory.
  The text is the time-of-day salutation with the user's name and the account-count
  summary when the user's row is read, and the fixed fallback greeting when the user is
  unknown or the query raises.
\<close>

theorem greeting_short_circuit:
  assumes "user_id = Some u" and "u \<noteq> 0" and "is_greeting_message prompt"
  shows "run_fintech_agent e prompt user_id session_id w = (get_personalized_greeting e u, w)
    \<and> new_events w (snd (run_fintech_agent e prompt user_id session_id w)) = []
    \<and> chat_memory (snd (run_fintech_agent e prompt user_id session_id w)) = chat_memory w
    \<and> (db_fault e \<noteq> None \<or> find (\<lambda>x. user_pk x = u) (users e) = None \<longrightarrow>
          get_personalized_greeting e u = fallback_greeting)
    \<and> (\<forall>usr. db_fault e = None \<and> find (\<lambda>x. user_pk x = u) (users e) = Some usr \<longrightarrow>
          get_personalized_greeting e u =
            time_greeting (current_hour e) @ '', ''
              @ (if first_name usr \<noteq> [] then first_name usr else username usr)
              @ ''! '' @ waving_hand @ ''\<newline>\<newline>''
              @ greeting_summary (filter (\<lambda>a. acc_user_id a = u) (accounts e))
              @ ''What would you like to know about your finances today?'')"
proof -
  have r: "run_fintech_agent e prompt user_id session_id w = (get_personalized_greeting e u, w)"
    using assms by (simp add: run_fintech_agent_def run_body_def truthy_def)
  have n: "db_fault e \<noteq> None \<or> find (\<lambda>x. user_pk x = u) (users e) = None \<longrightarrow>
          get_personalized_greeting e u = fallback_greeting"
    by (auto simp: get_personalized_greeting_def)
  show ?thesis using r n get_personalized_greeting_found [of u e]
    by (simp add: new_events_def)
qed


theorem greeting_short_circuit_witness:
  "Some (5::int) = Some 5 \<and> (5::int) \<noteq> 0 \<and> is_greeting_message ''Hello!''
   \<and> run_fintech_agent demo_env ''Hello!'' (Some 5) (Some ''s1'') demo_world
       = (''Good morning, Lina! '' @ waving_hand @ ''\<newline>\<newline>''
            @ ''Great to see you managing accounts across 2 banks! I can help you with balances, conversions, and comparisons.\<newline>\<newline>''
            @ ''What would you like to know about your finances today?'', demo_world)"
proof -
  have g: "is_greeting_message ''Hello!''" by code_simp
  have v: "get_personalized_greeting demo_env 5
       = ''Good morning, Lina! '' @ waving_hand @ ''\<newline>\<newline>''
            @ ''Great to see you managing accounts across 2 banks! I can help you with balances, conversions, and comparisons.\<newline>\<newline>''
            @ ''What would you like to know about your finances today?''"
    by code_simp
  have "run_fintech_agent demo_env ''Hello!'' (Some 5) (Some ''s1'') demo_world
          = (get_personalized_greeting demo_env 5, demo_world)"
    using greeting_short_circuit [of "Some 5" 5 "''Hello!''" demo_env "Some ''s1''" demo_world] g
    by simp
  then show ?thesis using g v by simp
qed

theorem greeting_unknown_user_counterexample:
  "is_greeting_message ''hi''
   \<and> fst (run_fintech_agent demo_env ''hi'' (Some 99) (Some ''s1'') demo_world)
       = ''Hello! I'm your AI financial assistant. How can I help you today?''
   \<and> \<not> prefix (time_greeting (current_hour demo_env))
         (fst (run_fintech_agent demo_env ''hi'' (Some 99) (Some ''s1'') demo_world))
   \<and> run_fintech_agent demo_env ''hi'' (Some 0) (Some ''s1'') demo_world
       = (''Here is your answer.'', demo_world\<lparr>trace := [ModelInvoked]\<rparr>)"
  by code_simp

text \<open>
  Claim C9. With no user id the greeting short-circuit is not taken, whatever the prompt:
  the call is the model path, the model is given an empty recap and an empty identity
  marker, no operation is issued to the conversation memory and the table is unchanged.
\<close>

theorem run_fintech_agent_anonymous:
  "run_fintech_agent e prompt None session_id w =
     (case get_fintech_agent e of
        Inl (Exception msg) \<Rightarrow> (error_text msg, w)
      | Inr llm \<Rightarrow>
          (case agent_invoke e [] [] prompt of
             Inl (Exception msg) \<Rightarrow> error_text msg
           | Inr response_content \<Rightarrow> response_content,
           w\<lparr>trace := trace w @ [ModelInvoked]\<rparr>))
   \<and> run_body e prompt None session_id w = model_path e prompt None session_id w
   \<and> chat_memory (snd (run_fintech_agent e prompt None session_id w)) = chat_memory w
   \<and> MemoryRead \<notin> set (new_events w (snd (run_fintech_agent e prompt None session_id w)))
   \<and> MemoryWrite \<notin> set (new_events w (snd (run_fintech_agent e prompt None session_id w)))"
proof -
  have eq: "run_fintech_agent e prompt None session_id w =
     (case get_fintech_agent e of
        Inl (Exception msg) \<Rightarrow> (error_text msg, w)
      | Inr llm \<Rightarrow>
          (case agent_invoke e [] [] prompt of
             Inl (Exception msg) \<Rightarrow> error_text msg
           | Inr response_content \<Rightarrow> response_content,
           w\<lparr>trace := trace w @ [ModelInvoked]\<rparr>))"
    by (simp add: run_fintech_agent_def run_body_def model_path_def truthy_def emit_def
        conversation_context_def user_context_def split: sum.splits exn.splits)
  have b: "run_body e prompt None session_id w = model_path e prompt None session_id w"
    by (simp add: run_body_def truthy_def)
  have rest: "chat_memory (snd (run_fintech_agent e prompt None session_id w)) = chat_memory w
   \<and> MemoryRead \<notin> set (new_events w (snd (run_fintech_agent e prompt None session_id w)))
   \<and> MemoryWrite \<notin> set (new_events w (snd (run_fintech_agent e prompt None session_id w)))"
    unfolding eq by (simp add: new_events_def split: sum.splits exn.splits)
  show ?thesis using eq b rest by blast
qed

theorem run_fintech_agent_anonymous_witness:
  "is_greeting_message ''hi''
   \<and> run_fintech_agent demo_env ''hi'' None (Some ''s1'') demo_world
       = (''Here is your answer.'', demo_world\<lparr>trace := [ModelInvoked]\<rparr>)"
proof -
  have g: "is_greeting_message ''hi''" by code_simp
  have k: "get_fintech_agent demo_env = Inr ()" by code_simp
  have i: "agent_invoke demo_env [] [] ''hi'' = Inr ''Here is your answer.''"
    by (simp add: demo_env_def)
  have t: "trace demo_world = []" by (simp add: demo_world_def)
  have "run_fintech_agent demo_env ''hi'' None (Some ''s1'') demo_world
       = (''Here is your answer.'', demo_world\<lparr>trace := trace demo_world @ [ModelInvoked]\<rparr>)"
    using run_fintech_agent_anonymous [of demo_env "''hi''" "Some ''s1''" demo_world]
    by (simp add: k i)
  then show ?thesis using g t by simp
qed

lemma model_path_invoke:
  assumes "get_fintech_agent e = Inr ()"
  shows "model_path e prompt user_id session_id w =
     (let w1 = (case truthy user_id of
                  None \<Rightarrow> w
                | Some u \<Rightarrow> snd (load_memory_variables e (DjangoChatMemory e u session_id) w));
          w2 = emit ModelInvoked w1
      in case agent_invoke e (conversation_context (loaded_history e user_id session_id w))
                (user_context user_id) prompt of
           Inl ex \<Rightarrow> (Inl ex, w2)
         | Inr response_content \<Rightarrow>
             (case truthy user_id of
                None \<Rightarrow> (Inr response_content, w2)
              | Some u \<Rightarrow> (Inr response_content,
                   save_context e (DjangoChatMemory e u session_id) prompt response_content w2)))"
  using assms
  by (simp add: model_path_def loaded_history_def Let_def split_beta
      split: option.splits sum.splits)

text \<open>
  Claim C6, as amended. For a call with a user id that is given and not zero, a prompt
  that is not a greeting, and a model that answers, the text returned is the model's
  answer whatever happens to the persistence. When the two writes succeed exactly two
  rows are appended: the prompt with type \<open>user\<close>, then the answer with type
  \<open>assistant\<close>. When a write raises, the rows written before it stay, the failure is
  printed, and the text is the same.
\<close>

theorem run_fintech_agent_persists:
  assumes "user_id = Some u" and "u \<noteq> 0" and "\<not> is_greeting_message prompt"
    and "get_fintech_agent e = Inr ()"
    and "agent_invoke e (conversation_context (loaded_history e user_id session_id w))
           (user_context user_id) prompt = Inr response"
  shows "(let sid = mem_session_id (DjangoChatMemory e u session_id);
              ru = \<lparr>cm_user_id = u, message_type = ''user'', content = prompt,
                     row_session_id = sid, timestamp = clock w\<rparr>;
              ra = \<lparr>cm_user_id = u, message_type = ''assistant'', content = response,
                     row_session_id = sid, timestamp = Suc (clock w)\<rparr>;
              w' = snd (run_fintech_agent e prompt user_id session_id w)
          in fst (run_fintech_agent e prompt user_id session_id w) = response
             \<and> (case create_fault e ru of
                   Some msg \<Rightarrow> chat_memory w' = chat_memory w
                                \<and> last (printed w') = ''Error saving chat memory: '' @ msg
                 | None \<Rightarrow>
                    (case create_fault e ra of
                       Some msg \<Rightarrow> chat_memory w' = chat_memory w @ [ru]
                                    \<and> last (printed w') = ''Error saving chat memory: '' @ msg
                     | None \<Rightarrow> chat_memory w' = chat_memory w @ [ru, ra])))"
proof -
  let ?m = "DjangoChatMemory e u session_id"
  let ?w1 = "snd (load_memory_variables e ?m w)"
  have t: "truthy user_id = Some u" using assms(1,2) by (simp add: truthy_def)
  have b: "run_body e prompt user_id session_id w
             = (Inr response, save_context e ?m prompt response (emit ModelInvoked ?w1))"
    using t assms(3,5) by (simp add: run_body_def model_path_invoke [OF assms(4)] Let_def)
  have r: "run_fintech_agent e prompt user_id session_id w
             = (response, save_context e ?m prompt response (emit ModelInvoked ?w1))"
    by (simp add: run_fintech_agent_def b)
  have c: "clock (emit ModelInvoked ?w1) = clock w"
    and cm: "chat_memory (emit ModelInvoked ?w1) = chat_memory w"
    by (simp_all add: load_memory_variables_world emit_def split: option.splits)
  have mu: "mem_user_id ?m = u" by (simp add: DjangoChatMemory_def)
  show ?thesis
    unfolding r Let_def fst_conv snd_conv
    by (simp add: save_context_cases Let_def c cm mu split: option.splits)
qed


theorem run_fintech_agent_persists_witness:
  "Some (5::int) = Some 5 \<and> (5::int) \<noteq> 0 \<and> \<not> is_greeting_message ''what is my total balance?''
   \<and> get_fintech_agent demo_env = Inr ()
   \<and> agent_invoke demo_env
         (conversation_context (loaded_history demo_env (Some 5) (Some ''s1'') demo_world))
         (user_context (Some 5)) ''what is my total balance?'' = Inr ''Here is your answer.''
   \<and> fst (run_fintech_agent demo_env ''what is my total balance?'' (Some 5) (Some ''s1'') demo_world)
       = ''Here is your answer.''
   \<and> chat_memory
         (snd (run_fintech_agent demo_env ''what is my total balance?'' (Some 5) (Some ''s1'')
                demo_world))
       = chat_memory demo_world
           @ [demo_row 5 ''user'' ''what is my total balance?'' ''s1'' 10,
              demo_row 5 ''assistant'' ''Here is your answer.'' ''s1'' 11]"
proof -
  have g: "\<not> is_greeting_message ''what is my total balance?''" by code_simp
  have k: "get_fintech_agent demo_env = Inr ()" by code_simp
  have i: "agent_invoke demo_env
         (conversation_context (loaded_history demo_env (Some 5) (Some ''s1'') demo_world))
         (user_context (Some 5)) ''what is my total balance?'' = Inr ''Here is your answer.''"
    by (simp add: demo_env_def)
  have f: "create_fault demo_env = (\<lambda>row. None)" by (simp add: demo_env_def)
  have c: "clock demo_world = 10" by (simp add: demo_world_def)
  have s: "mem_session_id (DjangoChatMemory demo_env 5 (Some ''s1'')) = ''s1''"
    by (simp add: DjangoChatMemory_def)
  have z: "(5::int) \<noteq> 0" by simp
  note t = run_fintech_agent_persists [where user_id = "Some 5" and u = 5, OF refl z g k i]
  have "fst (run_fintech_agent demo_env ''what is my total balance?'' (Some 5) (Some ''s1'') demo_world)
       = ''Here is your answer.''
   \<and> chat_memory
         (snd (run_fintech_agent demo_env ''what is my total balance?'' (Some 5) (Some ''s1'')
                demo_world))
       = chat_memory demo_world
           @ [demo_row 5 ''user'' ''what is my total balance?'' ''s1'' 10,
              demo_row 5 ''assistant'' ''Here is your answer.'' ''s1'' 11]"
    using t by (simp add: Let_def f c s demo_row_def)
  then show ?thesis using g k i by simp
qed

theorem persistence_zero_user_id_counterexample:
  "\<not> is_greeting_message ''what is my total balance?''
   \<and> fst (run_fintech_agent demo_env ''what is my total balance?'' (Some 0) (Some ''s1'') demo_world)
       = ''Here is your answer.''
   \<and> chat_memory
         (snd (run_fintech_agent demo_env ''what is my total balance?'' (Some 0) (Some ''s1'')
                demo_world))
       = chat_memory demo_world
   \<and> fst (run_fintech_agent demo_env_locked ''what is my total balance?'' (Some 5) (Some ''s1'')
            demo_world)
       = ''Here is your answer.''
   \<and> chat_memory
         (snd (run_fintech_agent demo_env_locked ''what is my total balance?'' (Some 5)
                (Some ''s1'') demo_world))
       = chat_memory demo_world @ [demo_row 5 ''user'' ''what is my total balance?'' ''s1'' 10]
   \<and> printed
         (snd (run_fintech_agent demo_env_locked ''what is my total balance?'' (Some 5)
                (Some ''s1'') demo_world))
       = [''Error saving chat memory: database is locked'']"
  by code_simp

text \<open>
  Claim C7, as amended. \<open>run_fintech_agent\<close> returns a text for every input. An exception
  that leaves the body (raised by \<open>get_fintech_agent\<close> or by the model invocation) is
  turned into text: the configuration-error message when the exception's text contains
  \<open>GOOGLE_API_KEY\<close>, as the missing credential's does; otherwise the try-again-shortly
  message when its lower-cased text contains \<open>rate limit\<close>; otherwise the generic text
  that echoes it.
\<close>

theorem run_fintech_agent_catches:
  "run_fintech_agent e prompt user_id session_id w =
     (case fst (run_body e prompt user_id session_id w) of
        Inr text \<Rightarrow> text
      | Inl (Exception msg) \<Rightarrow> mapped_error msg,
      snd (run_body e prompt user_id session_id w))
   \<and> ((truthy user_id = None \<or> \<not> is_greeting_message prompt)
        \<and> (GOOGLE_API_KEY e = None \<or> GOOGLE_API_KEY e = Some []) \<longrightarrow>
        fst (run_fintech_agent e prompt user_id session_id w)
          = cross_mark @ '' API key error. Please check configuration.'')
   \<and> (\<forall>msg. (truthy user_id = None \<or> \<not> is_greeting_message prompt)
        \<and> get_fintech_agent e = Inr ()
        \<and> agent_invoke e (conversation_context (loaded_history e user_id session_id w))
             (user_context user_id) prompt = Inl (Exception msg) \<longrightarrow>
        fst (run_fintech_agent e prompt user_id session_id w) = mapped_error msg)"
proof -
  have me: "\<And>msg. error_text msg = mapped_error msg"
    by (simp only: error_text_cases mapped_error_def)
  have a: "run_fintech_agent e prompt user_id session_id w =
     (case fst (run_body e prompt user_id session_id w) of
        Inr text \<Rightarrow> text
      | Inl (Exception msg) \<Rightarrow> mapped_error msg,
      snd (run_body e prompt user_id session_id w))"
    by (simp add: run_fintech_agent_def me split: prod.splits sum.splits exn.splits)
  have mp: "truthy user_id = None \<or> \<not> is_greeting_message prompt \<Longrightarrow>
        run_body e prompt user_id session_id w = model_path e prompt user_id session_id w"
    by (auto simp: run_body_def split: option.splits)
  have key: "sublist ''GOOGLE_API_KEY'' ''GOOGLE_API_KEY environment variable is not set''"
    by code_simp
  have b: "(truthy user_id = None \<or> \<not> is_greeting_message prompt)
        \<and> (GOOGLE_API_KEY e = None \<or> GOOGLE_API_KEY e = Some []) \<longrightarrow>
        fst (run_fintech_agent e prompt user_id session_id w)
          = cross_mark @ '' API key error. Please check configuration.''"
  proof
    assume h: "(truthy user_id = None \<or> \<not> is_greeting_message prompt)
        \<and> (GOOGLE_API_KEY e = None \<or> GOOGLE_API_KEY e = Some [])"
    then have "get_fintech_agent e
                 = Inl (Exception ''GOOGLE_API_KEY environment variable is not set'')"
      by (auto simp: get_fintech_agent_def)
    then have "fst (run_body e prompt user_id session_id w)
                 = Inl (Exception ''GOOGLE_API_KEY environment variable is not set'')"
      using h mp by (simp add: model_path_def)
    then show "fst (run_fintech_agent e prompt user_id session_id w)
          = cross_mark @ '' API key error. Please check configuration.''"
      unfolding a using key by (simp add: mapped_error_def)
  qed
  have c: "\<forall>msg. (truthy user_id = None \<or> \<not> is_greeting_message prompt)
        \<and> get_fintech_agent e = Inr ()
        \<and> agent_invoke e (conversation_context (loaded_history e user_id session_id w))
             (user_context user_id) prompt = Inl (Exception msg) \<longrightarrow>
        fst (run_fintech_agent e prompt user_id session_id w) = mapped_error msg"
  proof (intro allI impI)
    fix msg
    assume h: "(truthy user_id = None \<or> \<not> is_greeting_message prompt)
        \<and> get_fintech_agent e = Inr ()
        \<and> agent_invoke e (conversation_context (loaded_history e user_id session_id w))
             (user_context user_id) prompt = Inl (Exception msg)"
    then have "fst (run_body e prompt user_id session_id w) = Inl (Exception msg)"
      using mp by (simp add: model_path_invoke Let_def)
    then show "fst (run_fintech_agent e prompt user_id session_id w) = mapped_error msg"
      unfolding a by simp
  qed
  show ?thesis using a b c by blast
qed


theorem run_fintech_agent_catches_witness:
  "fst (run_fintech_agent
          (demo_env\<lparr>agent_invoke := (\<lambda>recap marker input. Inl (Exception ''429: Rate Limit reached''))\<rparr>)
          ''what is my total balance?'' None None demo_world)
     = warning_sign @ '' Rate limit exceeded. Please try again shortly.''
   \<and> fst (run_fintech_agent (demo_env\<lparr>GOOGLE_API_KEY := None\<rparr>)
          ''what is my total balance?'' (Some 5) None demo_world)
     = cross_mark @ '' API key error. Please check configuration.''
   \<and> fst (run_fintech_agent
          (demo_env\<lparr>agent_invoke := (\<lambda>recap marker input. Inl (Exception ''connection reset''))\<rparr>)
          ''what is my total balance?'' None None demo_world)
     = cross_mark @ '' Error: connection reset''"
proof -
  let ?p = "''what is my total balance?''"
  let ?e1 = "demo_env\<lparr>agent_invoke := (\<lambda>recap marker input. Inl (Exception ''429: Rate Limit reached''))\<rparr>"
  let ?e2 = "demo_env\<lparr>GOOGLE_API_KEY := None\<rparr>"
  let ?e3 = "demo_env\<lparr>agent_invoke := (\<lambda>recap marker input. Inl (Exception ''connection reset''))\<rparr>"
  have g: "\<not> is_greeting_message ?p" by code_simp
  have k1: "get_fintech_agent ?e1 = Inr ()" by code_simp
  have k3: "get_fintech_agent ?e3 = Inr ()" by code_simp
  have m1: "mapped_error ''429: Rate Limit reached''
              = warning_sign @ '' Rate limit exceeded. Please try again shortly.''"
    by code_simp
  have m3: "mapped_error ''connection reset'' = cross_mark @ '' Error: connection reset''"
    by code_simp
  have a: "fst (run_fintech_agent ?e1 ?p None None demo_world)
             = mapped_error ''429: Rate Limit reached''"
    by (rule run_fintech_agent_catches [of ?e1 ?p None None demo_world,
          THEN conjunct2, THEN conjunct2, rule_format])
       (simp add: truthy_def k1)
  have b: "fst (run_fintech_agent ?e2 ?p (Some 5) None demo_world)
             = cross_mark @ '' API key error. Please check configuration.''"
    by (rule run_fintech_agent_catches [of ?e2 ?p "Some 5" None demo_world,
          THEN conjunct2, THEN conjunct1, rule_format])
       (simp add: g)
  have c: "fst (run_fintech_agent ?e3 ?p None None demo_world) = mapped_error ''connection reset''"
    by (rule run_fintech_agent_catches [of ?e3 ?p None None demo_world,
          THEN conjunct2, THEN conjunct2, rule_format])
       (simp add: truthy_def k3)
  show ?thesis using a b c m1 m3 by simp
qed

theorem error_mapping_counterexample:
  "GOOGLE_API_KEY demo_env = Some ''secret''
   \<and> \<not> str_in ''rate limit'' (str_lower ''The GOOGLE_API_KEY was rejected by the service'')
   \<and> fst (run_fintech_agent
            (demo_env\<lparr>agent_invoke :=
               (\<lambda>recap marker input. Inl (Exception ''The GOOGLE_API_KEY was rejected by the service''))\<rparr>)
            ''what is my total balance?'' None None demo_world)
       = cross_mark @ '' API key error. Please check configuration.''
   \<and> fst (run_fintech_agent
            (demo_env\<lparr>agent_invoke :=
               (\<lambda>recap marker input. Inl (Exception ''The GOOGLE_API_KEY was rejected by the service''))\<rparr>)
            ''what is my total balance?'' None None demo_world)
       \<noteq> cross_mark @ '' Error: The GOOGLE_API_KEY was rejected by the service''
   \<and> str_in ''rate limit'' (str_lower ''Rate limit reached for GOOGLE_API_KEY'')
   \<and> fst (run_fintech_agent
            (demo_env\<lparr>agent_invoke :=
               (\<lambda>recap marker input. Inl (Exception ''Rate limit reached for GOOGLE_API_KEY''))\<rparr>)
            ''what is my total balance?'' None None demo_world)
       = cross_mark @ '' API key error. Please check configuration.''"
  by code_simp

section \<open>Totals by currency\<close>

lemma distinct_add_to_totals:
  "distinct (map fst d) \<Longrightarrow> distinct (map fst (add_to_totals d a))"
  by (simp add: add_to_totals_def Let_def distinct_update split: option.splits)

lemma map_of_add_to_totals:
  "map_of (add_to_totals d a) c =
     (case available_balance a of
        None \<Rightarrow> map_of d c
      | Some b \<Rightarrow> if c = account_currency a then Some (dict_get d c + b) else map_of d c)"
  by (simp add: add_to_totals_def Let_def update_conv' dict_get_def split: option.splits)

lemma dict_get_add_to_totals:
  "dict_get (add_to_totals d a) c =
     dict_get d c + (if account_currency a = c then balance_of a else 0)"
  by (auto simp: dict_get_def map_of_add_to_totals balance_of_def split: option.splits)

lemma keys_add_to_totals:
  "fst ` set (add_to_totals d a) =
     fst ` set d \<union> (if available_balance a = None then {} else {account_currency a})"
proof -
  have "dom (map_of (add_to_totals d a)) =
     dom (map_of d) \<union> (if available_balance a = None then {} else {account_currency a})"
    by (auto simp: map_of_add_to_totals split: option.splits if_splits)
  then show ?thesis by (simp only: dom_map_of_conv_image_fst)
qed

lemma foldl_add_to_totals:
  "distinct (map fst d) \<Longrightarrow>
   distinct (map fst (foldl add_to_totals d accs))
   \<and> (\<forall>c. dict_get (foldl add_to_totals d accs) c =
          dict_get d c + sum_list (map balance_of (filter (\<lambda>a. account_currency a = c) accs)))
   \<and> fst ` set (foldl add_to_totals d accs) =
       fst ` set d \<union> account_currency ` {a \<in> set accs. available_balance a \<noteq> None}"
proof (induction accs arbitrary: d)
  case Nil
  then show ?case by simp
next
  case (Cons a accs)
  have d': "distinct (map fst (add_to_totals d a))"
    using Cons.prems by (rule distinct_add_to_totals)
  note ih = Cons.IH [OF d']
  have 1: "distinct (map fst (foldl add_to_totals d (a # accs)))" using ih by simp
  have 2: "\<forall>c. dict_get (foldl add_to_totals d (a # accs)) c =
          dict_get d c + sum_list (map balance_of (filter (\<lambda>a. account_currency a = c) (a # accs)))"
    using ih by (simp add: dict_get_add_to_totals)
  have 3: "fst ` set (foldl add_to_totals d (a # accs)) =
       fst ` set d \<union> account_currency ` {x \<in> set (a # accs). available_balance x \<noteq> None}"
    using ih by (auto simp: keys_add_to_totals split: if_splits)
  show ?case using 1 2 3 by blast
qed

lemma remdups_snoc: "remdups (ys @ [x]) = filter (\<lambda>y. y \<noteq> x) (remdups ys) @ [x]"
  by (induction ys) auto

lemma first_occurrences_Cons:
  "rev (remdups (rev (x # xs))) = x # filter (\<lambda>y. y \<noteq> x) (rev (remdups (rev xs)))"
  by (simp add: remdups_snoc rev_filter)

lemma keys_add_to_totals_list:
  "available_balance a \<noteq> None \<Longrightarrow>
   map fst (add_to_totals d a) =
     (if account_currency a \<in> set (map fst d) then map fst d else map fst d @ [account_currency a])"
  by (auto simp: add_to_totals_def Let_def update_keys map_of_eq_None_iff)
     (metis fst_conv image_eqI)

lemma keys_foldl_add_to_totals:
  "\<forall>a \<in> set accs. available_balance a \<noteq> None \<Longrightarrow>
   map fst (foldl add_to_totals d accs) =
     map fst d @ filter (\<lambda>k. k \<notin> set (map fst d))
                   (rev (remdups (rev (map account_currency accs))))"
proof (induction accs arbitrary: d)
  case Nil
  show ?case by simp
next
  case (Cons a accs)
  let ?fo = "rev (remdups (rev (map account_currency accs)))"
  have a: "available_balance a \<noteq> None" using Cons.prems by simp
  have ih: "map fst (foldl add_to_totals (add_to_totals d a) accs) =
     map fst (add_to_totals d a) @ filter (\<lambda>k. k \<notin> set (map fst (add_to_totals d a))) ?fo"
    using Cons.prems by (intro Cons.IH) simp
  have fo: "rev (remdups (rev (map account_currency (a # accs)))) =
              account_currency a # filter (\<lambda>y. y \<noteq> account_currency a) ?fo"
    by (simp only: list.map first_occurrences_Cons)
  show ?case
  proof (cases "account_currency a \<in> set (map fst d)")
    case True
    have k: "map fst (add_to_totals d a) = map fst d"
      using keys_add_to_totals_list [OF a, of d] True by simp
    have "filter (\<lambda>k. k \<notin> set (map fst d)) (filter (\<lambda>y. y \<noteq> account_currency a) ?fo)
          = filter (\<lambda>k. k \<notin> set (map fst d)) ?fo"
      using True by (auto intro: filter_cong)
    then show ?thesis
      unfolding foldl_Cons ih k fo using True by simp
  next
    case False
    have k: "map fst (add_to_totals d a) = map fst d @ [account_currency a]"
      using keys_add_to_totals_list [OF a, of d] False by simp
    have "filter (\<lambda>k. k \<notin> set (map fst d @ [account_currency a])) ?fo
          = filter (\<lambda>k. k \<notin> set (map fst d)) (filter (\<lambda>y. y \<noteq> account_currency a) ?fo)"
      by (auto intro: filter_cong)
    then show ?thesis
      unfolding foldl_Cons ih k fo using False by simp
  qed
qed

lemma currency_totals_keys:
  "map fst (currency_totals e user_id) =
     rev (remdups (rev (map account_currency (accounts_with_balance e user_id))))"
proof -
  have "\<forall>a \<in> set (accounts_with_balance e user_id). available_balance a \<noteq> None"
    by (simp add: accounts_with_balance_def)
  then show ?thesis
    unfolding currency_totals_def by (simp add: keys_foldl_add_to_totals)
qed

section \<open>One rate per institution\<close>

lemma map_of_keep_first:
  "map_of (keep_first d rate) b =
     (case map_of d b of
        Some r \<Rightarrow> Some r
      | None \<Rightarrow> if fx_institution_name rate = b then Some rate else None)"
  by (auto simp: keep_first_def map_add_def split: option.splits)

lemma distinct_keep_first:
  "distinct (map fst d) \<Longrightarrow> distinct (map fst (keep_first d rate))"
  by (auto simp: keep_first_def map_of_eq_None_iff)

lemma foldl_keep_first:
  "distinct (map fst d) \<Longrightarrow>
   distinct (map fst (foldl keep_first d rates))
   \<and> (\<forall>b. map_of (foldl keep_first d rates) b =
          (case map_of d b of
             Some r \<Rightarrow> Some r
           | None \<Rightarrow> find (\<lambda>r. fx_institution_name r = b) rates))"
proof (induction rates arbitrary: d)
  case Nil
  then show ?case by (simp split: option.splits)
next
  case (Cons rate rates)
  have d': "distinct (map fst (keep_first d rate))"
    using Cons.prems by (rule distinct_keep_first)
  note ih = Cons.IH [OF d']
  show ?case using ih by (auto simp: map_of_keep_first split: option.splits)
qed

lemma latest_rates_map_of:
  "map_of (latest_rates e s t) b = find (\<lambda>r. fx_institution_name r = b) (pair_rates e s t)"
  using foldl_keep_first [of "[]" "pair_rates e s t"] by (simp add: latest_rates_def)

lemma latest_rates_distinct: "distinct (map fst (latest_rates e s t))"
  using foldl_keep_first [of "[]" "pair_rates e s t"] by (simp add: latest_rates_def)

lemma latest_rates_member:
  "(b, r) \<in> set (latest_rates e s t) \<longleftrightarrow>
     find (\<lambda>r. fx_institution_name r = b) (pair_rates e s t) = Some r"
proof -
  have "map_of (latest_rates e s t) b = Some r \<longleftrightarrow> (b, r) \<in> set (latest_rates e s t)"
    using latest_rates_distinct by (rule map_of_eq_Some_iff)
  then show ?thesis by (simp only: latest_rates_map_of)
qed

lemma find_first_sorted:
  assumes "sorted_wrt P xs" and "find Q xs = Some r" and "r' \<in> set xs" and "Q r'"
  shows "r' = r \<or> P r r'"
  using assms by (induction xs) (auto split: if_splits)

lemma find_as_filter: "find P xs = (case filter P xs of [] \<Rightarrow> None | x # _ \<Rightarrow> Some x)"
  by (induction xs) auto

lemma find_conj_self:
  "find Q ys = Some r \<Longrightarrow> find (\<lambda>x. Q x \<and> f x = f r) ys = Some r"
  by (induction ys) (auto split: if_splits)

lemma find_order_by_desc_stable:
  assumes "find Q (order_by_desc key xs) = Some r"
  shows "find (\<lambda>x. Q x \<and> key x = key r) xs = Some r"
proof -
  let ?f = "\<lambda>x. - key x"
  let ?ys = "sort_key ?f xs"
  have 1: "find (\<lambda>x. Q x \<and> ?f x = ?f r) ?ys = Some r"
    using assms unfolding order_by_desc_def by (rule find_conj_self)
  have "filter (\<lambda>x. Q x \<and> ?f x = ?f r) ?ys = filter Q (filter (\<lambda>x. ?f x = ?f r) ?ys)"
    by (simp add: conj_commute)
  also have "\<dots> = filter Q (filter (\<lambda>x. ?f x = ?f r) xs)"
    by (simp only: sort_key_stable)
  also have "\<dots> = filter (\<lambda>x. Q x \<and> ?f x = ?f r) xs"
    by (simp add: conj_commute)
  finally have "find (\<lambda>x. Q x \<and> ?f x = ?f r) xs = Some r"
    using 1 by (simp add: find_as_filter)
  then show ?thesis by simp
qed

lemma list_max_Max: "xs \<noteq> [] \<Longrightarrow> list_max xs = Max (set xs)"
proof (cases xs)
  case Nil
  then show "xs \<noteq> [] \<Longrightarrow> ?thesis" by simp
next
  case (Cons x ys)
  have "(\<lambda>a b. max b a) = (max :: int \<Rightarrow> int \<Rightarrow> int)"
    by (intro ext) (rule max.commute)
  then have "foldl max x ys = Max (set (x # ys))"
    by (simp only: Max.set_eq_fold foldl_conv_fold)
  then show "xs \<noteq> [] \<Longrightarrow> ?thesis" using Cons by simp
qed

lemma list_min_Min: "xs \<noteq> [] \<Longrightarrow> list_min xs = Min (set xs)"
proof (cases xs)
  case Nil
  then show "xs \<noteq> [] \<Longrightarrow> ?thesis" by simp
next
  case (Cons x ys)
  have "(\<lambda>a b. min b a) = (min :: int \<Rightarrow> int \<Rightarrow> int)"
    by (intro ext) (rule min.commute)
  then have "foldl min x ys = Min (set (x # ys))"
    by (simp only: Min.set_eq_fold foldl_conv_fold)
  then show "xs \<noteq> [] \<Longrightarrow> ?thesis" using Cons by simp
qed

lemma set_pair_rates:
  "set (pair_rates e s t) = {r \<in> set (fx_rates e). matching s t r}"
  by (auto simp: pair_rates_def set_order_by_desc matching_def)

lemma sorted_rates_member:
  assumes "x \<in> set (sorted_rates e s t)"
  shows "snd x \<in> set (fx_rates e) \<and> matching s t (snd x) \<and> fx_institution_name (snd x) = fst x"
proof -
  obtain b r where x: "x = (b, r)" by (cases x)
  have "(b, r) \<in> set (latest_rates e s t)"
    using assms x by (simp add: sorted_rates_def set_order_by_desc)
  then have f: "find (\<lambda>r. fx_institution_name r = b) (pair_rates e s t) = Some r"
    by (simp add: latest_rates_member)
  then have "r \<in> set (pair_rates e s t) \<and> fx_institution_name r = b"
    by (auto simp: find_Some_iff)
  then show ?thesis using x by (simp add: set_pair_rates)
qed

lemma pair_rates_restrict:
  "pair_rates (e\<lparr>fx_rates := filter (matching s t) (fx_rates e)\<rparr>) s t = pair_rates e s t"
  by (simp add: pair_rates_def matching_def)

lemma sorted_rates_restrict:
  "sorted_rates (e\<lparr>fx_rates := filter (matching s t) (fx_rates e)\<rparr>) s t = sorted_rates e s t"
  by (simp only: sorted_rates_def latest_rates_def pair_rates_restrict)

lemma rates_values_restrict:
  "rates_values (e\<lparr>fx_rates := filter (matching s t) (fx_rates e)\<rparr>) s t = rates_values e s t"
  by (simp only: rates_values_def sorted_rates_restrict)

lemma compare_fx_rates_restrict:
  "compare_fx_rates (e\<lparr>fx_rates := filter (matching s t) (fx_rates e)\<rparr>) s t
     = compare_fx_rates e s t"
proof -
  have "db_fault (e\<lparr>fx_rates := filter (matching s t) (fx_rates e)\<rparr>) = db_fault e" by simp
  then show ?thesis
    by (simp only: compare_fx_rates_def pair_rates_restrict sorted_rates_restrict
        rates_values_restrict)
qed

lemma find_filter_conj: "find P (filter Q xs) = find (\<lambda>x. Q x \<and> P x) xs"
  by (induction xs) auto

lemma pair_rates_latest:
  assumes "find (\<lambda>r. fx_institution_name r = b) (pair_rates e s t) = Some r"
  shows "r \<in> set (fx_rates e) \<and> matching s t r \<and> fx_institution_name r = b
    \<and> (\<forall>r' \<in> set (fx_rates e). matching s t r' \<and> fx_institution_name r' = b \<longrightarrow>
          effective_date r' \<le> effective_date r)
    \<and> find (\<lambda>x. matching s t x \<and> fx_institution_name x = b
                 \<and> effective_date x = effective_date r) (fx_rates e) = Some r"
proof -
  let ?xs = "filter (matching s t) (fx_rates e)"
  have pr: "pair_rates e s t = order_by_desc effective_date ?xs"
    by (simp add: pair_rates_def matching_def [abs_def])
  have m: "r \<in> set (pair_rates e s t) \<and> fx_institution_name r = b"
    using assms by (auto simp: find_Some_iff)
  then have 1: "r \<in> set (fx_rates e) \<and> matching s t r \<and> fx_institution_name r = b"
    by (simp add: set_pair_rates)
  have srt: "sorted_wrt (\<lambda>x y. effective_date y \<le> effective_date x) (pair_rates e s t)"
    unfolding pr by (rule sorted_order_by_desc)
  have 2: "\<forall>r' \<in> set (fx_rates e). matching s t r' \<and> fx_institution_name r' = b \<longrightarrow>
          effective_date r' \<le> effective_date r"
  proof (intro ballI impI)
    fix r' assume a: "r' \<in> set (fx_rates e)" and b: "matching s t r' \<and> fx_institution_name r' = b"
    have "r' \<in> set (pair_rates e s t)" using a b by (simp add: set_pair_rates)
    then have "r' = r \<or> effective_date r' \<le> effective_date r"
      using find_first_sorted [OF srt assms] b by blast
    then show "effective_date r' \<le> effective_date r" by auto
  qed
  have "find (\<lambda>x. fx_institution_name x = b \<and> effective_date x = effective_date r) ?xs = Some r"
    using assms unfolding pr by (rule find_order_by_desc_stable)
  then have 3: "find (\<lambda>x. matching s t x \<and> fx_institution_name x = b
                 \<and> effective_date x = effective_date r) (fx_rates e) = Some r"
    by (simp add: find_filter_conj)
  show ?thesis using 1 2 3 by blast
qed

lemma latest_rates_keys:
  "fst ` set (latest_rates e s t) = fx_institution_name ` {r \<in> set (fx_rates e). matching s t r}"
proof -
  have "dom (map_of (latest_rates e s t)) = fx_institution_name ` set (pair_rates e s t)"
    by (auto simp: latest_rates_map_of dom_def find_None_iff image_iff)
  then show ?thesis by (simp only: dom_map_of_conv_image_fst set_pair_rates)
qed

lemma length_rates_values: "length (rates_values e s t) = length (latest_rates e s t)"
  by (simp add: rates_values_def sorted_rates_def length_order_by_desc)

lemma set_rates_values:
  "set (rates_values e s t) = (\<lambda>x. conversion_value (snd x)) ` set (latest_rates e s t)"
  by (simp add: rates_values_def sorted_rates_def set_order_by_desc)

lemma pair_rates_nonempty:
  "pair_rates e s t \<noteq> [] \<longleftrightarrow> (\<exists>r \<in> set (fx_rates e). matching s t r)"
proof -
  have "pair_rates e s t \<noteq> [] \<longleftrightarrow> set (pair_rates e s t) \<noteq> {}" by simp
  then show ?thesis unfolding set_pair_rates by blast
qed

lemma rates_values_nonempty: "pair_rates e s t \<noteq> [] \<Longrightarrow> rates_values e s t \<noteq> []"
proof -
  assume "pair_rates e s t \<noteq> []"
  then have "fx_institution_name ` set (pair_rates e s t) \<noteq> {}" by simp
  moreover have "fst ` set (latest_rates e s t) = fx_institution_name ` set (pair_rates e s t)"
    by (simp only: latest_rates_keys set_pair_rates)
  ultimately have "fst ` set (latest_rates e s t) \<noteq> {}" by simp
  then have "latest_rates e s t \<noteq> []" by auto
  then show ?thesis using length_rates_values [of e s t] by auto
qed

lemma compare_fx_rates_text:
  assumes "db_fault e = None" and "\<exists>r \<in> set (fx_rates e). matching s t r"
  shows "compare_fx_rates e s t =
           ''Best '' @ s @ ''/'' @ t @ '' rates:\<newline>''
             @ rate_lines 1 (take 5 (sorted_rates e s t))
             @ ''\<newline>Average rate: ''
             @ format_4f (sum_list (rates_values e s t)) (length (latest_rates e s t))
             @ ''\<newline>Best rate: '' @ format_4f (Max (set (rates_values e s t))) 1
             @ ''\<newline>Worst rate: '' @ format_4f (Min (set (rates_values e s t))) 1"
proof -
  have ne: "pair_rates e s t \<noteq> []" using assms(2) by (simp only: pair_rates_nonempty)
  then have v: "rates_values e s t \<noteq> []" by (rule rates_values_nonempty)
  show ?thesis
    using assms(1) ne v
    by (simp add: compare_fx_rates_def Let_def list_max_Max list_min_Min length_rates_values)
qed

section \<open>Aggregation never mixes currencies\<close>

text \<open>
  Claim C2. The totals of \<open>get_total_balance\<close> have one entry for each currency among the
  user's accounts with a balance, in the order in which the currencies first occur, and
  the total of a currency is the sum of the balances of the accounts of that very
  currency; the text the tool returns lists, for each of these currencies, that sum.
  Every rate that \<open>compare_fx_rates\<close> sorts, sums and averages is a stored rate whose
  source and target currency are the (upper-cased) requested pair, and the text it
  returns is the same when every rate of any other pair is taken out of the store.
\<close>

theorem aggregations_per_currency:
  "distinct (map fst (currency_totals e user_id))
   \<and> fst ` set (currency_totals e user_id)
       = account_currency ` set (accounts_with_balance e user_id)
   \<and> (\<forall>x \<in> set (currency_totals e user_id).
         snd x = sum_list (map balance_of
                   (filter (\<lambda>a. account_currency a = fst x) (accounts_with_balance e user_id))))
   \<and> map fst (currency_totals e user_id)
       = rev (remdups (rev (map account_currency (accounts_with_balance e user_id))))
   \<and> (db_fault e = None \<and> accounts_with_balance e user_id \<noteq> [] \<longrightarrow>
        get_total_balance e user_id
          = ''Total balances by currency: ''
              @ join '', '' (map (\<lambda>(currency, total). currency @ '': '' @ str_decimal 2 total)
                              (currency_totals e user_id))
        \<and> get_total_balance e user_id
          = ''Total balances by currency: ''
              @ join '', ''
                  (map (\<lambda>currency.
                          currency @ '': ''
                            @ str_decimal 2
                                (sum_list (map balance_of
                                   (filter (\<lambda>a. account_currency a = currency)
                                      (accounts_with_balance e user_id)))))
                     (rev (remdups (rev (map account_currency
                                           (accounts_with_balance e user_id)))))))
   \<and> (\<forall>x \<in> set (sorted_rates e source_currency target_currency).
         snd x \<in> set (fx_rates e) \<and> matching source_currency target_currency (snd x))
   \<and> rates_values e source_currency target_currency
       = map (\<lambda>x. conversion_value (snd x)) (sorted_rates e source_currency target_currency)
   \<and> compare_fx_rates
         (e\<lparr>fx_rates := filter (matching source_currency target_currency) (fx_rates e)\<rparr>)
         source_currency target_currency
       = compare_fx_rates e source_currency target_currency"
proof -
  let ?accs = "accounts_with_balance e user_id"
  let ?sum = "\<lambda>c. sum_list (map balance_of (filter (\<lambda>a. account_currency a = c) ?accs))"
  note f = foldl_add_to_totals [of "[]" ?accs, simplified]
  have d: "distinct (map fst (currency_totals e user_id))"
    using f by (simp add: currency_totals_def)
  have g: "\<And>c. dict_get (currency_totals e user_id) c = ?sum c"
    using f by (simp add: currency_totals_def dict_get_def)
  have "{a \<in> set ?accs. available_balance a \<noteq> None} = set ?accs"
    by (auto simp: accounts_with_balance_def)
  then have k: "fst ` set (currency_totals e user_id) = account_currency ` set ?accs"
    using f by (simp add: currency_totals_def)
  have t: "\<forall>x \<in> set (currency_totals e user_id). snd x = ?sum (fst x)"
  proof
    fix x assume "x \<in> set (currency_totals e user_id)"
    then have "map_of (currency_totals e user_id) (fst x) = Some (snd x)"
      using d by simp
    then have "dict_get (currency_totals e user_id) (fst x) = snd x"
      by (simp add: dict_get_def)
    then show "snd x = ?sum (fst x)"
      using g by simp
  qed
  note ko = currency_totals_keys [of e user_id]
  have tx: "get_total_balance e user_id
          = ''Total balances by currency: ''
              @ join '', '' (map (\<lambda>(currency, total). currency @ '': '' @ str_decimal 2 total)
                              (currency_totals e user_id))
        \<and> get_total_balance e user_id
          = ''Total balances by currency: ''
              @ join '', '' (map (\<lambda>currency. currency @ '': '' @ str_decimal 2 (?sum currency))
                     (rev (remdups (rev (map account_currency ?accs)))))"
    if h: "db_fault e = None \<and> accounts_with_balance e user_id \<noteq> []"
  proof -
    have 1: "get_total_balance e user_id
          = ''Total balances by currency: ''
              @ join '', '' (map (\<lambda>(currency, total). currency @ '': '' @ str_decimal 2 total)
                              (currency_totals e user_id))"
      using h by (simp add: get_total_balance_def)
    have "map (\<lambda>(currency, total). currency @ '': '' @ str_decimal 2 total)
            (currency_totals e user_id)
          = map (\<lambda>x. fst x @ '': '' @ str_decimal 2 (?sum (fst x))) (currency_totals e user_id)"
      using t by (intro map_cong) (auto simp: case_prod_beta)
    also have "\<dots> = map (\<lambda>currency. currency @ '': '' @ str_decimal 2 (?sum currency))
                      (map fst (currency_totals e user_id))"
      by (simp add: comp_def)
    finally have 2: "map (\<lambda>(currency, total). currency @ '': '' @ str_decimal 2 total)
            (currency_totals e user_id)
          = map (\<lambda>currency. currency @ '': '' @ str_decimal 2 (?sum currency))
                      (rev (remdups (rev (map account_currency ?accs))))"
      by (simp only: ko)
    show ?thesis using 1 unfolding 2 by simp
  qed
  have x: "db_fault e = None \<and> accounts_with_balance e user_id \<noteq> [] \<longrightarrow>
        get_total_balance e user_id
          = ''Total balances by currency: ''
              @ join '', '' (map (\<lambda>(currency, total). currency @ '': '' @ str_decimal 2 total)
                              (currency_totals e user_id))
        \<and> get_total_balance e user_id
          = ''Total balances by currency: ''
              @ join '', '' (map (\<lambda>currency. currency @ '': '' @ str_decimal 2 (?sum currency))
                     (rev (remdups (rev (map account_currency ?accs)))))"
    by (rule impI) (rule tx)
  have r: "\<forall>x \<in> set (sorted_rates e source_currency target_currency).
         snd x \<in> set (fx_rates e) \<and> matching source_currency target_currency (snd x)"
    using sorted_rates_member by blast
  have v: "rates_values e source_currency target_currency
       = map (\<lambda>x. conversion_value (snd x)) (sorted_rates e source_currency target_currency)"
    by (simp only: rates_values_def)
  note c = compare_fx_rates_restrict [where e = e and s = source_currency and t = target_currency]
  show ?thesis by (intro conjI) (rule d k t ko x r v c)+
qed

section \<open>Comparison of rates\<close>

text \<open>
  Claim C4, as amended. For a currency pair, \<open>compare_fx_rates\<close> keeps exactly one rate
  for each institution name that has a stored rate of the pair: a rate of that
  institution with the latest date, and among those of that date the first in the table.
  It lists the institutions by descending rate (equal rates in the order kept), shows
  the first five at most, and reports the average, the best and the worst over the
  kept rates of all the institutions, shown or not.
\<close>

theorem compare_fx_rates_report:
  "distinct (map fst (latest_rates e s t))
   \<and> fst ` set (latest_rates e s t)
       = fx_institution_name ` {r \<in> set (fx_rates e). matching s t r}
   \<and> (\<forall>x \<in> set (latest_rates e s t).
         snd x \<in> set (fx_rates e) \<and> matching s t (snd x) \<and> fx_institution_name (snd x) = fst x
         \<and> (\<forall>r \<in> set (fx_rates e). matching s t r \<and> fx_institution_name r = fst x \<longrightarrow>
               effective_date r \<le> effective_date (snd x))
         \<and> find (\<lambda>r. matching s t r \<and> fx_institution_name r = fst x
                      \<and> effective_date r = effective_date (snd x)) (fx_rates e) = Some (snd x))
   \<and> set (sorted_rates e s t) = set (latest_rates e s t)
   \<and> length (sorted_rates e s t) = length (latest_rates e s t)
   \<and> sorted_wrt (\<lambda>x y. conversion_value (snd y) \<le> conversion_value (snd x)) (sorted_rates e s t)
   \<and> (\<forall>v. filter (\<lambda>x. conversion_value (snd x) = v) (sorted_rates e s t)
            = filter (\<lambda>x. conversion_value (snd x) = v) (latest_rates e s t))
   \<and> length (take 5 (sorted_rates e s t)) \<le> 5
   \<and> set (rates_values e s t) = (\<lambda>x. conversion_value (snd x)) ` set (latest_rates e s t)
   \<and> (db_fault e = None \<and> (\<exists>r \<in> set (fx_rates e). matching s t r) \<longrightarrow>
        compare_fx_rates e s t =
           ''Best '' @ s @ ''/'' @ t @ '' rates:\<newline>''
             @ rate_lines 1 (take 5 (sorted_rates e s t))
             @ ''\<newline>Average rate: ''
             @ format_4f (sum_list (rates_values e s t)) (length (latest_rates e s t))
             @ ''\<newline>Best rate: '' @ format_4f (Max (set (rates_values e s t))) 1
             @ ''\<newline>Worst rate: '' @ format_4f (Min (set (rates_values e s t))) 1)"
proof -
  have 1: "distinct (map fst (latest_rates e s t))" by (rule latest_rates_distinct)
  have 2: "fst ` set (latest_rates e s t)
       = fx_institution_name ` {r \<in> set (fx_rates e). matching s t r}"
    by (rule latest_rates_keys)
  have 3: "\<forall>x \<in> set (latest_rates e s t).
         snd x \<in> set (fx_rates e) \<and> matching s t (snd x) \<and> fx_institution_name (snd x) = fst x
         \<and> (\<forall>r \<in> set (fx_rates e). matching s t r \<and> fx_institution_name r = fst x \<longrightarrow>
               effective_date r \<le> effective_date (snd x))
         \<and> find (\<lambda>r. matching s t r \<and> fx_institution_name r = fst x
                      \<and> effective_date r = effective_date (snd x)) (fx_rates e) = Some (snd x)"
  proof
    fix x assume "x \<in> set (latest_rates e s t)"
    then have "(fst x, snd x) \<in> set (latest_rates e s t)" by simp
    then have "find (\<lambda>r. fx_institution_name r = fst x) (pair_rates e s t) = Some (snd x)"
      by (simp only: latest_rates_member)
    then show "snd x \<in> set (fx_rates e) \<and> matching s t (snd x) \<and> fx_institution_name (snd x) = fst x
         \<and> (\<forall>r \<in> set (fx_rates e). matching s t r \<and> fx_institution_name r = fst x \<longrightarrow>
               effective_date r \<le> effective_date (snd x))
         \<and> find (\<lambda>r. matching s t r \<and> fx_institution_name r = fst x
                      \<and> effective_date r = effective_date (snd x)) (fx_rates e) = Some (snd x)"
      by (rule pair_rates_latest)
  qed
  have 4: "set (sorted_rates e s t) = set (latest_rates e s t)"
    by (simp only: sorted_rates_def set_order_by_desc)
  have 40: "length (sorted_rates e s t) = length (latest_rates e s t)"
    by (simp only: sorted_rates_def length_order_by_desc)
  have 5: "sorted_wrt (\<lambda>x y. conversion_value (snd y) \<le> conversion_value (snd x)) (sorted_rates e s t)"
    unfolding sorted_rates_def by (rule sorted_order_by_desc)
  have 6: "\<forall>v. filter (\<lambda>x. conversion_value (snd x) = v) (sorted_rates e s t)
            = filter (\<lambda>x. conversion_value (snd x) = v) (latest_rates e s t)"
  proof
    fix v
    have "filter (\<lambda>x. - conversion_value (snd x) = - v)
            (sort_key (\<lambda>x. - conversion_value (snd x)) (latest_rates e s t))
          = filter (\<lambda>x. - conversion_value (snd x) = - v) (latest_rates e s t)"
      by (rule sort_key_stable)
    then show "filter (\<lambda>x. conversion_value (snd x) = v) (sorted_rates e s t)
            = filter (\<lambda>x. conversion_value (snd x) = v) (latest_rates e s t)"
      by (simp add: sorted_rates_def order_by_desc_def)
  qed
  have 7: "length (take 5 (sorted_rates e s t)) \<le> 5" by simp
  note 8 = set_rates_values [of e s t]
  have 9: "db_fault e = None \<and> (\<exists>r \<in> set (fx_rates e). matching s t r) \<longrightarrow>
        compare_fx_rates e s t =
           ''Best '' @ s @ ''/'' @ t @ '' rates:\<newline>''
             @ rate_lines 1 (take 5 (sorted_rates e s t))
             @ ''\<newline>Average rate: ''
             @ format_4f (sum_list (rates_values e s t)) (length (latest_rates e s t))
             @ ''\<newline>Best rate: '' @ format_4f (Max (set (rates_values e s t))) 1
             @ ''\<newline>Worst rate: '' @ format_4f (Min (set (rates_values e s t))) 1"
    using compare_fx_rates_text [of e s t] by blast
  show ?thesis by (intro conjI) (rule 1 2 3 4 40 5 6 7 8 9)+
qed

theorem aggregations_per_currency_witness:
  "currency_totals demo_env 5 = [(''JOD'', 10000), (''USD'', 5000)]
   \<and> get_total_balance demo_env 5 = ''Total balances by currency: JOD: 100.00, USD: 50.00''
   \<and> distinct (map fst (currency_totals demo_env 5))
   \<and> currency_totals (demo_env\<lparr>accounts := demo_accounts_mixed\<rparr>) 5
       = [(''JOD'', 12550), (''USD'', 5000)]
   \<and> get_total_balance (demo_env\<lparr>accounts := demo_accounts_mixed\<rparr>) 5
       = ''Total balances by currency: JOD: 125.50, USD: 50.00''
   \<and> rates_values (demo_env\<lparr>fx_rates := demo_fx\<rparr>) ''USD'' ''JOD'' = [711000, 709000]
   \<and> compare_fx_rates (demo_env\<lparr>fx_rates := demo_fx\<rparr>) ''USD'' ''JOD''
       = ''Best USD/JOD rates:\<newline>1. Bank B: 0.711000\<newline>2. Bank A: 0.709000\<newline>\<newline>Average rate: 0.7100\<newline>Best rate: 0.7110\<newline>Worst rate: 0.7090''
   \<and> compare_fx_rates
         (demo_env\<lparr>fx_rates := demo_fx\<rparr>
            \<lparr>fx_rates := filter (matching ''USD'' ''JOD'') (fx_rates (demo_env\<lparr>fx_rates := demo_fx\<rparr>))\<rparr>)
         ''USD'' ''JOD''
       = compare_fx_rates (demo_env\<lparr>fx_rates := demo_fx\<rparr>) ''USD'' ''JOD''"
proof -
  let ?e = "demo_env\<lparr>fx_rates := demo_fx\<rparr>"
  let ?m = "demo_env\<lparr>accounts := demo_accounts_mixed\<rparr>"
  have a: "currency_totals demo_env 5 = [(''JOD'', 10000), (''USD'', 5000)]" by code_simp
  have b: "get_total_balance demo_env 5 = ''Total balances by currency: JOD: 100.00, USD: 50.00''"
    by code_simp
  have c: "distinct (map fst (currency_totals demo_env 5))"
    using aggregations_per_currency [of demo_env 5] by (rule conjunct1)
  have m1: "currency_totals ?m 5 = [(''JOD'', 12550), (''USD'', 5000)]" by code_simp
  have h: "db_fault ?m = None \<and> accounts_with_balance ?m 5 \<noteq> []" by code_simp
  have "get_total_balance ?m 5
          = ''Total balances by currency: ''
              @ join '', ''
                  (map (\<lambda>currency.
                          currency @ '': ''
                            @ str_decimal 2
                                (sum_list (map balance_of
                                   (filter (\<lambda>a. account_currency a = currency)
                                      (accounts_with_balance ?m 5)))))
                     (rev (remdups (rev (map account_currency (accounts_with_balance ?m 5))))))"
    using h
    by (rule aggregations_per_currency [THEN conjunct2, THEN conjunct2, THEN conjunct2,
              THEN conjunct2, THEN conjunct1, THEN mp, THEN conjunct2])
  also have "\<dots> = ''Total balances by currency: JOD: 125.50, USD: 50.00''"
    by code_simp
  finally have m2: "get_total_balance ?m 5 = ''Total balances by currency: JOD: 125.50, USD: 50.00''" .
  have d: "rates_values ?e ''USD'' ''JOD'' = [711000, 709000]" by code_simp
  have f: "compare_fx_rates ?e ''USD'' ''JOD''
       = ''Best USD/JOD rates:\<newline>1. Bank B: 0.711000\<newline>2. Bank A: 0.709000\<newline>\<newline>Average rate: 0.7100\<newline>Best rate: 0.7110\<newline>Worst rate: 0.7090''"
    by code_simp
  have g: "compare_fx_rates (?e\<lparr>fx_rates := filter (matching ''USD'' ''JOD'') (fx_rates ?e)\<rparr>)
             ''USD'' ''JOD''
           = compare_fx_rates ?e ''USD'' ''JOD''"
    using aggregations_per_currency [where e = ?e and user_id = 5
        and source_currency = "''USD''" and target_currency = "''JOD''"]
    by (elim conjE)
  show ?thesis by (intro conjI) (rule a b c m1 m2 d f g)+
qed

theorem compare_fx_rates_report_witness:
  "db_fault (demo_env\<lparr>fx_rates := demo_fx\<rparr>) = None
   \<and> (\<exists>r \<in> set (fx_rates (demo_env\<lparr>fx_rates := demo_fx\<rparr>)). matching ''usd'' ''jod'' r)
   \<and> latest_rates (demo_env\<lparr>fx_rates := demo_fx\<rparr>) ''usd'' ''jod''
       = [(''Bank A'', demo_rate ''Bank A'' ''USD'' ''JOD'' 709000 200 ''2024-03-01 09:00''),
          (''Bank B'', demo_rate ''Bank B'' ''USD'' ''JOD'' 711000 150 ''2024-02-01 09:00'')]
   \<and> map fst (sorted_rates (demo_env\<lparr>fx_rates := demo_fx\<rparr>) ''usd'' ''jod'')
       = [''Bank B'', ''Bank A'']
   \<and> distinct (map fst (latest_rates (demo_env\<lparr>fx_rates := demo_fx\<rparr>) ''usd'' ''jod''))
   \<and> compare_fx_rates (demo_env\<lparr>fx_rates := demo_fx\<rparr>) ''usd'' ''jod''
       = ''Best usd/jod rates:\<newline>1. Bank B: 0.711000\<newline>2. Bank A: 0.709000\<newline>\<newline>Average rate: 0.7100\<newline>Best rate: 0.7110\<newline>Worst rate: 0.7090''"
proof -
  let ?e = "demo_env\<lparr>fx_rates := demo_fx\<rparr>"
  note t = compare_fx_rates_report [of ?e "''usd''" "''jod''"]
  have a: "db_fault ?e = None" by code_simp
  have b: "\<exists>r \<in> set (fx_rates ?e). matching ''usd'' ''jod'' r" by code_simp
  have c: "latest_rates ?e ''usd'' ''jod''
       = [(''Bank A'', demo_rate ''Bank A'' ''USD'' ''JOD'' 709000 200 ''2024-03-01 09:00''),
          (''Bank B'', demo_rate ''Bank B'' ''USD'' ''JOD'' 711000 150 ''2024-02-01 09:00'')]"
    by code_simp
  have d: "map fst (sorted_rates ?e ''usd'' ''jod'') = [''Bank B'', ''Bank A'']" by code_simp
  have f: "distinct (map fst (latest_rates ?e ''usd'' ''jod''))" using t by (rule conjunct1)
  have "db_fault ?e = None \<and> (\<exists>r \<in> set (fx_rates ?e). matching ''usd'' ''jod'' r) \<longrightarrow>
        compare_fx_rates ?e ''usd'' ''jod'' =
           ''Best '' @ ''usd'' @ ''/'' @ ''jod'' @ '' rates:\<newline>''
             @ rate_lines 1 (take 5 (sorted_rates ?e ''usd'' ''jod''))
             @ ''\<newline>Average rate: ''
             @ format_4f (sum_list (rates_values ?e ''usd'' ''jod''))
                 (length (latest_rates ?e ''usd'' ''jod''))
             @ ''\<newline>Best rate: '' @ format_4f (Max (set (rates_values ?e ''usd'' ''jod''))) 1
             @ ''\<newline>Worst rate: '' @ format_4f (Min (set (rates_values ?e ''usd'' ''jod''))) 1"
    using t by (elim conjE)
  then have g: "compare_fx_rates ?e ''usd'' ''jod'' =
           ''Best '' @ ''usd'' @ ''/'' @ ''jod'' @ '' rates:\<newline>''
             @ rate_lines 1 (take 5 (sorted_rates ?e ''usd'' ''jod''))
             @ ''\<newline>Average rate: ''
             @ format_4f (sum_list (rates_values ?e ''usd'' ''jod''))
                 (length (latest_rates ?e ''usd'' ''jod''))
             @ ''\<newline>Best rate: '' @ format_4f (Max (set (rates_values ?e ''usd'' ''jod''))) 1
             @ ''\<newline>Worst rate: '' @ format_4f (Min (set (rates_values ?e ''usd'' ''jod''))) 1"
    using a b by blast
  have h: "''Best '' @ ''usd'' @ ''/'' @ ''jod'' @ '' rates:\<newline>''
             @ rate_lines 1 (take 5 (sorted_rates ?e ''usd'' ''jod''))
             @ ''\<newline>Average rate: ''
             @ format_4f (sum_list (rates_values ?e ''usd'' ''jod''))
                 (length (latest_rates ?e ''usd'' ''jod''))
             @ ''\<newline>Best rate: '' @ format_4f (Max (set (rates_values ?e ''usd'' ''jod''))) 1
             @ ''\<newline>Worst rate: '' @ format_4f (Min (set (rates_values ?e ''usd'' ''jod''))) 1
       = ''Best usd/jod rates:\<newline>1. Bank B: 0.711000\<newline>2. Bank A: 0.709000\<newline>\<newline>Average rate: 0.7100\<newline>Best rate: 0.7110\<newline>Worst rate: 0.7090''"
    by code_simp
  have i: "compare_fx_rates ?e ''usd'' ''jod''
       = ''Best usd/jod rates:\<newline>1. Bank B: 0.711000\<newline>2. Bank A: 0.709000\<newline>\<newline>Average rate: 0.7100\<newline>Best rate: 0.7110\<newline>Worst rate: 0.7090''"
    using g h by (rule trans)
  show ?thesis by (intro conjI) (rule a b c d f i)+
qed

theorem compare_fx_rates_six_counterexample:
  "map (\<lambda>x. conversion_value (snd x))
     (take 5 (sorted_rates (demo_env\<lparr>fx_rates := demo_fx_six\<rparr>) ''USD'' ''JOD''))
     = [760000, 750000, 740000, 730000, 720000]
   \<and> compare_fx_rates (demo_env\<lparr>fx_rates := demo_fx_six\<rparr>) ''USD'' ''JOD''
       = ''Best USD/JOD rates:\<newline>1. Bank 1: 0.760000\<newline>2. Bank 2: 0.750000\<newline>3. Bank 3: 0.740000\<newline>4. Bank 4: 0.730000\<newline>5. Bank 5: 0.720000\<newline>\<newline>Average rate: 0.6333\<newline>Best rate: 0.7600\<newline>Worst rate: 0.1000''
   \<and> format_4f (sum_list [760000, 750000, 740000, 730000, 720000]) 5 = ''0.7400''
   \<and> format_4f (list_min [760000, 750000, 740000, 730000, 720000]) 1 = ''0.7200''"
  by code_simp

section \<open>Decimal arithmetic\<close>

lemma ndigits_le_iff: "0 < n \<Longrightarrow> ndigits c \<le> n \<longleftrightarrow> c < 10 ^ n"
proof (induction c arbitrary: n rule: ndigits.induct)
  case (1 c)
  show ?case
  proof (cases "c < 10")
    case True
    have "(10::int) \<le> 10 ^ n" using 1(2) by (cases n) simp_all
    then show ?thesis using True 1(2) by (simp add: ndigits.simps [of c])
  next
    case False
    show ?thesis
    proof (cases n)
      case 0
      then show ?thesis using 1(2) by simp
    next
      case (Suc m)
      show ?thesis
      proof (cases "m = 0")
        case True
        have "1 \<le> ndigits (c div 10)" by (simp add: ndigits.simps [of "c div 10"])
        then show ?thesis using False True Suc by (simp add: ndigits.simps [of c])
      next
        case m: False
        have "ndigits (c div 10) \<le> m \<longleftrightarrow> c div 10 < 10 ^ m"
          using 1(1) [OF False, of m] m by simp
        moreover have "c div 10 < k \<longleftrightarrow> c < 10 * k" for k :: int
          by presburger
        then have "c div 10 < 10 ^ m \<longleftrightarrow> c < 10 ^ Suc m"
          by simp
        ultimately show ?thesis using False Suc by (simp add: ndigits.simps [of c])
      qed
    qed
  qed
qed

lemma ndigits_lower: "0 < c \<Longrightarrow> 10 ^ (ndigits c - 1) \<le> c"
proof (induction c rule: ndigits.induct)
  case (1 c)
  show ?case
  proof (cases "c < 10")
    case True
    then show ?thesis using 1(2) by (simp add: ndigits.simps [of c])
  next
    case False
    then have "0 < c div 10" by (simp add: pos_imp_zdiv_pos_iff)
    then have "10 ^ (ndigits (c div 10) - 1) \<le> c div 10" using 1(1) [OF False] by simp
    moreover have "k \<le> c div 10 \<Longrightarrow> 10 * k \<le> c" for k :: int
      by presburger
    ultimately have "10 * 10 ^ (ndigits (c div 10) - 1) \<le> c"
      by blast
    moreover have "1 \<le> ndigits (c div 10)" by (simp add: ndigits.simps [of "c div 10"])
    ultimately show ?thesis using False
      by (simp add: ndigits.simps [of c] power_Suc [symmetric] del: power_Suc)
  qed
qed

lemma half_up_div:
  assumes "0 < p" and "0 \<le> c"
  shows "(if p \<le> 2 * (c mod p) then c div p + 1 else c div p) = round_half_up c (p::int)"
proof -
  define q r where "q = c div p" and "r = c mod p"
  have r: "0 \<le> r" "r < p" using assms(1) by (simp_all add: r_def)
  have c: "c = p * q + r" by (simp add: q_def r_def)
  have "2 * c + p = (2 * r + p) + q * (2 * p)"
    unfolding c by (simp add: algebra_simps)
  then have "(2 * c + p) div (2 * p) = ((2 * r + p) + q * (2 * p)) div (2 * p)"
    by (rule arg_cong)
  also have "\<dots> = q + (2 * r + p) div (2 * p)"
    using assms(1) by (simp only: div_mult_self1 [of "2 * p" "2 * r + p" q])
  finally have d: "round_half_up c p = q + (2 * r + p) div (2 * p)"
    by (simp add: round_half_up_def)
  show ?thesis
  proof (cases "p \<le> 2 * r")
    case True
    have "0 \<le> 2 * r - p" and "2 * r - p < 2 * p" using True r by linarith+
    then have "(2 * r + p) div (2 * p) = 1"
      by (intro int_div_pos_eq [where r = "2 * r - p"]) simp_all
    then show ?thesis using True d by (simp add: q_def r_def)
  next
    case False
    have "0 \<le> 2 * r + p" and "2 * r + p < 2 * p" using False r by linarith+
    then have "(2 * r + p) div (2 * p) = 0"
      by (rule div_pos_pos_trivial)
    then show ?thesis using False d by (simp add: q_def r_def)
  qed
qed


section \<open>Currency conversion\<close>

lemma conversion_rate_eligible:
  "conversion_rate e s t b =
     (case order_by_desc effective_date (filter (eligible s t b) (fx_rates e)) of
        [] \<Rightarrow> None | rate # _ \<Rightarrow> Some rate)"
proof -
  have "filter (eligible s t b) (fx_rates e) =
          (let query = filter (\<lambda>r. fx_source_currency r = str_upper s
                                 \<and> fx_target_currency r = str_upper t) (fx_rates e)
           in case b of
                None \<Rightarrow> query
              | Some name \<Rightarrow>
                  if name = [] then query
                  else filter (\<lambda>r. icontains (fx_institution_name r) name) query)"
    by (cases b) (auto simp: eligible_def icontains_def str_in_sublist Let_def intro: filter_cong)
  then show ?thesis by (simp add: conversion_rate_def Let_def)
qed

lemma conversion_rate_None:
  "conversion_rate e s t b = None \<longleftrightarrow> (\<forall>r \<in> set (fx_rates e). \<not> eligible s t b r)"
proof -
  let ?xs = "filter (eligible s t b) (fx_rates e)"
  have "set (order_by_desc effective_date ?xs) = {} \<longleftrightarrow> set ?xs = {}"
    by (simp only: set_order_by_desc)
  then have a: "order_by_desc effective_date ?xs = [] \<longleftrightarrow> ?xs = []"
    by (simp only: set_empty)
  have "conversion_rate e s t b = None \<longleftrightarrow> order_by_desc effective_date ?xs = []"
    by (simp add: conversion_rate_eligible split: list.splits)
  then have "conversion_rate e s t b = None \<longleftrightarrow> ?xs = []"
    by (simp only: a)
  then show ?thesis by (simp add: filter_empty_conv)
qed

lemma conversion_rate_Some:
  assumes "conversion_rate e s t b = Some rate"
  shows "rate \<in> set (fx_rates e) \<and> eligible s t b rate
    \<and> (\<forall>r \<in> set (fx_rates e). eligible s t b r \<longrightarrow> effective_date r \<le> effective_date rate)"
proof -
  let ?xs = "filter (eligible s t b) (fx_rates e)"
  obtain rest where o: "order_by_desc effective_date ?xs = rate # rest"
    using assms by (auto simp: conversion_rate_eligible split: list.splits)
  have m: "set (rate # rest) = set ?xs"
    using set_order_by_desc [of effective_date ?xs] o by simp
  have "sorted_wrt (\<lambda>x y. effective_date y \<le> effective_date x) (rate # rest)"
    using sorted_order_by_desc [of effective_date ?xs] o by simp
  then have le: "\<forall>y \<in> set rest. effective_date y \<le> effective_date rate" by simp
  have 1: "rate \<in> set (fx_rates e) \<and> eligible s t b rate" using m by auto
  have 2: "\<forall>r \<in> set (fx_rates e). eligible s t b r \<longrightarrow> effective_date r \<le> effective_date rate"
  proof (intro ballI impI)
    fix r assume "r \<in> set (fx_rates e)" and "eligible s t b r"
    then have "r \<in> set (rate # rest)" using m by simp
    then show "effective_date r \<le> effective_date rate" using le by auto
  qed
  show ?thesis using 1 2 by blast
qed

lemma decimal_mul_exact:
  assumes "dec_coefficient a * dec_coefficient b < 10 ^ 28"
  shows "decimal_mul a b =
           \<lparr>dec_negative = (dec_negative a \<noteq> dec_negative b),
            dec_coefficient = dec_coefficient a * dec_coefficient b,
            dec_exponent = dec_exponent a + dec_exponent b\<rparr>"
proof -
  have "ndigits (dec_coefficient a * dec_coefficient b) \<le> 28"
    using assms by (simp add: ndigits_le_iff)
  then show ?thesis by (simp add: decimal_mul_def Let_def prec_def)
qed

lemma quantize_cents_value:
  assumes "0 \<le> c" and "c < 10 ^ 28"
    and "- 2 \<le> x \<longrightarrow> c * 10 ^ nat (x + 2) < 10 ^ 28"
  shows "quantize_cents \<lparr>dec_negative = n, dec_coefficient = c, dec_exponent = x\<rparr> =
           Inr \<lparr>dec_negative = n,
                dec_coefficient = (if - 2 \<le> x then c * 10 ^ nat (x + 2)
                                   else round_half_up c (10 ^ nat (- 2 - x))),
                dec_exponent = - 2\<rparr>"
proof (cases "c = 0")
  case True
  then show ?thesis by (simp add: quantize_cents_def round_half_up_def)
next
  case False
  then have pos: "0 < c" using assms(1) by simp
  have nd: "ndigits c \<le> 28" using assms(2) by (simp add: ndigits_le_iff)
  show ?thesis
  proof (cases "- 2 \<le> x")
    case True
    define k where "k = nat (x + 2)"
    have kx: "int k = x + 2" using True by (simp add: k_def)
    have b: "c * 10 ^ k < 10 ^ 28" using assms(3) True by (simp add: k_def)
    have "(10::int) ^ (ndigits c - 1) * 10 ^ k \<le> c * 10 ^ k"
      using ndigits_lower [OF pos] by (intro mult_right_mono) simp_all
    then have "(10::int) ^ (ndigits c - 1) * 10 ^ k < 10 ^ 28"
      using b by (rule le_less_trans)
    then have "(10::int) ^ (ndigits c - 1 + k) < 10 ^ 28"
      by (simp only: power_add)
    then have "ndigits c - 1 + k < 28"
      by (rule power_less_imp_less_exp [rotated]) simp
    then have chk: "\<not> int (ndigits c) + x + 2 > int prec"
      using kx by (simp add: prec_def)
    show ?thesis
      using False True chk b
      by (simp add: quantize_cents_def Let_def prec_def k_def)
  next
    case False
    note neg = False
    let ?p = "10 ^ nat (- 2 - x) :: int"
    let ?q = "if ?p \<le> 2 * (c mod ?p) then c div ?p + 1 else c div ?p"
    have p10: "10 \<le> ?p"
    proof -
      have "1 \<le> nat (- 2 - x)" using neg by simp
      then obtain j where "nat (- 2 - x) = Suc j" by (cases "nat (- 2 - x)") simp_all
      then show ?thesis by simp
    qed
    have chk: "\<not> int (ndigits c) + x + 2 > int prec"
      using nd neg by (simp add: prec_def)
    have h: "?q = round_half_up c ?p"
      using p10 assms(1) by (intro half_up_div) simp_all
    have "c div ?p \<le> c div 10"
      using p10 assms(1) by (intro zdiv_mono2) simp_all
    moreover have "c div 10 < 10 ^ 27" using assms(2) by simp
    ultimately have "c div ?p + 1 < 10 ^ 28" by simp
    then have "?q < 10 ^ 28" by simp
    then have bound: "\<not> 10 ^ prec \<le> round_half_up c ?p"
      unfolding h by (simp add: prec_def)
    have "quantize_cents \<lparr>dec_negative = n, dec_coefficient = c, dec_exponent = x\<rparr> =
            (if 10 ^ prec \<le> ?q then Inl invalid_operation
             else Inr \<lparr>dec_negative = n, dec_coefficient = ?q, dec_exponent = - 2\<rparr>)"
      using \<open>c \<noteq> 0\<close> neg chk by (simp add: quantize_cents_def Let_def)
    also have "\<dots> = (if 10 ^ prec \<le> round_half_up c ?p then Inl invalid_operation
             else Inr \<lparr>dec_negative = n, dec_coefficient = round_half_up c ?p,
                       dec_exponent = - 2\<rparr>)"
      by (simp only: h)
    also have "\<dots> = Inr \<lparr>dec_negative = n, dec_coefficient = round_half_up c ?p,
                       dec_exponent = - 2\<rparr>"
      using bound by (simp only: if_False)
    finally show ?thesis using neg by simp
  qed
qed

lemma convert_currency_converted:
  assumes "\<not> float_negative amount" and "0 < float_coefficient amount"
    and "db_fault e = None" and "conversion_rate e s t b = Some rate"
    and "float_coefficient amount * \<bar>conversion_value rate\<bar> < 10 ^ 28"
    and "converted_cents (float_coefficient amount) (float_exponent amount)
           (conversion_value rate) < 10 ^ 28"
  shows "convert_currency e amount s t b =
           ''Conversion Result:\<newline>''
             @ float_str amount @ '' '' @ s @ '' = ''
             @ show_fixed 2 (conversion_value rate < 0)
                 (converted_cents (float_coefficient amount) (float_exponent amount)
                    (conversion_value rate))
             @ '' '' @ t @ ''\<newline>''
             @ ''Rate: '' @ str_decimal 6 (conversion_value rate)
             @ '' ('' @ fx_institution_name rate @ '')\<newline>''
             @ ''Last updated: '' @ effective_date_text rate"
proof -
  let ?c = "float_coefficient amount * \<bar>conversion_value rate\<bar>"
  let ?x = "float_exponent amount - 6"
  have m: "decimal_mul (decimal_of_float amount) (decimal_of_rate (conversion_value rate)) =
             \<lparr>dec_negative = (conversion_value rate < 0), dec_coefficient = ?c, dec_exponent = ?x\<rparr>"
    using decimal_mul_exact [of "decimal_of_float amount" "decimal_of_rate (conversion_value rate)"]
      assms(1,5)
    by (auto simp: decimal_of_float_def decimal_of_rate_def)
  have c0: "0 \<le> ?c" using assms(2) by simp
  have e1: "- 2 \<le> ?x \<longleftrightarrow> 4 \<le> float_exponent amount" by linarith
  have e2: "nat (?x + 2) = nat (float_exponent amount - 4)" by simp
  have e3: "nat (- 2 - ?x) = nat (4 - float_exponent amount)" by simp
  have cc: "converted_cents (float_coefficient amount) (float_exponent amount)
              (conversion_value rate)
            = (if - 2 \<le> ?x then ?c * 10 ^ nat (?x + 2)
               else round_half_up ?c (10 ^ nat (- 2 - ?x)))"
    by (simp only: converted_cents_def e1 e2 e3)
  have b: "- 2 \<le> ?x \<longrightarrow> ?c * 10 ^ nat (?x + 2) < 10 ^ 28"
  proof
    assume "- 2 \<le> ?x"
    then have eq: "?c * 10 ^ nat (?x + 2)
                 = converted_cents (float_coefficient amount) (float_exponent amount)
                     (conversion_value rate)"
      by (simp only: cc if_True)
    show "?c * 10 ^ nat (?x + 2) < 10 ^ 28"
      unfolding eq by (rule assms(6))
  qed
  have q: "quantize_cents \<lparr>dec_negative = (conversion_value rate < 0), dec_coefficient = ?c,
                           dec_exponent = ?x\<rparr> =
             Inr \<lparr>dec_negative = (conversion_value rate < 0),
                  dec_coefficient = converted_cents (float_coefficient amount)
                     (float_exponent amount) (conversion_value rate),
                  dec_exponent = - 2\<rparr>"
    unfolding cc using c0 assms(5) b by (rule quantize_cents_value)
  show ?thesis
    using assms(1,2,3,4) by (simp add: convert_currency_def m q)
qed

lemma quantize_cents_error:
  assumes "0 < c"
    and "10 ^ 28 \<le> (if - 2 \<le> x then c * 10 ^ nat (x + 2) else round_half_up c (10 ^ nat (- 2 - x)))"
  shows "quantize_cents \<lparr>dec_negative = n, dec_coefficient = c, dec_exponent = x\<rparr>
           = Inl invalid_operation"
proof (cases "- 2 \<le> x")
  case True
  then show ?thesis using assms by (simp add: quantize_cents_def Let_def prec_def)
next
  case False
  let ?p = "10 ^ nat (- 2 - x) :: int"
  have h: "(if ?p \<le> 2 * (c mod ?p) then c div ?p + 1 else c div ?p) = round_half_up c ?p"
    using assms(1) by (intro half_up_div) simp_all
  have b: "10 ^ 28 \<le> round_half_up c ?p" using assms(2) False by simp
  have "quantize_cents \<lparr>dec_negative = n, dec_coefficient = c, dec_exponent = x\<rparr> =
          (if int (ndigits c) + x + 2 > int prec then Inl invalid_operation
           else if 10 ^ prec \<le> (if ?p \<le> 2 * (c mod ?p) then c div ?p + 1 else c div ?p)
                then Inl invalid_operation
                else Inr \<lparr>dec_negative = n,
                          dec_coefficient = (if ?p \<le> 2 * (c mod ?p) then c div ?p + 1 else c div ?p),
                          dec_exponent = - 2\<rparr>)"
    using assms(1) False by (simp add: quantize_cents_def Let_def)
  also have "\<dots> = Inl invalid_operation"
    unfolding h using b by (simp add: prec_def)
  finally show ?thesis .
qed

lemma convert_currency_error:
  assumes "\<not> float_negative amount" and "0 < float_coefficient amount"
    and "db_fault e = None" and "conversion_rate e s t b = Some rate"
    and "float_coefficient amount * \<bar>conversion_value rate\<bar> < 10 ^ 28"
    and "10 ^ 28 \<le> converted_cents (float_coefficient amount) (float_exponent amount)
           (conversion_value rate)"
  shows "convert_currency e amount s t b =
           ''Error converting currency: [<class 'decimal.InvalidOperation'>]''"
proof -
  let ?c = "float_coefficient amount * \<bar>conversion_value rate\<bar>"
  let ?x = "float_exponent amount - 6"
  have m: "decimal_mul (decimal_of_float amount) (decimal_of_rate (conversion_value rate)) =
             \<lparr>dec_negative = (conversion_value rate < 0), dec_coefficient = ?c, dec_exponent = ?x\<rparr>"
    using decimal_mul_exact [of "decimal_of_float amount" "decimal_of_rate (conversion_value rate)"]
      assms(1,5)
    by (auto simp: decimal_of_float_def decimal_of_rate_def)
  have e1: "- 2 \<le> ?x \<longleftrightarrow> 4 \<le> float_exponent amount" by linarith
  have e2: "nat (?x + 2) = nat (float_exponent amount - 4)" by simp
  have e3: "nat (- 2 - ?x) = nat (4 - float_exponent amount)" by simp
  have cc: "converted_cents (float_coefficient amount) (float_exponent amount)
              (conversion_value rate)
            = (if - 2 \<le> ?x then ?c * 10 ^ nat (?x + 2)
               else round_half_up ?c (10 ^ nat (- 2 - ?x)))"
    by (simp only: converted_cents_def e1 e2 e3)
  have "conversion_value rate \<noteq> 0"
  proof
    assume "conversion_value rate = 0"
    then have "converted_cents (float_coefficient amount) (float_exponent amount)
                 (conversion_value rate) = 0"
      by (simp add: converted_cents_def round_half_up_def)
    then show False using assms(6) by simp
  qed
  then have c0: "0 < ?c" using assms(2) by simp
  have big: "10 ^ 28 \<le> (if - 2 \<le> ?x then ?c * 10 ^ nat (?x + 2)
                          else round_half_up ?c (10 ^ nat (- 2 - ?x)))"
    using assms(6) unfolding cc .
  have q: "quantize_cents \<lparr>dec_negative = (conversion_value rate < 0), dec_coefficient = ?c,
                           dec_exponent = ?x\<rparr> = Inl invalid_operation"
    using c0 big by (rule quantize_cents_error)
  show ?thesis
    using assms(1,2,3,4) by (simp add: convert_currency_def m q invalid_operation_def)
qed

text \<open>
  Claim C3, as amended. For an amount that is zero or negative \<open>convert_currency\<close> returns
  the rejection text, before any query. For a positive amount (and queries that do not
  raise): when no stored rate is of the upper-cased pair (and of an institution whose
  name contains the given one, letter case ignored, if a name is given), it returns the
  no-exchange-rate text; otherwise it uses a rate with the latest date among those, and,
  provided the exact product of the amount and the rate has at most 28 digits, it returns
  the product rounded half-up to two decimal places when that result, in hundredths, has
  at most 28 digits, and the text of the error \<open>InvalidOperation\<close> when it has more.
\<close>

theorem convert_currency_cases:
  "(float_negative amount \<or> float_coefficient amount = 0 \<longrightarrow>
      convert_currency e amount s t b = ''Please provide a positive amount to convert'')
   \<and> (\<not> float_negative amount \<and> 0 < float_coefficient amount \<and> db_fault e = None \<longrightarrow>
        (conversion_rate e s t b = None \<longleftrightarrow> (\<forall>r \<in> set (fx_rates e). \<not> eligible s t b r))
        \<and> (conversion_rate e s t b = None \<longrightarrow>
              convert_currency e amount s t b = ''No exchange rate found for '' @ s @ ''/'' @ t)
        \<and> (\<forall>rate. conversion_rate e s t b = Some rate \<longrightarrow>
              rate \<in> set (fx_rates e) \<and> eligible s t b rate
              \<and> (\<forall>r \<in> set (fx_rates e). eligible s t b r \<longrightarrow>
                    effective_date r \<le> effective_date rate)
              \<and> (float_coefficient amount * \<bar>conversion_value rate\<bar> < 10 ^ 28
                   \<and> converted_cents (float_coefficient amount) (float_exponent amount)
                         (conversion_value rate) < 10 ^ 28 \<longrightarrow>
                   convert_currency e amount s t b =
                     ''Conversion Result:\<newline>''
                       @ float_str amount @ '' '' @ s @ '' = ''
                       @ show_fixed 2 (conversion_value rate < 0)
                           (converted_cents (float_coefficient amount) (float_exponent amount)
                              (conversion_value rate))
                       @ '' '' @ t @ ''\<newline>''
                       @ ''Rate: '' @ str_decimal 6 (conversion_value rate)
                       @ '' ('' @ fx_institution_name rate @ '')\<newline>''
                       @ ''Last updated: '' @ effective_date_text rate)
              \<and> (float_coefficient amount * \<bar>conversion_value rate\<bar> < 10 ^ 28
                   \<and> 10 ^ 28 \<le> converted_cents (float_coefficient amount)
                                  (float_exponent amount) (conversion_value rate) \<longrightarrow>
                   convert_currency e amount s t b =
                     ''Error converting currency: [<class 'decimal.InvalidOperation'>]'')))"
proof (intro conjI impI allI)
  assume "float_negative amount \<or> float_coefficient amount = 0"
  then show "convert_currency e amount s t b = ''Please provide a positive amount to convert''"
    by (auto simp: convert_currency_def)
next
  show "conversion_rate e s t b = None \<longleftrightarrow> (\<forall>r \<in> set (fx_rates e). \<not> eligible s t b r)"
    by (rule conversion_rate_None)
next
  assume "\<not> float_negative amount \<and> 0 < float_coefficient amount \<and> db_fault e = None"
    and "conversion_rate e s t b = None"
  then show "convert_currency e amount s t b = ''No exchange rate found for '' @ s @ ''/'' @ t"
    by (simp add: convert_currency_def)
next
  fix rate assume "conversion_rate e s t b = Some rate"
  then show "rate \<in> set (fx_rates e)" using conversion_rate_Some by blast
next
  fix rate assume "conversion_rate e s t b = Some rate"
  then show "eligible s t b rate" using conversion_rate_Some by blast
next
  fix rate assume "conversion_rate e s t b = Some rate"
  then show "\<forall>r \<in> set (fx_rates e). eligible s t b r \<longrightarrow> effective_date r \<le> effective_date rate"
    using conversion_rate_Some by blast
next
  fix rate
  assume a: "\<not> float_negative amount \<and> 0 < float_coefficient amount \<and> db_fault e = None"
    and r: "conversion_rate e s t b = Some rate"
    and d: "float_coefficient amount * \<bar>conversion_value rate\<bar> < 10 ^ 28
            \<and> converted_cents (float_coefficient amount) (float_exponent amount)
                 (conversion_value rate) < 10 ^ 28"
  show "convert_currency e amount s t b =
          ''Conversion Result:\<newline>''
            @ float_str amount @ '' '' @ s @ '' = ''
            @ show_fixed 2 (conversion_value rate < 0)
                (converted_cents (float_coefficient amount) (float_exponent amount)
                   (conversion_value rate))
            @ '' '' @ t @ ''\<newline>''
            @ ''Rate: '' @ str_decimal 6 (conversion_value rate)
            @ '' ('' @ fx_institution_name rate @ '')\<newline>''
            @ ''Last updated: '' @ effective_date_text rate"
    using a r d by (intro convert_currency_converted) simp_all
next
  fix rate
  assume a: "\<not> float_negative amount \<and> 0 < float_coefficient amount \<and> db_fault e = None"
    and r: "conversion_rate e s t b = Some rate"
    and d: "float_coefficient amount * \<bar>conversion_value rate\<bar> < 10 ^ 28
            \<and> 10 ^ 28 \<le> converted_cents (float_coefficient amount) (float_exponent amount)
                           (conversion_value rate)"
  show "convert_currency e amount s t b =
          ''Error converting currency: [<class 'decimal.InvalidOperation'>]''"
    by (rule convert_currency_error
          [OF a [THEN conjunct1] a [THEN conjunct2, THEN conjunct1]
              a [THEN conjunct2, THEN conjunct2] r d [THEN conjunct1] d [THEN conjunct2]])
qed

theorem convert_currency_cases_witness:
  "convert_currency (demo_env\<lparr>fx_rates := demo_fx\<rparr>) (demo_amount ''100.0'' 1000 (- 1))
     ''usd'' ''jod'' None
     = ''Conversion Result:\<newline>100.0 usd = 70.90 jod\<newline>Rate: 0.709000 (Bank A)\<newline>Last updated: 2024-03-01 09:00''
   \<and> convert_currency (demo_env\<lparr>fx_rates := demo_fx\<rparr>) (demo_amount ''0.0'' 0 (- 1))
         ''usd'' ''jod'' None
       = ''Please provide a positive amount to convert''
   \<and> convert_currency (demo_env\<lparr>fx_rates := demo_fx\<rparr>) (demo_amount ''5.0'' 50 (- 1))
         ''USD'' ''GBP'' None
       = ''No exchange rate found for USD/GBP''
   \<and> convert_currency (demo_env\<lparr>fx_rates := demo_fx\<rparr>) (demo_amount ''100.0'' 1000 (- 1))
         ''usd'' ''jod'' (Some ''bank b'')
       = ''Conversion Result:\<newline>100.0 usd = 71.10 jod\<newline>Rate: 0.711000 (Bank B)\<newline>Last updated: 2024-02-01 09:00''
   \<and> convert_currency (demo_env\<lparr>fx_rates := demo_fx\<rparr>) (demo_amount ''100.0'' 1000 (- 1))
         ''usd'' ''jod'' (Some ''Bank C'')
       = ''No exchange rate found for usd/jod''
   \<and> convert_currency (demo_env\<lparr>fx_rates := demo_fx\<rparr>) (demo_amount ''2e+27'' 2 27)
         ''usd'' ''jod'' (Some ''bank b'')
       = ''Error converting currency: [<class 'decimal.InvalidOperation'>]''"
proof -
  let ?e = "demo_env\<lparr>fx_rates := demo_fx\<rparr>"
  let ?a = "demo_amount ''100.0'' 1000 (- 1)"
  let ?z = "demo_amount ''0.0'' 0 (- 1)"
  let ?f = "demo_amount ''5.0'' 50 (- 1)"
  let ?g = "demo_amount ''2e+27'' 2 27"
  let ?r = "demo_rate ''Bank A'' ''USD'' ''JOD'' 709000 200 ''2024-03-01 09:00''"
  let ?rb = "demo_rate ''Bank B'' ''USD'' ''JOD'' 711000 150 ''2024-02-01 09:00''"
  note t = convert_currency_cases [of ?a ?e "''usd''" "''jod''" None]
  have pos: "\<not> float_negative ?a \<and> 0 < float_coefficient ?a \<and> db_fault ?e = None"
    by code_simp
  have rate: "conversion_rate ?e ''usd'' ''jod'' None = Some ?r" by code_simp
  have fits: "float_coefficient ?a * \<bar>conversion_value ?r\<bar> < 10 ^ 28
              \<and> converted_cents (float_coefficient ?a) (float_exponent ?a) (conversion_value ?r)
                  < 10 ^ 28"
    by code_simp
  have "convert_currency ?e ?a ''usd'' ''jod'' None =
          ''Conversion Result:\<newline>''
            @ float_str ?a @ '' '' @ ''usd'' @ '' = ''
            @ show_fixed 2 (conversion_value ?r < 0)
                (converted_cents (float_coefficient ?a) (float_exponent ?a) (conversion_value ?r))
            @ '' '' @ ''jod'' @ ''\<newline>''
            @ ''Rate: '' @ str_decimal 6 (conversion_value ?r)
            @ '' ('' @ fx_institution_name ?r @ '')\<newline>''
            @ ''Last updated: '' @ effective_date_text ?r"
    using t pos rate fits by blast
  moreover have "''Conversion Result:\<newline>''
            @ float_str ?a @ '' '' @ ''usd'' @ '' = ''
            @ show_fixed 2 (conversion_value ?r < 0)
                (converted_cents (float_coefficient ?a) (float_exponent ?a) (conversion_value ?r))
            @ '' '' @ ''jod'' @ ''\<newline>''
            @ ''Rate: '' @ str_decimal 6 (conversion_value ?r)
            @ '' ('' @ fx_institution_name ?r @ '')\<newline>''
            @ ''Last updated: '' @ effective_date_text ?r
        = ''Conversion Result:\<newline>100.0 usd = 70.90 jod\<newline>Rate: 0.709000 (Bank A)\<newline>Last updated: 2024-03-01 09:00''"
    by code_simp
  ultimately have 1: "convert_currency ?e ?a ''usd'' ''jod'' None
     = ''Conversion Result:\<newline>100.0 usd = 70.90 jod\<newline>Rate: 0.709000 (Bank A)\<newline>Last updated: 2024-03-01 09:00''"
    by (rule trans)
  have zero: "float_negative ?z \<or> float_coefficient ?z = 0" by code_simp
  have 2: "convert_currency ?e ?z ''usd'' ''jod'' None = ''Please provide a positive amount to convert''"
    using convert_currency_cases [of ?z ?e "''usd''" "''jod''" None] zero by blast
  have pos5: "\<not> float_negative ?f \<and> 0 < float_coefficient ?f \<and> db_fault ?e = None"
    by code_simp
  have none: "conversion_rate ?e ''USD'' ''GBP'' None = None" by code_simp
  have "convert_currency ?e ?f ''USD'' ''GBP'' None = ''No exchange rate found for '' @ ''USD'' @ ''/'' @ ''GBP''"
    using convert_currency_cases [of ?f ?e "''USD''" "''GBP''" None] pos5 none by blast
  then have 3: "convert_currency ?e ?f ''USD'' ''GBP'' None = ''No exchange rate found for USD/GBP''"
    by simp
  note tb = convert_currency_cases [of ?a ?e "''usd''" "''jod''" "Some ''bank b''"]
  have rate_b: "conversion_rate ?e ''usd'' ''jod'' (Some ''bank b'') = Some ?rb" by code_simp
  have fits_b: "float_coefficient ?a * \<bar>conversion_value ?rb\<bar> < 10 ^ 28
              \<and> converted_cents (float_coefficient ?a) (float_exponent ?a) (conversion_value ?rb)
                  < 10 ^ 28"
    by code_simp
  have "convert_currency ?e ?a ''usd'' ''jod'' (Some ''bank b'') =
          ''Conversion Result:\<newline>''
            @ float_str ?a @ '' '' @ ''usd'' @ '' = ''
            @ show_fixed 2 (conversion_value ?rb < 0)
                (converted_cents (float_coefficient ?a) (float_exponent ?a) (conversion_value ?rb))
            @ '' '' @ ''jod'' @ ''\<newline>''
            @ ''Rate: '' @ str_decimal 6 (conversion_value ?rb)
            @ '' ('' @ fx_institution_name ?rb @ '')\<newline>''
            @ ''Last updated: '' @ effective_date_text ?rb"
    using tb pos rate_b fits_b by blast
  moreover have "''Conversion Result:\<newline>''
            @ float_str ?a @ '' '' @ ''usd'' @ '' = ''
            @ show_fixed 2 (conversion_value ?rb < 0)
                (converted_cents (float_coefficient ?a) (float_exponent ?a) (conversion_value ?rb))
            @ '' '' @ ''jod'' @ ''\<newline>''
            @ ''Rate: '' @ str_decimal 6 (conversion_value ?rb)
            @ '' ('' @ fx_institution_name ?rb @ '')\<newline>''
            @ ''Last updated: '' @ effective_date_text ?rb
        = ''Conversion Result:\<newline>100.0 usd = 71.10 jod\<newline>Rate: 0.711000 (Bank B)\<newline>Last updated: 2024-02-01 09:00''"
    by code_simp
  ultimately have 4: "convert_currency ?e ?a ''usd'' ''jod'' (Some ''bank b'')
     = ''Conversion Result:\<newline>100.0 usd = 71.10 jod\<newline>Rate: 0.711000 (Bank B)\<newline>Last updated: 2024-02-01 09:00''"
    by (rule trans)
  have none_c: "conversion_rate ?e ''usd'' ''jod'' (Some ''Bank C'') = None" by code_simp
  have "convert_currency ?e ?a ''usd'' ''jod'' (Some ''Bank C'')
          = ''No exchange rate found for '' @ ''usd'' @ ''/'' @ ''jod''"
    using convert_currency_cases [of ?a ?e "''usd''" "''jod''" "Some ''Bank C''"] pos none_c
    by blast
  then have 5: "convert_currency ?e ?a ''usd'' ''jod'' (Some ''Bank C'')
                  = ''No exchange rate found for usd/jod''"
    by simp
  have pos_g: "\<not> float_negative ?g \<and> 0 < float_coefficient ?g \<and> db_fault ?e = None"
    by code_simp
  have big: "float_coefficient ?g * \<bar>conversion_value ?rb\<bar> < 10 ^ 28
              \<and> 10 ^ 28 \<le> converted_cents (float_coefficient ?g) (float_exponent ?g)
                            (conversion_value ?rb)"
    by code_simp
  have 6: "convert_currency ?e ?g ''usd'' ''jod'' (Some ''bank b'')
             = ''Error converting currency: [<class 'decimal.InvalidOperation'>]''"
    using convert_currency_cases [of ?g ?e "''usd''" "''jod''" "Some ''bank b''"] pos_g rate_b big
    by blast
  show ?thesis by (intro conjI) (rule 1 2 3 4 5 6)+
qed

theorem convert_currency_large_counterexample:
  "\<not> float_negative (demo_amount ''1e+27'' 1 27)
   \<and> 0 < float_coefficient (demo_amount ''1e+27'' 1 27)
   \<and> conversion_rate (demo_env\<lparr>fx_rates := demo_fx\<rparr>) ''USD'' ''JOD'' None
       = Some (demo_rate ''Bank A'' ''USD'' ''JOD'' 709000 200 ''2024-03-01 09:00'')
   \<and> convert_currency (demo_env\<lparr>fx_rates := demo_fx\<rparr>) (demo_amount ''1e+27'' 1 27)
         ''USD'' ''JOD'' None
       = ''Error converting currency: [<class 'decimal.InvalidOperation'>]''
   \<and> convert_currency (demo_env\<lparr>fx_rates := demo_fx_large\<rparr>)
         (demo_amount ''599497347934589.8'' 5994973479345898 (- 1)) ''USD'' ''IRR'' None
       = ''Conversion Result:\<newline>599497347934589.8 USD = 2568996004948738663417281.14 IRR\<newline>Rate: 4285249991.179340 (Bank A)\<newline>Last updated: 2024-01-01 09:00''
   \<and> converted_cents 5994973479345898 (- 1) 4285249991179340 = 256899600494873866341728113"
  by code_simp

section \<open>Accounts with a balance of zero\<close>

lemma truthy_balance_zero: "available_balance a = Some 0 \<Longrightarrow> truthy_balance a = None"
  by (simp add: truthy_balance_def)

lemma foldl_skip:
  assumes "\<And>d x. \<not> P x \<Longrightarrow> f d x = d"
  shows "foldl f d xs = foldl f d (filter P xs)"
  using assms by (induction xs arbitrary: d) auto

lemma add_to_currency_data_skip: "truthy_balance x = None \<Longrightarrow> add_to_currency_data d x = d"
  by (simp add: add_to_currency_data_def)

lemma check_step_totals_skip:
  "truthy_balance x = None \<Longrightarrow> snd (check_step state x) = snd state"
  by (cases state) (simp add: check_step_def Let_def)

lemma snd_foldl_check_step:
  assumes "\<And>x. \<not> P x \<Longrightarrow> truthy_balance x = None"
  shows "snd (foldl check_step (r, d) xs) = snd (foldl check_step (r', d) (filter P xs))"
proof (induction xs arbitrary: r r' d)
  case Nil
  show ?case by simp
next
  case (Cons x xs)
  show ?case
  proof (cases "P x")
    case True
    obtain r1 d1 where s1: "check_step (r, d) x = (r1, d1)" by (cases "check_step (r, d) x")
    obtain r2 d2 where s2: "check_step (r', d) x = (r2, d2)" by (cases "check_step (r', d) x")
    have "d1 = d2" using s1 s2
      by (auto simp: check_step_def Let_def split: option.splits)
    then show ?thesis using True s1 s2 Cons.IH [of r1 d1 r2] by simp
  next
    case False
    obtain r1 d1 where s1: "check_step (r, d) x = (r1, d1)" by (cases "check_step (r, d) x")
    have "d1 = d" using check_step_totals_skip [OF assms [OF False], of "(r, d)"] s1 by simp
    then show ?thesis using False s1 Cons.IH [of r1 d r'] by simp
  qed
qed


text \<open>
  Claim C10. An account whose balance is exactly zero fails the truth test of the
  balance tools: \<open>get_user_balance\<close> writes its balance as ``Not available'',
  \<open>get_user_accounts\<close> writes no balance line for it, \<open>get_balance_summary\<close> leaves it
  out of the totals and counts by currency, and \<open>check_account_balance\<close> writes
  ``Balance: Not available'' and leaves it out of the totals; the count ``Accounts with
  Balance Data'', taken with a null test, still includes it.
\<close>

theorem zero_balance_not_available:
  assumes "available_balance a = Some 0"
  shows "balance_line a =
           ''Bank: '' @ financial_institution_name a @ '', Account: '' @ acc_account_id a
             @ '', Balance: Not available '' @ account_currency a
             @ '', Status: '' @ account_status a
    \<and> (\<forall>result. account_block result a =
           result @ ''\<newline>--- '' @ financial_institution_name a @ '' ---\<newline>''
             @ ''Account ID: '' @ acc_account_id a @ ''\<newline>''
             @ ''Currency: '' @ account_currency a @ ''\<newline>''
             @ ''Status: '' @ account_status a @ ''\<newline>'')
    \<and> (\<forall>d. add_to_currency_data d a = d)
    \<and> (\<forall>result totals. check_step (result, totals) a =
           (result @ ''\<newline>'' @ mobile_phone @ '' Account: '' @ acc_account_id a @ ''\<newline>''
              @ ''   Currency: '' @ account_currency a @ ''\<newline>''
              @ ''   Balance: Not available\<newline>''
              @ ''   Status: '' @ account_status a @ ''\<newline>'', totals))
    \<and> (\<forall>e user_id.
          currency_data e user_id
            = foldl add_to_currency_data [] (filter (\<lambda>x. x \<noteq> a) (user_accounts e user_id))
          \<and> (a \<in> set (user_accounts e user_id) \<longrightarrow>
                a \<in> set (filter (\<lambda>x. available_balance x \<noteq> None) (user_accounts e user_id))
                \<and> 0 < accounts_with_balance_count e user_id
                \<and> (db_fault e = None \<longrightarrow>
                      get_user_balance e user_id None =
                        ''User account balances: ''
                          @ join ''; '' (map balance_line (user_accounts e user_id))
                      \<and> get_user_accounts e user_id =
                          foldl account_block
                            (''User Accounts ('' @ show_nat (length (user_accounts e user_id))
                               @ ''):\<newline>'')
                            (user_accounts e user_id))))
    \<and> (\<forall>e user_id bank_name.
          snd (check_loop e user_id bank_name)
            = snd (foldl check_step (money_bag @ '' Balance at '' @ bank_name @ '':\<newline>'', [])
                     (filter (\<lambda>x. x \<noteq> a) (bank_accounts e user_id bank_name))))"
proof -
  have t: "truthy_balance a = None" using assms by (rule truthy_balance_zero)
  have 1: "balance_line a =
           ''Bank: '' @ financial_institution_name a @ '', Account: '' @ acc_account_id a
             @ '', Balance: Not available '' @ account_currency a
             @ '', Status: '' @ account_status a"
    by (simp add: balance_line_def t)
  have 2: "\<forall>result. account_block result a =
           result @ ''\<newline>--- '' @ financial_institution_name a @ '' ---\<newline>''
             @ ''Account ID: '' @ acc_account_id a @ ''\<newline>''
             @ ''Currency: '' @ account_currency a @ ''\<newline>''
             @ ''Status: '' @ account_status a @ ''\<newline>''"
    by (simp add: account_block_def t)
  have 3: "\<forall>d. add_to_currency_data d a = d"
    by (simp add: add_to_currency_data_skip t)
  have 4: "\<forall>result totals. check_step (result, totals) a =
           (result @ ''\<newline>'' @ mobile_phone @ '' Account: '' @ acc_account_id a @ ''\<newline>''
              @ ''   Currency: '' @ account_currency a @ ''\<newline>''
              @ ''   Balance: Not available\<newline>''
              @ ''   Status: '' @ account_status a @ ''\<newline>'', totals)"
    by (simp add: check_step_def Let_def t)
  have 5: "\<forall>e user_id.
          currency_data e user_id
            = foldl add_to_currency_data [] (filter (\<lambda>x. x \<noteq> a) (user_accounts e user_id))
          \<and> (a \<in> set (user_accounts e user_id) \<longrightarrow>
                a \<in> set (filter (\<lambda>x. available_balance x \<noteq> None) (user_accounts e user_id))
                \<and> 0 < accounts_with_balance_count e user_id
                \<and> (db_fault e = None \<longrightarrow>
                      get_user_balance e user_id None =
                        ''User account balances: ''
                          @ join ''; '' (map balance_line (user_accounts e user_id))
                      \<and> get_user_accounts e user_id =
                          foldl account_block
                            (''User Accounts ('' @ show_nat (length (user_accounts e user_id))
                               @ ''):\<newline>'')
                            (user_accounts e user_id)))"
  proof (intro allI conjI impI)
    fix e user_id
    show "currency_data e user_id
            = foldl add_to_currency_data [] (filter (\<lambda>x. x \<noteq> a) (user_accounts e user_id))"
      unfolding currency_data_def
      by (rule foldl_skip) (simp add: add_to_currency_data_skip t)
  next
    fix e user_id assume m: "a \<in> set (user_accounts e user_id)"
    then show in_counted:
      "a \<in> set (filter (\<lambda>x. available_balance x \<noteq> None) (user_accounts e user_id))"
      using assms by simp
    then have "filter (\<lambda>x. available_balance x \<noteq> None) (user_accounts e user_id) \<noteq> []"
      by (metis empty_iff empty_set)
    then show "0 < accounts_with_balance_count e user_id"
      by (simp add: accounts_with_balance_count_def)
  next
    fix e user_id
    assume m: "a \<in> set (user_accounts e user_id)" and ok: "db_fault e = None"
    have ne: "user_accounts e user_id \<noteq> []" using m by auto
    show "get_user_balance e user_id None =
            ''User account balances: '' @ join ''; '' (map balance_line (user_accounts e user_id))"
      using ok ne by (simp add: get_user_balance_def)
    show "get_user_accounts e user_id =
            foldl account_block
              (''User Accounts ('' @ show_nat (length (user_accounts e user_id)) @ ''):\<newline>'')
              (user_accounts e user_id)"
      using ok ne by (simp add: get_user_accounts_def)
  qed
  have 6: "\<forall>e user_id bank_name.
          snd (check_loop e user_id bank_name)
            = snd (foldl check_step (money_bag @ '' Balance at '' @ bank_name @ '':\<newline>'', [])
                     (filter (\<lambda>x. x \<noteq> a) (bank_accounts e user_id bank_name)))"
    unfolding check_loop_def
    by (intro allI snd_foldl_check_step) (simp add: t)
  show ?thesis by (intro conjI) (rule 1 2 3 4 5 6)+
qed

theorem zero_balance_not_available_witness:
  "available_balance
     \<lparr>acc_user_id = 7, financial_institution_name = ''Bank A'', acc_account_id = ''A-7'',
      account_status = ''ACTIVE'', account_currency = ''JOD'', available_balance = Some 0\<rparr> = Some 0
   \<and> balance_line
       \<lparr>acc_user_id = 7, financial_institution_name = ''Bank A'', acc_account_id = ''A-7'',
        account_status = ''ACTIVE'', account_currency = ''JOD'', available_balance = Some 0\<rparr>
       = ''Bank: Bank A, Account: A-7, Balance: Not available JOD, Status: ACTIVE''
   \<and> get_user_balance (demo_env\<lparr>accounts := demo_zero_accounts\<rparr>) 7 None
       = ''User account balances: Bank: Bank A, Account: A-7, Balance: Not available JOD, Status: ACTIVE; Bank: Bank B, Account: B-7, Balance: 50.00 USD, Status: ACTIVE''
   \<and> get_user_accounts (demo_env\<lparr>accounts := demo_zero_accounts\<rparr>) 7
       = ''User Accounts (2):\<newline>\<newline>--- Bank A ---\<newline>Account ID: A-7\<newline>Currency: JOD\<newline>Status: ACTIVE\<newline>\<newline>--- Bank B ---\<newline>Account ID: B-7\<newline>Currency: USD\<newline>Balance: 50.00 USD\<newline>Status: ACTIVE\<newline>''
   \<and> accounts_with_balance_count (demo_env\<lparr>accounts := demo_zero_accounts\<rparr>) 7 = 2
   \<and> currency_data (demo_env\<lparr>accounts := demo_zero_accounts\<rparr>) 7 = [(''USD'', 5000, 1, [''Bank B''])]
   \<and> get_balance_summary (demo_env\<lparr>accounts := demo_zero_accounts\<rparr>) 7
       = bar_chart @ '' Balance Summary Report:\<newline>Total Accounts: 2\<newline>Active Accounts: 2\<newline>Accounts with Balance Data: 2\<newline>\<newline>''
           @ currency_exchange @ '' Balance by Currency:\<newline>''
           @ bullet @ '' USD: 50.00 across 1 account(s)\<newline>  Banks: Bank B\<newline>\<newline>''
           @ clipboard @ '' Account Status:\<newline>'' @ bullet @ '' ACTIVE: 2 account(s)\<newline>''
   \<and> check_account_balance (demo_env\<lparr>accounts := demo_zero_accounts\<rparr>) 7 ''bank''
       = money_bag @ '' Balance at bank:\<newline>\<newline>''
           @ mobile_phone @ '' Account: A-7\<newline>   Currency: JOD\<newline>   Balance: Not available\<newline>   Status: ACTIVE\<newline>\<newline>''
           @ mobile_phone @ '' Account: B-7\<newline>   Currency: USD\<newline>   Balance: 50.00 USD\<newline>   Status: ACTIVE\<newline>\<newline>''
           @ bar_chart @ '' Total at bank:\<newline>   USD: 50.00\<newline>''"
proof -
  let ?a = "\<lparr>acc_user_id = 7, financial_institution_name = ''Bank A'', acc_account_id = ''A-7'',
      account_status = ''ACTIVE'', account_currency = ''JOD'', available_balance = Some 0\<rparr>"
  let ?e = "demo_env\<lparr>accounts := demo_zero_accounts\<rparr>"
  have z: "available_balance ?a = Some 0" by simp
  have "balance_line ?a =
           ''Bank: '' @ financial_institution_name ?a @ '', Account: '' @ acc_account_id ?a
             @ '', Balance: Not available '' @ account_currency ?a
             @ '', Status: '' @ account_status ?a"
    using zero_balance_not_available [OF z] by (rule conjunct1)
  then have 1: "balance_line ?a
       = ''Bank: Bank A, Account: A-7, Balance: Not available JOD, Status: ACTIVE''"
    by simp
  have 2: "get_user_balance ?e 7 None
       = ''User account balances: Bank: Bank A, Account: A-7, Balance: Not available JOD, Status: ACTIVE; Bank: Bank B, Account: B-7, Balance: 50.00 USD, Status: ACTIVE''"
    by code_simp
  have 3: "get_user_accounts ?e 7
       = ''User Accounts (2):\<newline>\<newline>--- Bank A ---\<newline>Account ID: A-7\<newline>Currency: JOD\<newline>Status: ACTIVE\<newline>\<newline>--- Bank B ---\<newline>Account ID: B-7\<newline>Currency: USD\<newline>Balance: 50.00 USD\<newline>Status: ACTIVE\<newline>''"
    by code_simp
  have 4: "accounts_with_balance_count ?e 7 = 2" by code_simp
  have 5: "currency_data ?e 7 = [(''USD'', 5000, 1, [''Bank B''])]" by code_simp
  have 6: "get_balance_summary ?e 7
       = bar_chart @ '' Balance Summary Report:\<newline>Total Accounts: 2\<newline>Active Accounts: 2\<newline>Accounts with Balance Data: 2\<newline>\<newline>''
           @ currency_exchange @ '' Balance by Currency:\<newline>''
           @ bullet @ '' USD: 50.00 across 1 account(s)\<newline>  Banks: Bank B\<newline>\<newline>''
           @ clipboard @ '' Account Status:\<newline>'' @ bullet @ '' ACTIVE: 2 account(s)\<newline>''"
    by code_simp
  have 7: "check_account_balance ?e 7 ''bank''
       = money_bag @ '' Balance at bank:\<newline>\<newline>''
           @ mobile_phone @ '' Account: A-7\<newline>   Currency: JOD\<newline>   Balance: Not available\<newline>   Status: ACTIVE\<newline>\<newline>''
           @ mobile_phone @ '' Account: B-7\<newline>   Currency: USD\<newline>   Balance: 50.00 USD\<newline>   Status: ACTIVE\<newline>\<newline>''
           @ bar_chart @ '' Total at bank:\<newline>   USD: 50.00\<newline>''"
    by code_simp
  show ?thesis by (intro conjI) (rule z 1 2 3 4 5 6 7)+
qed

end
